theory Spec2Isabelle
  imports Main "HOL-Library.Sublist" "HOL-Library.AList"
begin

section \<open>Status mappings of the Xray clients and the reporters\<close>

text \<open>
  \<^verbatim>\<open>mapXrayStatusToJira\<close> of \<^verbatim>\<open>XrayClientFull\<close> (src/utils/xray-client-full.ts) and of
  \<^verbatim>\<open>XrayClientHybrid\<close> (xray-client-hybrid.ts). Both are a \<^verbatim>\<open>switch\<close> on a string; the
  cases are kept in the order of the source.
\<close>

definition XrayClientFull_mapXrayStatusToJira :: "string \<Rightarrow> string" where
  "XrayClientFull_mapXrayStatusToJira xrayStatus =
     (if xrayStatus = ''PASSED'' then ''Done''
      else if xrayStatus = ''FAILED'' then ''In Progress''
      else if xrayStatus = ''SKIPPED'' then ''To Do''
      else if xrayStatus = ''TODO'' then ''To Do''
      else if xrayStatus = ''EXECUTING'' then ''In Progress''
      else ''To Do'')"

definition XrayClientHybrid_mapXrayStatusToJira :: "string \<Rightarrow> string" where
  "XrayClientHybrid_mapXrayStatusToJira xrayStatus =
     (if xrayStatus = ''PASSED'' then ''Done''
      else if xrayStatus = ''FAILED'' then ''In Progress''
      else if xrayStatus = ''SKIPPED'' then ''To Do''
      else if xrayStatus = ''TODO'' then ''To Do''
      else if xrayStatus = ''EXECUTING'' then ''In Progress''
      else ''To Do'')"

text \<open>The mapping as the specification words it.\<close>

definition mapXrayStatusToJira_spec :: "string \<Rightarrow> string" where
  "mapXrayStatusToJira_spec s =
     (if s = ''PASSED'' then ''Done''
      else if s = ''FAILED'' \<or> s = ''EXECUTING'' then ''In Progress''
      else ''To Do'')"

text \<open>
  \<^verbatim>\<open>mapTestStatus\<close> of every reporter variant: \<^verbatim>\<open>XrayReporter\<close> (xray-reporter.js),
  \<^verbatim>\<open>XrayReporterFull\<close>, \<^verbatim>\<open>XrayReporterHybrid\<close>, the two copies of \<^verbatim>\<open>XrayReporterServer\<close>,
  \<^verbatim>\<open>XrayReporterSimple\<close>, \<^verbatim>\<open>XrayReporterCloud\<close> and the TypeScript \<^verbatim>\<open>XrayReporter\<close>
  (src/utils/xray-reporter.ts).
\<close>

definition XrayReporter_mapTestStatus :: "string \<Rightarrow> string" where
  "XrayReporter_mapTestStatus playwrightStatus =
     (if playwrightStatus = ''passed'' then ''PASSED''
      else if playwrightStatus = ''failed'' then ''FAILED''
      else if playwrightStatus = ''skipped'' then ''SKIPPED''
      else if playwrightStatus = ''timedOut'' then ''FAILED''
      else ''FAILED'')"

definition XrayReporterFull_mapTestStatus :: "string \<Rightarrow> string" where
  "XrayReporterFull_mapTestStatus playwrightStatus =
     (if playwrightStatus = ''passed'' then ''PASSED''
      else if playwrightStatus = ''failed'' then ''FAILED''
      else if playwrightStatus = ''skipped'' then ''SKIPPED''
      else if playwrightStatus = ''timedOut'' then ''FAILED''
      else ''FAILED'')"

definition XrayReporterHybrid_mapTestStatus :: "string \<Rightarrow> string" where
  "XrayReporterHybrid_mapTestStatus playwrightStatus =
     (if playwrightStatus = ''passed'' then ''PASSED''
      else if playwrightStatus = ''failed'' then ''FAILED''
      else if playwrightStatus = ''skipped'' then ''SKIPPED''
      else if playwrightStatus = ''timedOut'' then ''FAILED''
      else ''FAILED'')"

definition XrayReporterServer_mapTestStatus :: "string \<Rightarrow> string" where
  "XrayReporterServer_mapTestStatus playwrightStatus =
     (if playwrightStatus = ''passed'' then ''PASSED''
      else if playwrightStatus = ''failed'' then ''FAILED''
      else if playwrightStatus = ''skipped'' then ''SKIPPED''
      else if playwrightStatus = ''timedOut'' then ''FAILED''
      else ''FAILED'')"

definition XrayReporterServerEnhanced_mapTestStatus :: "string \<Rightarrow> string" where
  "XrayReporterServerEnhanced_mapTestStatus playwrightStatus =
     (if playwrightStatus = ''passed'' then ''PASSED''
      else if playwrightStatus = ''failed'' then ''FAILED''
      else if playwrightStatus = ''skipped'' then ''SKIPPED''
      else if playwrightStatus = ''timedOut'' then ''FAILED''
      else ''FAILED'')"

definition XrayReporterSimple_mapTestStatus :: "string \<Rightarrow> string" where
  "XrayReporterSimple_mapTestStatus playwrightStatus =
     (if playwrightStatus = ''passed'' then ''PASSED''
      else if playwrightStatus = ''failed'' then ''FAILED''
      else if playwrightStatus = ''skipped'' then ''SKIPPED''
      else if playwrightStatus = ''timedOut'' then ''FAILED''
      else ''FAILED'')"

definition XrayReporterCloud_mapTestStatus :: "string \<Rightarrow> string" where
  "XrayReporterCloud_mapTestStatus playwrightStatus =
     (if playwrightStatus = ''passed'' then ''PASSED''
      else if playwrightStatus = ''failed'' then ''FAILED''
      else if playwrightStatus = ''skipped'' then ''SKIPPED''
      else if playwrightStatus = ''timedOut'' then ''FAILED''
      else ''FAILED'')"

definition XrayReporterTs_mapTestStatus :: "string \<Rightarrow> string" where
  "XrayReporterTs_mapTestStatus playwrightStatus =
     (if playwrightStatus = ''passed'' then ''PASSED''
      else if playwrightStatus = ''failed'' then ''FAILED''
      else if playwrightStatus = ''skipped'' then ''SKIPPED''
      else if playwrightStatus = ''timedOut'' then ''FAILED''
      else ''FAILED'')"

definition mapTestStatus_variants :: "(string \<Rightarrow> string) list" where
  "mapTestStatus_variants =
     [XrayReporter_mapTestStatus, XrayReporterFull_mapTestStatus,
      XrayReporterHybrid_mapTestStatus, XrayReporterServer_mapTestStatus,
      XrayReporterServerEnhanced_mapTestStatus, XrayReporterSimple_mapTestStatus,
      XrayReporterCloud_mapTestStatus, XrayReporterTs_mapTestStatus]"

text \<open>The mapping as the specification words it.\<close>

definition mapTestStatus_spec :: "string \<Rightarrow> string" where
  "mapTestStatus_spec s =
     (if s = ''passed'' then ''PASSED''
      else if s = ''skipped'' then ''SKIPPED''
      else ''FAILED'')"

section \<open>Test case keys: the regular expressions of extractTestKey\<close>

text \<open>
  The reporters find a test case key with the JavaScript regular expressions
  \<^verbatim>\<open>/^([A-Z]+-\d+):/\<close> (on the test title) and \<^verbatim>\<open>/^([A-Z]+-\d+)/\<close> (on the base name of
  the test file). The fragment they use is modelled as a list of atoms (a literal character
  or a greedy, backtracking \<^verbatim>\<open>[class]+\<close>), anchored at the start of the input.
  \<open>rx_matches\<close> lists every way the atoms match a prefix of the input, in the order in
  which a backtracking matcher tries them; \<open>match_group\<close> is \<^verbatim>\<open>str.match(/^(g)t/)\<close> and
  returns capture group 1 of the first successful attempt. \<open>basename\<close> is POSIX
  \<^verbatim>\<open>path.basename\<close>.
\<close>

definition is_upper :: "char \<Rightarrow> bool" where
  "is_upper c = (65 \<le> (of_char c :: nat) \<and> (of_char c :: nat) \<le> 90)"

definition is_digit :: "char \<Rightarrow> bool" where
  "is_digit c = (48 \<le> (of_char c :: nat) \<and> (of_char c :: nat) \<le> 57)"

datatype atom = Lit char | Plus "char \<Rightarrow> bool"

fun rx_matches :: "atom list \<Rightarrow> string \<Rightarrow> (string \<times> string) list" where
  "rx_matches [] s = [([], s)]"
| "rx_matches (Lit c # as) s =
     (case s of
        [] \<Rightarrow> []
      | x # xs \<Rightarrow> if x = c then map (\<lambda>(m, r). (x # m, r)) (rx_matches as xs) else [])"
| "rx_matches (Plus P # as) s =
     concat (map (\<lambda>k. map (\<lambda>(m, r). (take k s @ m, r)) (rx_matches as (drop k s)))
                 (rev [1..<Suc (length (takeWhile P s))]))"

definition match_group :: "atom list \<Rightarrow> atom list \<Rightarrow> string \<Rightarrow> string option" where
  "match_group g t s =
     (case concat (map (\<lambda>(m, r). map (\<lambda>_. m) (rx_matches t r)) (rx_matches g s)) of
        [] \<Rightarrow> None
      | m # _ \<Rightarrow> Some m)"

definition key_rx :: "atom list" where
  "key_rx = [Plus is_upper, Lit (CHR ''-''), Plus is_digit]"

definition basename :: "string \<Rightarrow> string" where
  "basename p =
     (let q = dropWhile (\<lambda>c. c = CHR ''/'') (rev p)
      in rev (takeWhile (\<lambda>c. c \<noteq> CHR ''/'') q))"

record test_case =
  test_id :: string
  title :: string
  location_file :: "string option"

definition key_prefix :: "string \<Rightarrow> (string \<times> string) option" where
  "key_prefix s =
     (let ls = takeWhile is_upper s; r = dropWhile is_upper s
      in if ls = [] then None
         else (case r of
                 [] \<Rightarrow> None
               | c # r' \<Rightarrow>
                   if c \<noteq> CHR ''-'' then None
                   else (let ds = takeWhile is_digit r'
                         in if ds = [] then None
                            else Some (ls @ CHR ''-'' # ds, dropWhile is_digit r'))))"

definition is_key :: "string \<Rightarrow> bool" where
  "is_key k =
     (let ls = takeWhile (\<lambda>c. c \<noteq> CHR ''-'') k; r = dropWhile (\<lambda>c. c \<noteq> CHR ''-'') k
      in ls \<noteq> [] \<and> list_all is_upper ls \<and>
         (case r of [] \<Rightarrow> False | _ # ds \<Rightarrow> ds \<noteq> [] \<and> list_all is_digit ds))"

datatype js_error = JsError (err_name: string) (err_message: string)

definition error_toString :: "js_error \<Rightarrow> string" where
  "error_toString e =
     (if err_name e = [] then err_message e
      else if err_message e = [] then err_name e
      else err_name e @ '': '' @ err_message e)"

datatype json =
    JUndefined | JNull | JBool bool | JNum int | JStr string
  | JArr "json list" | JObj "(string \<times> json) list"

fun truthy :: "json \<Rightarrow> bool" where
  "truthy JUndefined = False"
| "truthy JNull = False"
| "truthy (JBool b) = b"
| "truthy (JNum n) = (n \<noteq> 0)"
| "truthy (JStr s) = (s \<noteq> [])"
| "truthy (JArr _) = True"
| "truthy (JObj _) = True"

fun js_get :: "json \<Rightarrow> string \<Rightarrow> js_error + json" where
  "js_get JUndefined k =
     Inl (JsError ''TypeError'' (''Cannot read properties of undefined (reading '' @ [CHR 0x27] @ k @ [CHR 0x27] @ '')''))"
| "js_get JNull k =
     Inl (JsError ''TypeError'' (''Cannot read properties of null (reading '' @ [CHR 0x27] @ k @ [CHR 0x27] @ '')''))"
| "js_get (JObj kvs) k = Inr (case map_of kvs k of None \<Rightarrow> JUndefined | Some v \<Rightarrow> v)"
| "js_get _ k = Inr JUndefined"

definition digit_char :: "nat \<Rightarrow> char" where
  "digit_char d = ''0123456789'' ! d"

fun show_nat :: "nat \<Rightarrow> string" where
  "show_nat n = (if n < 10 then [digit_char n] else show_nat (n div 10) @ [digit_char (n mod 10)])"

declare show_nat.simps [simp del]

definition show_int :: "int \<Rightarrow> string" where
  "show_int i = (if i < 0 then CHR ''-'' # show_nat (nat (- i)) else show_nat (nat i))"

fun join :: "string \<Rightarrow> string list \<Rightarrow> string" where
  "join sep [] = []"
| "join sep [x] = x"
| "join sep (x # y # ys) = x @ sep @ join sep (y # ys)"

fun js_String :: "json \<Rightarrow> string" where
  "js_String JUndefined = ''undefined''"
| "js_String JNull = ''null''"
| "js_String (JBool b) = (if b then ''true'' else ''false'')"
| "js_String (JNum n) = show_int n"
| "js_String (JStr s) = s"
| "js_String (JArr xs) =
     join '','' (map (\<lambda>x. if x = JNull \<or> x = JUndefined then [] else js_String x) xs)"
| "js_String (JObj _) = ''[object Object]''"

text \<open>
  A string is the list of the bytes of its UTF-8 encoding, so a character outside ASCII takes
  two to four elements. The marks below are the non-ASCII characters of the log lines and of
  the comment body, byte for byte as the source files hold them: a check mark, a cross mark
  and a test tube in the clients, and in xray-reporter-hybrid.js the five byte sequences that
  stand in front of its summary lines.
\<close>

definition nl :: string where
  "nl = [CHR 0x0A]"

definition check_mark :: string where
  "check_mark = [CHR 0xE2, CHR 0x9C, CHR 0x85]"

definition cross_mark :: string where
  "cross_mark = [CHR 0xE2, CHR 0x9D, CHR 0x8C]"

definition test_tube :: string where
  "test_tube = [CHR 0xF0, CHR 0x9F, CHR 0xA7, CHR 0xAA]"

definition hybrid_done_mark :: string where
  "hybrid_done_mark = [CHR 0xC3, CHR 0xA2, CHR 0xC5, CHR 0x93, CHR 0xE2, CHR 0x80, CHR 0xA6]"

definition hybrid_warning_mark :: string where
  "hybrid_warning_mark =
     [CHR 0xC3, CHR 0xA2, CHR 0xC5, CHR 0xA1, CHR 0xC2, CHR 0xA0, CHR 0xC3, CHR 0xAF, CHR 0xC2, CHR 0xB8]"

definition hybrid_success_mark :: string where
  "hybrid_success_mark =
     [CHR 0xC3, CHR 0xB0, CHR 0xC5, CHR 0xB8, CHR 0xC5, CHR 0xBD, CHR 0xE2, CHR 0x80, CHR 0xB0]"

definition hybrid_partial_mark :: string where
  "hybrid_partial_mark =
     [CHR 0xC3, CHR 0xB0, CHR 0xC5, CHR 0xB8, CHR 0xE2, CHR 0x80, CHR 0x9C, CHR 0xE2, CHR 0x80, CHR 0xB9]"

definition hybrid_hint_mark :: string where
  "hybrid_hint_mark =
     [CHR 0xC3, CHR 0xB0, CHR 0xC5, CHR 0xB8, CHR 0xE2, CHR 0x80, CHR 0x9D, CHR 0xC2, CHR 0xA7]"

definition or_str :: "string option \<Rightarrow> string \<Rightarrow> string" where
  "or_str x d = (case x of None \<Rightarrow> d | Some s \<Rightarrow> if s = [] then d else s)"

datatype level = Info | Warn | Err | Debug

datatype request =
    GET_issue string
  | POST_issue json
  | PUT_issue string json
  | POST_issue_comment string json
  | POST_testexecution json

datatype response = Resolved json | Rejected js_error "(int \<times> json) option"

definition req_method :: "request \<Rightarrow> string" where
  "req_method r = (case r of GET_issue _ \<Rightarrow> ''GET'' | PUT_issue _ _ \<Rightarrow> ''PUT'' | _ \<Rightarrow> ''POST'')"

definition req_url :: "request \<Rightarrow> string" where
  "req_url r =
     (case r of
        GET_issue k \<Rightarrow> ''/issue/'' @ k
      | POST_issue _ \<Rightarrow> ''/issue''
      | PUT_issue k _ \<Rightarrow> ''/issue/'' @ k
      | POST_issue_comment k _ \<Rightarrow> ''/issue/'' @ k @ ''/comment''
      | POST_testexecution _ \<Rightarrow> ''/testexecution'')"

record xray_config =
  jiraBaseUrl :: string
  jiraUsername :: string
  jiraApiToken :: string
  projectKey :: string
  environment :: string
  version :: string

definition validateConfig :: "xray_config \<Rightarrow> bool" where
  "validateConfig c =
     list_all (\<lambda>field. field c \<noteq> []) [jiraBaseUrl, jiraUsername, jiraApiToken, projectKey]"

record 's env =
  srv :: "'s \<Rightarrow> request \<Rightarrow> response \<times> 's"
  config :: xray_config
  iso_now :: string
  millis_now :: nat
  JSON_stringify :: "json \<Rightarrow> string"
  fs_existsSync :: "string \<Rightarrow> bool"

record 's world =
  server :: 's
  http :: "request list"
  logs :: "(level \<times> string) list"
  files :: "(string \<times> string) list"
  canCreateIssues :: bool

type_synonym ('a, 's) prog = "'s world \<Rightarrow> (js_error + 'a) \<times> 's world"

definition ret :: "'a \<Rightarrow> ('a, 's) prog" where
  "ret v = (\<lambda>w. (Inr v, w))"

definition throw :: "js_error \<Rightarrow> ('a, 's) prog" where
  "throw e = (\<lambda>w. (Inl e, w))"

definition bind :: "('a, 's) prog \<Rightarrow> ('a \<Rightarrow> ('b, 's) prog) \<Rightarrow> ('b, 's) prog" where
  "bind m f = (\<lambda>w. case m w of (Inl e, w') \<Rightarrow> (Inl e, w') | (Inr v, w') \<Rightarrow> f v w')"

definition try_catch :: "('a, 's) prog \<Rightarrow> (js_error \<Rightarrow> ('a, 's) prog) \<Rightarrow> ('a, 's) prog" where
  "try_catch m h = (\<lambda>w. case m w of (Inl e, w') \<Rightarrow> h e w' | (Inr v, w') \<Rightarrow> (Inr v, w'))"

definition lift :: "js_error + 'a \<Rightarrow> ('a, 's) prog" where
  "lift r = (\<lambda>w. (r, w))"

definition logger :: "level \<Rightarrow> string \<Rightarrow> (unit, 's) prog" where
  "logger lvl msg = (\<lambda>w. (Inr (), w\<lparr>logs := logs w @ [(lvl, msg)]\<rparr>))"

definition writeFileSync :: "string \<Rightarrow> string \<Rightarrow> (unit, 's) prog" where
  "writeFileSync path content = (\<lambda>w. (Inr (), w\<lparr>files := files w @ [(path, content)]\<rparr>))"

text \<open>
  Every client installs a response interceptor on its axios instance. Its rejection handler
  logs the failed call, in the detailed variants also the status and the body of the response
  when there is one, and rejects with the same error. \<open>api\<close> is the name the client uses in
  the log line (\<^verbatim>\<open>Xray API\<close>, \<^verbatim>\<open>Xray Server API\<close> or \<^verbatim>\<open>Xray Cloud API\<close>). The three
  clients modelled in full use \<^verbatim>\<open>Xray API\<close> and the detailed variant.
\<close>

definition interceptor_onRejected ::
  "string \<Rightarrow> bool \<Rightarrow> 's env \<Rightarrow> request \<Rightarrow> (int \<times> json) option \<Rightarrow> js_error \<Rightarrow> (json, 's) prog" where
  "interceptor_onRejected api detailed E req r error =
     bind (logger Err (api @ '' call failed: '' @ req_method req @ '' '' @ req_url req
                       @ '' - '' @ err_message error))
     (\<lambda>_. bind (case r of
                  None \<Rightarrow> ret ()
                | Some (st, d) \<Rightarrow>
                    if detailed
                    then bind (logger Err (''Response status: '' @ show_int st))
                              (\<lambda>_. logger Err (''Response data: '' @ JSON_stringify E d))
                    else ret ())
     (\<lambda>_. throw error))"

definition axios_request :: "'s env \<Rightarrow> request \<Rightarrow> (json, 's) prog" where
  "axios_request E req =
     (\<lambda>w. let (resp, s') = srv E (server w) req;
              w1 = w\<lparr>server := s', http := http w @ [req]\<rparr>
          in case resp of
               Resolved data \<Rightarrow>
                 bind (logger Info (''Xray API call successful: '' @ req_method req @ '' '' @ req_url req))
                      (\<lambda>_. ret data) w1
             | Rejected error r \<Rightarrow> interceptor_onRejected ''Xray API'' True E req r error w1)"

record xray_result =
  testKey_of :: string
  status_of :: string
  comment_of :: "string option"
  executionTime_of :: "nat option"
  evidence_of :: "string option list option"

record execution_info =
  summary :: string
  description :: "string option"
  testEnvironments :: "string list option"
  testPlanKey :: "string option"
  info_version :: "string option"
  user :: "string option"
  startDate :: "string option"

definition issuetype_name :: "json \<Rightarrow> js_error + json" where
  "issuetype_name data =
     (case js_get data ''fields'' of
        Inl e \<Rightarrow> Inl e
      | Inr f \<Rightarrow> (case js_get f ''issuetype'' of Inl e \<Rightarrow> Inl e | Inr t \<Rightarrow> js_get t ''name''))"

definition testCaseData :: "'s env \<Rightarrow> string \<Rightarrow> string \<Rightarrow> string option \<Rightarrow> json" where
  "testCaseData E testKey testTitle testDescription =
     JObj [(''fields'', JObj
        [(''project'', JObj [(''key'', JStr (takeWhile (\<lambda>c. c \<noteq> CHR ''-'') testKey))]),
         (''summary'', JStr testTitle),
         (''description'', JStr (or_str testDescription
             (''Automated test case created by Playwright integration'' @ nl @ nl
              @ ''Test Key: '' @ testKey @ nl @ ''Created: '' @ iso_now E))),
         (''issuetype'', JObj [(''name'', JStr ''Test'')]),
         (''priority'', JObj [(''name'', JStr ''Medium'')]),
         (''assignee'', JObj [(''name'', JStr (jiraUsername (config E)))])])]"

definition status_body :: "string \<Rightarrow> json" where
  "status_body jiraStatus = JObj [(''fields'', JObj [(''status'', JObj [(''name'', JStr jiraStatus)])])]"

definition executionComment :: "'s env \<Rightarrow> string \<Rightarrow> nat option \<Rightarrow> string option \<Rightarrow> json" where
  "executionComment E st execTime cmt =
     JObj [(''body'', JStr (''## '' @ test_tube @ '' Test Execution Result'' @ nl @ nl
        @ ''**Status**: '' @ st @ nl
        @ ''**Execution Time**: '' @ (case execTime of None \<Rightarrow> ''undefined'' | Some n \<Rightarrow> show_nat n) @ ''ms'' @ nl
        @ ''**Timestamp**: '' @ iso_now E @ nl @ nl
        @ or_str cmt ''Test executed via Playwright automation''))]"

definition test_payload :: "xray_result \<Rightarrow> json" where
  "test_payload test =
     JObj [(''testKey'', JStr (testKey_of test)),
           (''status'', JStr (status_of test)),
           (''comment'', JStr (or_str (comment_of test) ''Test executed via Playwright automation'')),
           (''executionTime'', JNum (case executionTime_of test of None \<Rightarrow> 0 | Some n \<Rightarrow> int n))]"

definition executionData :: "'s env \<Rightarrow> string \<Rightarrow> execution_info \<Rightarrow> xray_result list \<Rightarrow> json" where
  "executionData E defaultDescription info existingTestCases =
     JObj [(''testExecutionKey'', JNull),
           (''info'', JObj
              [(''summary'', JStr (summary info)),
               (''description'', JStr (or_str (description info) defaultDescription)),
               (''testEnvironments'', JArr (map JStr
                  (case testEnvironments info of None \<Rightarrow> [environment (config E)] | Some es \<Rightarrow> es))),
               (''version'', JStr (or_str (info_version info) (version (config E)))),
               (''user'', JStr (or_str (user info) (jiraUsername (config E)))),
               (''startDate'', JStr (or_str (startDate info) (iso_now E)))]),
           (''tests'', JArr (map test_payload existingTestCases))]"

definition execution_key :: "json \<Rightarrow> js_error + json" where
  "execution_key data =
     (case js_get data ''key'' of
        Inl e \<Rightarrow> Inl e
      | Inr k \<Rightarrow> if truthy k then Inr k else js_get data ''testExecutionKey'')"

subsection \<open>Construction of the clients\<close>

text \<open>
  \<^verbatim>\<open>XrayClientReadOnly.getInstance()\<close> and \<^verbatim>\<open>XrayClientHybrid.getInstance()\<close> construct the
  client when the static field \<^verbatim>\<open>instance\<close> is unset. The constructor takes the configuration
  manager and the logger and then builds the axios instance with the base URL
  \<^verbatim>\<open>this.config.getJiraApiUrlV2()\<close>. The class \<^verbatim>\<open>XrayConfigManager\<close> of
  src/config/xray-config.ts has the methods \<^verbatim>\<open>getConfig\<close>, \<^verbatim>\<open>validateConfig\<close>,
  \<^verbatim>\<open>getJiraApiUrl\<close> and \<^verbatim>\<open>getXrayApiUrl\<close> and no method \<^verbatim>\<open>getJiraApiUrlV2\<close>, so the call raises
  a TypeError before anything is logged or sent. The constructor does not return, the field
  \<^verbatim>\<open>instance\<close> stays unset, and the next call of \<^verbatim>\<open>getInstance\<close> constructs again. The methods
  of the clients are modelled below as functions of the environment; they do not depend on
  how the client was obtained.
\<close>

definition XrayConfigManager_getJiraApiUrl :: "'s env \<Rightarrow> string" where
  "XrayConfigManager_getJiraApiUrl E = jiraBaseUrl (config E) @ ''/rest/api/3''"

definition XrayConfigManager_getXrayApiUrl :: "'s env \<Rightarrow> string" where
  "XrayConfigManager_getXrayApiUrl E = jiraBaseUrl (config E) @ ''/rest/api/2''"

definition XrayConfigManager_getJiraApiUrlV2 :: "(string, 's) prog" where
  "XrayConfigManager_getJiraApiUrlV2 =
     throw (JsError ''TypeError'' ''this.config.getJiraApiUrlV2 is not a function'')"

definition XrayClientReadOnly_getInstance :: "(unit, 's) prog" where
  "XrayClientReadOnly_getInstance = bind XrayConfigManager_getJiraApiUrlV2 (\<lambda>baseURL. ret ())"

definition XrayClientHybrid_getInstance :: "(unit, 's) prog" where
  "XrayClientHybrid_getInstance = bind XrayConfigManager_getJiraApiUrlV2 (\<lambda>baseURL. ret ())"

subsection \<open>XrayClientFull\<close>

definition XrayClientFull_findTestCase_catch :: "string \<Rightarrow> js_error \<Rightarrow> (json, 's) prog" where
  "XrayClientFull_findTestCase_catch testKey error =
     bind (logger Info (''Test case '' @ testKey @ '' not found - will create it''))
          (\<lambda>_. ret JNull)"

definition XrayClientFull_findTestCase :: "'s env \<Rightarrow> string \<Rightarrow> (json, 's) prog" where
  "XrayClientFull_findTestCase E testKey =
     try_catch
       (bind (logger Info (''Searching for test case: '' @ testKey)) (\<lambda>_.
        bind (axios_request E (GET_issue testKey)) (\<lambda>data.
          if truthy data then
            bind (lift (issuetype_name data)) (\<lambda>name.
            bind (logger Info (''Found existing test case: '' @ testKey
                               @ '' (Type: '' @ js_String name @ '')'')) (\<lambda>_.
            ret data))
          else
            bind (logger Info (''Test case not found: '' @ testKey @ '' - will create it''))
                 (\<lambda>_. ret JNull))))
       (XrayClientFull_findTestCase_catch testKey)"

definition XrayClientFull_createTestCase_catch :: "string \<Rightarrow> js_error \<Rightarrow> (json, 's) prog" where
  "XrayClientFull_createTestCase_catch testKey error =
     bind (logger Err (''Failed to create test case '' @ testKey @ '': '' @ error_toString error))
          (\<lambda>_. throw error)"

definition XrayClientFull_createTestCase ::
  "'s env \<Rightarrow> string \<Rightarrow> string \<Rightarrow> string option \<Rightarrow> (json, 's) prog" where
  "XrayClientFull_createTestCase E testKey testTitle testDescription =
     try_catch
       (bind (logger Info (''Creating test case: '' @ testKey)) (\<lambda>_.
        bind (axios_request E (POST_issue (testCaseData E testKey testTitle testDescription))) (\<lambda>data.
        bind (lift (js_get data ''key'')) (\<lambda>createdTestKey.
        bind (logger Info (''Successfully created new test case: '' @ js_String createdTestKey)) (\<lambda>_.
        ret createdTestKey)))))
       (XrayClientFull_createTestCase_catch testKey)"

definition XrayClientFull_ensureTestCaseExists ::
  "'s env \<Rightarrow> string \<Rightarrow> string \<Rightarrow> string option \<Rightarrow> (json, 's) prog" where
  "XrayClientFull_ensureTestCaseExists E testKey testTitle testDescription =
     bind (XrayClientFull_findTestCase E testKey) (\<lambda>testCase.
       if \<not> truthy testCase then
         bind (logger Info (''Creating test case '' @ testKey @ '' in Xray Test Repository'')) (\<lambda>_.
         bind (XrayClientFull_createTestCase E testKey testTitle testDescription) (\<lambda>createdKey.
         lift (js_get (JObj [(''key'', createdKey)]) ''key'')))
       else lift (js_get testCase ''key''))"

definition XrayClientFull_updateTestCaseStatus_catch :: "string \<Rightarrow> js_error \<Rightarrow> (json, 's) prog" where
  "XrayClientFull_updateTestCaseStatus_catch testKey error =
     bind (logger Err (''Failed to update test case '' @ testKey @ '' status: '' @ error_toString error))
          (\<lambda>_. ret JUndefined)"

definition XrayClientFull_updateTestCaseStatus :: "'s env \<Rightarrow> string \<Rightarrow> string \<Rightarrow> (json, 's) prog" where
  "XrayClientFull_updateTestCaseStatus E testKey st =
     try_catch
       (bind (XrayClientFull_findTestCase E testKey) (\<lambda>testCase.
          if \<not> truthy testCase then
            bind (logger Warn (''Cannot update status - test case not found: '' @ testKey))
                 (\<lambda>_. ret JUndefined)
          else
            (let jiraStatus = XrayClientFull_mapXrayStatusToJira st in
             bind (axios_request E (PUT_issue testKey (status_body jiraStatus))) (\<lambda>_.
             bind (logger Info (''Updated test case '' @ testKey @ '' status to '' @ st
                                @ '' (Jira: '' @ jiraStatus @ '')'')) (\<lambda>_.
             ret JUndefined)))))
       (XrayClientFull_updateTestCaseStatus_catch testKey)"

fun XrayClientFull_updateAll_loop :: "'s env \<Rightarrow> xray_result list \<Rightarrow> (unit, 's) prog" where
  "XrayClientFull_updateAll_loop E [] = ret ()"
| "XrayClientFull_updateAll_loop E (test # rest) =
     bind (XrayClientFull_updateTestCaseStatus E (testKey_of test) (status_of test))
          (\<lambda>_. XrayClientFull_updateAll_loop E rest)"

definition XrayClientFull_updateAllTestCaseStatuses :: "'s env \<Rightarrow> xray_result list \<Rightarrow> (json, 's) prog" where
  "XrayClientFull_updateAllTestCaseStatuses E testResults =
     bind (XrayClientFull_updateAll_loop E testResults) (\<lambda>_.
     bind (logger Info (''Updated statuses for '' @ show_nat (length testResults) @ '' test cases'')) (\<lambda>_.
     ret JUndefined))"

fun XrayClientFull_ensure_loop ::
  "'s env \<Rightarrow> xray_result list \<Rightarrow> (xray_result \<times> json) list \<Rightarrow> ((xray_result \<times> json) list, 's) prog" where
  "XrayClientFull_ensure_loop E [] existingTestCases = ret existingTestCases"
| "XrayClientFull_ensure_loop E (test # rest) existingTestCases =
     (let testTitle = or_str (map_option (takeWhile (\<lambda>c. c \<noteq> CHR 0x0A)) (comment_of test))
                             (''Test '' @ testKey_of test);
          testDescription = or_str (comment_of test) (''Automated test case for '' @ testKey_of test)
      in bind (XrayClientFull_ensureTestCaseExists E (testKey_of test) testTitle (Some testDescription))
              (\<lambda>testCaseKey. XrayClientFull_ensure_loop E rest (existingTestCases @ [(test, testCaseKey)])))"

definition XrayClientFull_createTestExecution_catch :: "js_error \<Rightarrow> (json, 's) prog" where
  "XrayClientFull_createTestExecution_catch error =
     bind (logger Err (''Failed to create test execution: '' @ error_toString error))
          (\<lambda>_. throw error)"

definition XrayClientFull_createTestExecution ::
  "'s env \<Rightarrow> execution_info \<Rightarrow> xray_result list \<Rightarrow> (json, 's) prog" where
  "XrayClientFull_createTestExecution E info tests =
     try_catch
       (bind (XrayClientFull_ensure_loop E tests []) (\<lambda>existingTestCases.
          if length existingTestCases = 0 then
            throw (JsError ''Error'' ''No test cases could be created or found in Xray Test Repository'')
          else
            bind (axios_request E (POST_testexecution
                    (executionData E ''Automated test execution from Playwright'' info
                       (map fst existingTestCases)))) (\<lambda>data.
            bind (lift (execution_key data)) (\<lambda>testExecutionKey.
            bind (logger Info (''Created test execution: '' @ js_String testExecutionKey)) (\<lambda>_.
            ret testExecutionKey)))))
       XrayClientFull_createTestExecution_catch"

definition XrayClientFull_addTestExecutionComment_catch :: "string \<Rightarrow> js_error \<Rightarrow> (json, 's) prog" where
  "XrayClientFull_addTestExecutionComment_catch testKey error =
     bind (logger Err (''Failed to add comment to test case '' @ testKey @ '': '' @ error_toString error))
          (\<lambda>_. ret JUndefined)"

definition XrayClientFull_addTestExecutionComment ::
  "'s env \<Rightarrow> string \<Rightarrow> string \<Rightarrow> nat option \<Rightarrow> string option \<Rightarrow> (json, 's) prog" where
  "XrayClientFull_addTestExecutionComment E testKey st execTime cmt =
     try_catch
       (bind (axios_request E (POST_issue_comment testKey (executionComment E st execTime cmt))) (\<lambda>_.
        bind (logger Info (''Added execution comment to test case '' @ testKey)) (\<lambda>_.
        ret JUndefined)))
       (XrayClientFull_addTestExecutionComment_catch testKey)"

subsection \<open>XrayClientReadOnly\<close>

definition XrayClientReadOnly_findTestCase_catch :: "string \<Rightarrow> js_error \<Rightarrow> (json, 's) prog" where
  "XrayClientReadOnly_findTestCase_catch testKey error =
     bind (logger Err (''Failed to find test case '' @ testKey @ '': '' @ error_toString error))
          (\<lambda>_. ret JNull)"

definition XrayClientReadOnly_findTestCase :: "'s env \<Rightarrow> string \<Rightarrow> (json, 's) prog" where
  "XrayClientReadOnly_findTestCase E testKey =
     try_catch
       (bind (logger Info (''Searching for test case: '' @ testKey)) (\<lambda>_.
        bind (axios_request E (GET_issue testKey)) (\<lambda>data.
          if truthy data then
            bind (lift (issuetype_name data)) (\<lambda>name.
            bind (logger Info (''Found existing test case: '' @ testKey
                               @ '' (Type: '' @ js_String name @ '')'')) (\<lambda>_.
            ret data))
          else
            bind (logger Warn (''Test case not found: '' @ testKey)) (\<lambda>_. ret JNull))))
       (XrayClientReadOnly_findTestCase_catch testKey)"

fun XrayClientReadOnly_find_loop ::
  "'s env \<Rightarrow> xray_result list \<Rightarrow> (xray_result \<times> json) list \<Rightarrow> ((xray_result \<times> json) list, 's) prog" where
  "XrayClientReadOnly_find_loop E [] existingTestCases = ret existingTestCases"
| "XrayClientReadOnly_find_loop E (test # rest) existingTestCases =
     bind (XrayClientReadOnly_findTestCase E (testKey_of test)) (\<lambda>testCase.
       if truthy testCase then
         bind (lift (js_get testCase ''id'')) (\<lambda>testCaseId.
         bind (logger Info (''Test case '' @ testKey_of test @ '' exists and is ready for execution'')) (\<lambda>_.
         XrayClientReadOnly_find_loop E rest (existingTestCases @ [(test, testCaseId)])))
       else
         bind (logger Warn (''Test case '' @ testKey_of test @ '' not found - skipping'')) (\<lambda>_.
         XrayClientReadOnly_find_loop E rest existingTestCases))"

definition XrayClientReadOnly_createTestExecution_catch :: "js_error \<Rightarrow> (json, 's) prog" where
  "XrayClientReadOnly_createTestExecution_catch error =
     bind (logger Err (''Failed to create test execution: '' @ error_toString error))
          (\<lambda>_. throw error)"

definition XrayClientReadOnly_createTestExecution ::
  "'s env \<Rightarrow> execution_info \<Rightarrow> xray_result list \<Rightarrow> (json, 's) prog" where
  "XrayClientReadOnly_createTestExecution E info tests =
     try_catch
       (bind (XrayClientReadOnly_find_loop E tests []) (\<lambda>existingTestCases.
          if length existingTestCases = 0 then
            throw (JsError ''Error'' ''No existing test cases found to execute'')
          else
            bind (axios_request E (POST_testexecution
                    (executionData E ''Automated test execution from Playwright (Read-only mode)'' info
                       (map fst existingTestCases)))) (\<lambda>data.
            bind (lift (execution_key data)) (\<lambda>testExecutionKey.
            bind (logger Info (''Created test execution: '' @ js_String testExecutionKey)) (\<lambda>_.
            ret testExecutionKey)))))
       XrayClientReadOnly_createTestExecution_catch"

fun XrayClientReadOnly_log_loop :: "'s env \<Rightarrow> xray_result list \<Rightarrow> (unit, 's) prog" where
  "XrayClientReadOnly_log_loop E [] = ret ()"
| "XrayClientReadOnly_log_loop E (test # rest) =
     bind (XrayClientReadOnly_findTestCase E (testKey_of test)) (\<lambda>testCase.
       if truthy testCase then
         bind (lift (case js_get testCase ''fields'' of Inl e \<Rightarrow> Inl e | Inr f \<Rightarrow> js_get f ''summary'')) (\<lambda>sm.
         bind (logger Info (check_mark @ '' '' @ testKey_of test @ '': '' @ status_of test
                            @ '' - '' @ js_String sm)) (\<lambda>_.
         XrayClientReadOnly_log_loop E rest))
       else
         bind (logger Warn (cross_mark @ '' '' @ testKey_of test @ '': '' @ status_of test
                            @ '' - Test case not found'')) (\<lambda>_.
         XrayClientReadOnly_log_loop E rest))"

definition XrayClientReadOnly_logTestResults :: "'s env \<Rightarrow> xray_result list \<Rightarrow> (json, 's) prog" where
  "XrayClientReadOnly_logTestResults E testResults =
     bind (logger Info ''=== Test Execution Summary ==='') (\<lambda>_.
     bind (logger Info (''Total Tests: '' @ show_nat (length testResults))) (\<lambda>_.
     bind (XrayClientReadOnly_log_loop E testResults) (\<lambda>_.
     bind (logger Info ''=== End Test Execution Summary ==='') (\<lambda>_.
     ret JUndefined))))"

definition XrayClientReadOnly_updateTestExecutionStatus :: "json \<Rightarrow> string \<Rightarrow> (json, 's) prog" where
  "XrayClientReadOnly_updateTestExecutionStatus testExecutionKey st =
     throw (JsError ''TypeError'' ''xrayClient.updateTestExecutionStatus is not a function'')"

subsection \<open>XrayClientHybrid\<close>

definition XrayClientHybrid_findTestCase_catch :: "string \<Rightarrow> js_error \<Rightarrow> (json, 's) prog" where
  "XrayClientHybrid_findTestCase_catch testKey error =
     bind (logger Info (''Test case '' @ testKey @ '' not found - will attempt to create it''))
          (\<lambda>_. ret JNull)"

definition XrayClientHybrid_findTestCase :: "'s env \<Rightarrow> string \<Rightarrow> (json, 's) prog" where
  "XrayClientHybrid_findTestCase E testKey =
     try_catch
       (bind (logger Info (''Searching for test case: '' @ testKey)) (\<lambda>_.
        bind (axios_request E (GET_issue testKey)) (\<lambda>data.
          if truthy data then
            bind (lift (issuetype_name data)) (\<lambda>name.
            bind (logger Info (''Found existing test case: '' @ testKey
                               @ '' (Type: '' @ js_String name @ '')'')) (\<lambda>_.
            ret data))
          else
            bind (logger Info (''Test case not found: '' @ testKey)) (\<lambda>_. ret JNull))))
       (XrayClientHybrid_findTestCase_catch testKey)"

definition set_canCreateIssues :: "bool \<Rightarrow> (unit, 's) prog" where
  "set_canCreateIssues b = (\<lambda>w. (Inr (), w\<lparr>canCreateIssues := b\<rparr>))"

definition XrayClientHybrid_tryCreateTestCase_catch :: "string \<Rightarrow> js_error \<Rightarrow> (json, 's) prog" where
  "XrayClientHybrid_tryCreateTestCase_catch testKey error =
     bind (logger Warn (''Failed to create test case '' @ testKey @ '': '' @ error_toString error)) (\<lambda>_.
     bind (logger Info ''Disabling test case creation for future attempts'') (\<lambda>_.
     bind (set_canCreateIssues False) (\<lambda>_.
     ret JNull)))"

definition get_canCreateIssues :: "(bool, 's) prog" where
  "get_canCreateIssues = (\<lambda>w. (Inr (canCreateIssues w), w))"

definition XrayClientHybrid_tryCreateTestCase ::
  "'s env \<Rightarrow> string \<Rightarrow> string \<Rightarrow> string option \<Rightarrow> (json, 's) prog" where
  "XrayClientHybrid_tryCreateTestCase E testKey testTitle testDescription =
     bind get_canCreateIssues (\<lambda>can.
       if \<not> can then
         bind (logger Info (''Skipping test case creation for '' @ testKey @ '' - creation disabled''))
              (\<lambda>_. ret JNull)
       else
         try_catch
           (bind (logger Info (''Attempting to create test case: '' @ testKey)) (\<lambda>_.
            bind (axios_request E (POST_issue (testCaseData E testKey testTitle testDescription))) (\<lambda>data.
            bind (lift (js_get data ''key'')) (\<lambda>createdTestKey.
            bind (logger Info (''Successfully created new test case: '' @ js_String createdTestKey)) (\<lambda>_.
            ret createdTestKey)))))
           (XrayClientHybrid_tryCreateTestCase_catch testKey))"

definition XrayClientHybrid_ensureTestCaseExists ::
  "'s env \<Rightarrow> string \<Rightarrow> string \<Rightarrow> string option \<Rightarrow> (json, 's) prog" where
  "XrayClientHybrid_ensureTestCaseExists E testKey testTitle testDescription =
     bind (XrayClientHybrid_findTestCase E testKey) (\<lambda>testCase.
       if \<not> truthy testCase then
         bind (XrayClientHybrid_tryCreateTestCase E testKey testTitle testDescription) (\<lambda>createdKey.
           if truthy createdKey then lift (js_get (JObj [(''key'', createdKey)]) ''key'')
           else bind (logger Warn (''Test case '' @ testKey @ '' not found and could not be created''))
                     (\<lambda>_. ret JNull))
       else lift (js_get testCase ''key''))"

definition XrayClientHybrid_updateTestCaseStatus_catch :: "string \<Rightarrow> js_error \<Rightarrow> (json, 's) prog" where
  "XrayClientHybrid_updateTestCaseStatus_catch testKey error =
     bind (logger Err (''Failed to update test case '' @ testKey @ '' status: '' @ error_toString error))
          (\<lambda>_. ret (JBool False))"

definition XrayClientHybrid_updateTestCaseStatus :: "'s env \<Rightarrow> string \<Rightarrow> string \<Rightarrow> (json, 's) prog" where
  "XrayClientHybrid_updateTestCaseStatus E testKey st =
     try_catch
       (bind (XrayClientHybrid_findTestCase E testKey) (\<lambda>testCase.
          if \<not> truthy testCase then
            bind (logger Warn (''Cannot update status - test case not found: '' @ testKey))
                 (\<lambda>_. ret (JBool False))
          else
            (let jiraStatus = XrayClientHybrid_mapXrayStatusToJira st in
             bind (axios_request E (PUT_issue testKey (status_body jiraStatus))) (\<lambda>_.
             bind (logger Info (''Updated test case '' @ testKey @ '' status to '' @ st
                                @ '' (Jira: '' @ jiraStatus @ '')'')) (\<lambda>_.
             ret (JBool True))))))
       (XrayClientHybrid_updateTestCaseStatus_catch testKey)"

fun XrayClientHybrid_updateAll_loop :: "'s env \<Rightarrow> xray_result list \<Rightarrow> nat \<Rightarrow> (nat, 's) prog" where
  "XrayClientHybrid_updateAll_loop E [] successCount = ret successCount"
| "XrayClientHybrid_updateAll_loop E (test # rest) successCount =
     bind (XrayClientHybrid_updateTestCaseStatus E (testKey_of test) (status_of test)) (\<lambda>success.
       XrayClientHybrid_updateAll_loop E rest (if truthy success then successCount + 1 else successCount))"

definition XrayClientHybrid_updateAllTestCaseStatuses :: "'s env \<Rightarrow> xray_result list \<Rightarrow> (json, 's) prog" where
  "XrayClientHybrid_updateAllTestCaseStatuses E testResults =
     bind (XrayClientHybrid_updateAll_loop E testResults 0) (\<lambda>successCount.
     bind (logger Info (''Updated statuses for '' @ show_nat successCount @ ''/''
                        @ show_nat (length testResults) @ '' test cases'')) (\<lambda>_.
     ret JUndefined))"

definition XrayClientHybrid_addTestExecutionComment_catch :: "string \<Rightarrow> js_error \<Rightarrow> (json, 's) prog" where
  "XrayClientHybrid_addTestExecutionComment_catch testKey error =
     bind (logger Err (''Failed to add comment to test case '' @ testKey @ '': '' @ error_toString error))
          (\<lambda>_. ret (JBool False))"

definition XrayClientHybrid_addTestExecutionComment ::
  "'s env \<Rightarrow> string \<Rightarrow> string \<Rightarrow> nat option \<Rightarrow> string option \<Rightarrow> (json, 's) prog" where
  "XrayClientHybrid_addTestExecutionComment E testKey st execTime cmt =
     try_catch
       (bind (XrayClientHybrid_findTestCase E testKey) (\<lambda>testCase.
          if \<not> truthy testCase then
            bind (logger Warn (''Cannot add comment - test case not found: '' @ testKey))
                 (\<lambda>_. ret (JBool False))
          else
            bind (axios_request E (POST_issue_comment testKey (executionComment E st execTime cmt))) (\<lambda>_.
            bind (logger Info (''Added execution comment to test case '' @ testKey)) (\<lambda>_.
            ret (JBool True)))))
       (XrayClientHybrid_addTestExecutionComment_catch testKey)"

fun XrayClientHybrid_find_loop ::
  "'s env \<Rightarrow> xray_result list \<Rightarrow> (xray_result \<times> json) list \<Rightarrow> ((xray_result \<times> json) list, 's) prog" where
  "XrayClientHybrid_find_loop E [] existingTestCases = ret existingTestCases"
| "XrayClientHybrid_find_loop E (test # rest) existingTestCases =
     bind (XrayClientHybrid_findTestCase E (testKey_of test)) (\<lambda>testCase.
       if truthy testCase then
         bind (lift (js_get testCase ''key'')) (\<lambda>testCaseId.
         XrayClientHybrid_find_loop E rest (existingTestCases @ [(test, testCaseId)]))
       else
         bind (logger Warn (''Test case '' @ testKey_of test @ '' not found - skipping from execution'')) (\<lambda>_.
         XrayClientHybrid_find_loop E rest existingTestCases))"

definition XrayClientHybrid_createTestExecution_catch :: "js_error \<Rightarrow> (json, 's) prog" where
  "XrayClientHybrid_createTestExecution_catch error =
     bind (logger Err (''Failed to create test execution: '' @ error_toString error))
          (\<lambda>_. ret JNull)"

definition XrayClientHybrid_createTestExecution ::
  "'s env \<Rightarrow> execution_info \<Rightarrow> xray_result list \<Rightarrow> (json, 's) prog" where
  "XrayClientHybrid_createTestExecution E info tests =
     try_catch
       (bind (XrayClientHybrid_find_loop E tests []) (\<lambda>existingTestCases.
          if length existingTestCases = 0 then
            bind (logger Warn ''No existing test cases found for execution'') (\<lambda>_. ret JNull)
          else
            bind (axios_request E (POST_testexecution
                    (executionData E ''Automated test execution from Playwright'' info
                       (map fst existingTestCases)))) (\<lambda>data.
            bind (lift (execution_key data)) (\<lambda>testExecutionKey.
            bind (logger Info (''Created test execution: '' @ js_String testExecutionKey)) (\<lambda>_.
            ret testExecutionKey)))))
       XrayClientHybrid_createTestExecution_catch"

subsection \<open>Reporters\<close>

record test_result =
  result_status :: string
  duration :: nat
  error_message :: "string option"
  attachments :: "string option list option"

record reporter_options =
  opt_environment :: "string option"
  opt_testPlanKey :: "string option"
  opt_version :: "string option"
  opt_outputDir :: "string option"

record reporter =
  options :: reporter_options
  testResults :: "(string \<times> xray_result) list"
  startTime :: nat

text \<open>
  \<open>white_space\<close> lists the encodings of the characters the regular expression class
  \<^verbatim>\<open>\s\<close> matches: tab, line feed, vertical tab, form feed, carriage return, space, U+00A0,
  U+1680, U+2000 to U+200A, U+2028, U+2029, U+202F, U+205F, U+3000 and U+FEFF.
  \<open>replace_ws\<close> is \<^verbatim>\<open>replace(/\s+/g, '-')\<close>: every maximal run of such characters becomes one
  hyphen. \<open>replace_ws_from skip inrun\<close> scans the string; \<open>skip\<close> counts the bytes still to drop
  of the white-space character it is in, \<open>inrun\<close> says that the hyphen of the current run is
  already written.
\<close>

definition white_space :: "string list" where
  "white_space =
     [[CHR 0x09], [CHR 0x0A], [CHR 0x0B], [CHR 0x0C], [CHR 0x0D], [CHR 0x20],
      [CHR 0xC2, CHR 0xA0], [CHR 0xE1, CHR 0x9A, CHR 0x80],
      [CHR 0xE2, CHR 0x80, CHR 0x80], [CHR 0xE2, CHR 0x80, CHR 0x81], [CHR 0xE2, CHR 0x80, CHR 0x82],
      [CHR 0xE2, CHR 0x80, CHR 0x83], [CHR 0xE2, CHR 0x80, CHR 0x84], [CHR 0xE2, CHR 0x80, CHR 0x85],
      [CHR 0xE2, CHR 0x80, CHR 0x86], [CHR 0xE2, CHR 0x80, CHR 0x87], [CHR 0xE2, CHR 0x80, CHR 0x88],
      [CHR 0xE2, CHR 0x80, CHR 0x89], [CHR 0xE2, CHR 0x80, CHR 0x8A],
      [CHR 0xE2, CHR 0x80, CHR 0xA8], [CHR 0xE2, CHR 0x80, CHR 0xA9], [CHR 0xE2, CHR 0x80, CHR 0xAF],
      [CHR 0xE2, CHR 0x81, CHR 0x9F], [CHR 0xE3, CHR 0x80, CHR 0x80], [CHR 0xEF, CHR 0xBB, CHR 0xBF]]"

definition space_at :: "string \<Rightarrow> nat option" where
  "space_at s = map_option length (List.find (\<lambda>p. prefix p s) white_space)"

fun replace_ws_from :: "nat \<Rightarrow> bool \<Rightarrow> string \<Rightarrow> string" where
  "replace_ws_from skip inrun [] = []"
| "replace_ws_from skip inrun (c # cs) =
     (if 0 < skip then replace_ws_from (skip - 1) inrun cs
      else case space_at (c # cs) of
             Some n \<Rightarrow> (if inrun then [] else ''-'') @ replace_ws_from (n - 1) True cs
           | None \<Rightarrow> c # replace_ws_from 0 False cs)"

definition replace_ws :: "string \<Rightarrow> string" where
  "replace_ws s = replace_ws_from 0 False s"

definition Map_set :: "string \<Rightarrow> xray_result \<Rightarrow> (string \<times> xray_result) list \<Rightarrow> (string \<times> xray_result) list" where
  "Map_set k v m = AList.update k v m"

definition Map_values :: "(string \<times> xray_result) list \<Rightarrow> xray_result list" where
  "Map_values m = map snd m"

definition executing_result :: "string \<Rightarrow> test_case \<Rightarrow> xray_result" where
  "executing_result key test =
     \<lparr>testKey_of = key, status_of = ''EXECUTING'', comment_of = Some (''Test started: '' @ title test),
      executionTime_of = Some 0, evidence_of = None\<rparr>"

text \<open>
  \<open>path_join\<close> is \<^verbatim>\<open>path.join\<close> of Node.js on a POSIX system, for two arguments: the
  non-empty arguments are joined by a slash and the result is normalised. \<open>normalizeString\<close>
  walks the segments between the slashes: an empty segment and a single dot are dropped, two
  dots remove the segment before them, or are kept when there is none and the path is
  relative.
\<close>

fun segments_from :: "string \<Rightarrow> string \<Rightarrow> string list" where
  "segments_from cur [] = [cur]"
| "segments_from cur (c # cs) =
     (if c = CHR ''/'' then cur # segments_from [] cs else segments_from (cur @ [c]) cs)"

definition normalize_step :: "bool \<Rightarrow> string list \<Rightarrow> string \<Rightarrow> string list" where
  "normalize_step allowAboveRoot res seg =
     (if seg = [] \<or> seg = ''.'' then res
      else if seg = ''..'' then
        (if res \<noteq> [] \<and> last res \<noteq> ''..'' then butlast res
         else if allowAboveRoot then res @ [''..'']
         else res)
      else res @ [seg])"

definition normalizeString :: "string \<Rightarrow> bool \<Rightarrow> string" where
  "normalizeString path allowAboveRoot =
     join ''/'' (foldl (normalize_step allowAboveRoot) [] (segments_from [] path))"

definition posix_normalize :: "string \<Rightarrow> string" where
  "posix_normalize path =
     (if path = [] then ''.''
      else
        (let isAbsolute = (hd path = CHR ''/'');
             trailingSeparator = (last path = CHR ''/'');
             p = normalizeString path (\<not> isAbsolute)
         in if p = [] then (if isAbsolute then ''/'' else if trailingSeparator then ''./'' else ''.'')
            else (if isAbsolute then ''/'' else []) @ p @ (if trailingSeparator then ''/'' else [])))"

definition path_join :: "string \<Rightarrow> string \<Rightarrow> string" where
  "path_join dir name =
     (let parts = filter (\<lambda>s. s \<noteq> []) [dir, name]
      in if parts = [] then ''.'' else posix_normalize (join ''/'' parts))"

definition result_json :: "xray_result \<Rightarrow> json" where
  "result_json r =
     JObj ([(''testKey'', JStr (testKey_of r)), (''status'', JStr (status_of r))]
           @ (case comment_of r of None \<Rightarrow> [] | Some c \<Rightarrow> [(''comment'', JStr c)])
           @ (case executionTime_of r of None \<Rightarrow> [] | Some n \<Rightarrow> [(''executionTime'', JNum (int n))])
           @ (case evidence_of r of None \<Rightarrow> []
              | Some ev \<Rightarrow> [(''evidence'', JArr (map (\<lambda>p. case p of None \<Rightarrow> JUndefined | Some q \<Rightarrow> JStr q) ev))]))"

definition outputDir_set :: "reporter \<Rightarrow> string option" where
  "outputDir_set R =
     (case opt_outputDir (options R) of None \<Rightarrow> None | Some d \<Rightarrow> if d = [] then None else Some d)"

subsubsection \<open>XrayReporter (xray-reporter.js)\<close>

definition XrayReporter_extractTestKey :: "test_case \<Rightarrow> string option" where
  "XrayReporter_extractTestKey test =
     (case match_group key_rx [Lit (CHR '':'')] (title test) of
        Some k \<Rightarrow> Some k
      | None \<Rightarrow>
          (let fileName = basename (case location_file test of None \<Rightarrow> [] | Some f \<Rightarrow> f)
           in match_group key_rx [] fileName))"

definition XrayReporter_generateTestComment :: "test_case \<Rightarrow> test_result \<Rightarrow> string" where
  "XrayReporter_generateTestComment test result =
     ''Test: '' @ title test @ nl
     @ ''Status: '' @ result_status result @ nl
     @ ''Duration: '' @ show_nat (duration result) @ ''ms'' @ nl
     @ (case error_message result of None \<Rightarrow> [] | Some m \<Rightarrow> ''Error: '' @ m @ nl)
     @ (case attachments result of None \<Rightarrow> []
        | Some as \<Rightarrow> ''Attachments: '' @ show_nat (length as) @ '' file(s)'' @ nl)"

definition XrayReporter_generateEvidence :: "'s env \<Rightarrow> test_case \<Rightarrow> test_result \<Rightarrow> string option list" where
  "XrayReporter_generateEvidence E test result =
     (case attachments result of None \<Rightarrow> []
      | Some as \<Rightarrow> filter (\<lambda>p. case p of None \<Rightarrow> False | Some q \<Rightarrow> q \<noteq> []) as)
     @ (if result_status result = ''failed'' \<and> error_message result \<noteq> None then
          (let screenshotPath = ''test-results/failure-'' @ replace_ws (title test) @ ''-''
                                @ show_nat (millis_now E) @ ''.png''
           in if fs_existsSync E screenshotPath then [Some screenshotPath] else [])
        else [])"

definition XrayReporter_onBegin :: "'s env \<Rightarrow> reporter \<Rightarrow> (reporter, 's) prog" where
  "XrayReporter_onBegin E R =
     bind (logger Info ''Xray Reporter: Test execution started'') (\<lambda>_.
     ret (R\<lparr>startTime := millis_now E\<rparr>))"

definition XrayReporter_onTestBegin :: "'s env \<Rightarrow> test_case \<Rightarrow> reporter \<Rightarrow> (reporter, 's) prog" where
  "XrayReporter_onTestBegin E test R =
     (case XrayReporter_extractTestKey test of
        Some key \<Rightarrow>
          ret (R\<lparr>testResults := Map_set (test_id test) (executing_result key test) (testResults R)\<rparr>)
      | None \<Rightarrow> ret R)"

definition XrayReporter_onTestEnd ::
  "'s env \<Rightarrow> test_case \<Rightarrow> test_result \<Rightarrow> reporter \<Rightarrow> (reporter, 's) prog" where
  "XrayReporter_onTestEnd E test result R =
     (case XrayReporter_extractTestKey test of
        Some key \<Rightarrow>
          (let st = XrayReporter_mapTestStatus (result_status result);
               xrayResult = \<lparr>testKey_of = key, status_of = st,
                  comment_of = Some (XrayReporter_generateTestComment test result),
                  executionTime_of = Some (duration result),
                  evidence_of = Some (XrayReporter_generateEvidence E test result)\<rparr>
           in bind (logger Info (''Test '' @ key @ '' completed with status: '' @ st)) (\<lambda>_.
              ret (R\<lparr>testResults := Map_set (test_id test) xrayResult (testResults R)\<rparr>)))
      | None \<Rightarrow> ret R)"

definition XrayReporter_reportToXray_catch :: "js_error \<Rightarrow> (json, 's) prog" where
  "XrayReporter_reportToXray_catch error =
     bind (logger Err (''Failed to report test results to Xray: '' @ error_toString error))
          (\<lambda>_. throw error)"

text \<open>
  \<^verbatim>\<open>reportToXray\<close> obtains the client inside its \<^verbatim>\<open>try\<close> block and then runs the statements
  that \<open>XrayReporter_reportToXray_steps\<close> transcribes. \<^verbatim>\<open>XrayClientReadOnly\<close> has no method
  \<^verbatim>\<open>updateTestExecutionStatus\<close>; the call of it in the steps raises a TypeError.
\<close>

definition XrayReporter_reportToXray_steps :: "'s env \<Rightarrow> reporter \<Rightarrow> xray_result list \<Rightarrow> (json, 's) prog" where
  "XrayReporter_reportToXray_steps E R results =
     bind (logger Info ''Logging test results...'') (\<lambda>_.
     bind (XrayClientReadOnly_logTestResults E results) (\<lambda>_.
     bind (logger Info ''Creating test execution for tracking...'') (\<lambda>_.
     (let executionInfo =
            \<lparr>summary = ''Automated Test Execution - '' @ iso_now E,
             description = Some (''Playwright test execution completed in ''
                @ show_int (int (millis_now E) - int (startTime R)) @ ''ms''),
             testEnvironments =
               Some [or_str (opt_environment (options R)) (environment (config E))],
             testPlanKey = opt_testPlanKey (options R),
             info_version = Some (or_str (opt_version (options R)) (version (config E))),
             user = Some (jiraUsername (config E)),
             startDate = None\<rparr>
      in
     bind (XrayClientReadOnly_createTestExecution E executionInfo results) (\<lambda>testExecutionKey.
     (let hasFailures = list_ex (\<lambda>r. status_of r = ''FAILED'') results;
          finalStatus = (if hasFailures then ''FAILED'' else ''PASSED'')
      in
     bind (XrayClientReadOnly_updateTestExecutionStatus testExecutionKey finalStatus) (\<lambda>_.
     bind (logger Info (''Successfully reported '' @ show_nat (length results)
             @ '' test results to Xray. Test Execution: '' @ js_String testExecutionKey)) (\<lambda>_.
     bind (case outputDir_set R of
             None \<Rightarrow> ret ()
           | Some d \<Rightarrow> writeFileSync (path_join d ''xray-execution-key.txt'')
                                      (js_String testExecutionKey)) (\<lambda>_.
     ret JUndefined)))))))))"

definition XrayReporter_reportToXray :: "'s env \<Rightarrow> reporter \<Rightarrow> (json, 's) prog" where
  "XrayReporter_reportToXray E R =
     (let results = Map_values (testResults R) in
      if length results = 0 then
        bind (logger Warn ''No test results to report to Xray'') (\<lambda>_. ret JUndefined)
      else
        try_catch
          (bind XrayClientReadOnly_getInstance (\<lambda>xrayClient.
           XrayReporter_reportToXray_steps E R results))
          XrayReporter_reportToXray_catch)"

definition XrayReporter_onEnd_catch :: "js_error \<Rightarrow> (json, 's) prog" where
  "XrayReporter_onEnd_catch error =
     bind (logger Err (''Failed to report to Xray: '' @ error_toString error)) (\<lambda>_. ret JUndefined)"

definition XrayReporter_onEnd :: "'s env \<Rightarrow> reporter \<Rightarrow> (json, 's) prog" where
  "XrayReporter_onEnd E R =
     bind (logger Info ''Xray Reporter: Test execution completed'') (\<lambda>_.
     try_catch
       (if validateConfig (config E) then XrayReporter_reportToXray E R
        else bind (logger Warn ''Xray configuration is incomplete. Skipping Xray reporting.'')
                  (\<lambda>_. ret JUndefined))
       XrayReporter_onEnd_catch)"

subsubsection \<open>XrayReporterFull (xray-reporter-full.js) and XrayReporterHybrid (xray-reporter-hybrid.js)\<close>

definition XrayReporterHybrid_extractTestKey :: "test_case \<Rightarrow> string option" where
  "XrayReporterHybrid_extractTestKey test =
     (case match_group key_rx [Lit (CHR '':'')] (title test) of
        Some k \<Rightarrow> Some k
      | None \<Rightarrow>
          (let fileName = basename (case location_file test of None \<Rightarrow> [] | Some f \<Rightarrow> f)
           in match_group key_rx [] fileName))"

definition XrayReporterHybrid_generateTestComment :: "test_case \<Rightarrow> test_result \<Rightarrow> string" where
  "XrayReporterHybrid_generateTestComment test result =
     ''Test: '' @ title test @ nl
     @ ''Status: '' @ result_status result @ nl
     @ ''Duration: '' @ show_nat (duration result) @ ''ms'' @ nl
     @ (case error_message result of None \<Rightarrow> [] | Some m \<Rightarrow> ''Error: '' @ m @ nl)"

definition XrayReporterHybrid_generateEvidence :: "test_case \<Rightarrow> test_result \<Rightarrow> string option list" where
  "XrayReporterHybrid_generateEvidence test result =
     (case attachments result of None \<Rightarrow> [] | Some as \<Rightarrow> as)"

definition XrayReporterHybrid_onBegin :: "'s env \<Rightarrow> reporter \<Rightarrow> (reporter, 's) prog" where
  "XrayReporterHybrid_onBegin E R =
     bind (logger Info ''Xray Reporter (Hybrid): Test execution started'') (\<lambda>_.
     ret (R\<lparr>startTime := millis_now E\<rparr>))"

definition XrayReporterHybrid_onTestBegin :: "'s env \<Rightarrow> test_case \<Rightarrow> reporter \<Rightarrow> (reporter, 's) prog" where
  "XrayReporterHybrid_onTestBegin E test R =
     (case XrayReporterHybrid_extractTestKey test of
        Some key \<Rightarrow>
          ret (R\<lparr>testResults := Map_set (test_id test) (executing_result key test) (testResults R)\<rparr>)
      | None \<Rightarrow> ret R)"

definition XrayReporterHybrid_onTestEnd ::
  "'s env \<Rightarrow> test_case \<Rightarrow> test_result \<Rightarrow> reporter \<Rightarrow> (reporter, 's) prog" where
  "XrayReporterHybrid_onTestEnd E test result R =
     (case XrayReporterHybrid_extractTestKey test of
        Some key \<Rightarrow>
          (let st = XrayReporterHybrid_mapTestStatus (result_status result);
               xrayResult = \<lparr>testKey_of = key, status_of = st,
                  comment_of = Some (XrayReporterHybrid_generateTestComment test result),
                  executionTime_of = Some (duration result),
                  evidence_of = Some (XrayReporterHybrid_generateEvidence test result)\<rparr>
           in bind (logger Info (''Test '' @ key @ '' completed with status: '' @ st)) (\<lambda>_.
              ret (R\<lparr>testResults := Map_set (test_id test) xrayResult (testResults R)\<rparr>)))
      | None \<Rightarrow> ret R)"

definition results_description :: "'s env \<Rightarrow> reporter \<Rightarrow> xray_result list \<Rightarrow> string" where
  "results_description E R results =
     ''Playwright test execution completed in ''
     @ show_int (int (millis_now E) - int (startTime R)) @ ''ms'' @ nl @ nl
     @ ''Test Results:'' @ nl
     @ join nl (map (\<lambda>r. ''- '' @ testKey_of r @ '': '' @ status_of r) results)"

definition reporter_executionInfo :: "'s env \<Rightarrow> reporter \<Rightarrow> xray_result list \<Rightarrow> execution_info" where
  "reporter_executionInfo E R results =
     \<lparr>summary = ''Automated Test Execution - '' @ iso_now E,
      description = Some (results_description E R results),
      testEnvironments = Some [or_str (opt_environment (options R)) (environment (config E))],
      testPlanKey = opt_testPlanKey (options R),
      info_version = Some (or_str (opt_version (options R)) (version (config E))),
      user = Some (jiraUsername (config E)),
      startDate = None\<rparr>"

definition status_updates :: "xray_result list \<Rightarrow> string" where
  "status_updates results = join '', '' (map (\<lambda>r. testKey_of r @ '' -> '' @ status_of r) results)"

fun XrayReporterHybrid_comment_loop :: "'s env \<Rightarrow> xray_result list \<Rightarrow> nat \<Rightarrow> (nat, 's) prog" where
  "XrayReporterHybrid_comment_loop E [] commentSuccessCount = ret commentSuccessCount"
| "XrayReporterHybrid_comment_loop E (test # rest) commentSuccessCount =
     bind (XrayClientHybrid_addTestExecutionComment E (testKey_of test) (status_of test)
             (executionTime_of test) (comment_of test)) (\<lambda>success.
       XrayReporterHybrid_comment_loop E rest
         (if truthy success then commentSuccessCount + 1 else commentSuccessCount))"

definition XrayReporterHybrid_reportToXray_catch :: "js_error \<Rightarrow> (json, 's) prog" where
  "XrayReporterHybrid_reportToXray_catch error =
     bind (logger Err (''Failed to report test results to Xray: '' @ error_toString error))
          (\<lambda>_. throw error)"

text \<open>
  \<^verbatim>\<open>XrayReporterHybrid.reportToXray\<close> obtains the client inside its \<^verbatim>\<open>try\<close> block and then
  runs the statements that \<open>XrayReporterHybrid_reportToXray_steps\<close> transcribes: step 1
  updates the statuses, step 2 posts the comments, step 3 creates the test execution, step 4
  logs the summary.
\<close>

definition XrayReporterHybrid_reportToXray_steps ::
  "'s env \<Rightarrow> reporter \<Rightarrow> xray_result list \<Rightarrow> (json, 's) prog" where
  "XrayReporterHybrid_reportToXray_steps E R results =
     bind (logger Info ''=== Starting Xray Integration ==='') (\<lambda>_.
     bind (logger Info ''Updating test case statuses...'') (\<lambda>_.
     bind (XrayClientHybrid_updateAllTestCaseStatuses E results) (\<lambda>_.
     bind (logger Info ''Adding execution comments to test cases...'') (\<lambda>_.
     bind (XrayReporterHybrid_comment_loop E results 0) (\<lambda>commentSuccessCount.
     bind (logger Info ''Creating test execution...'') (\<lambda>_.
     bind (XrayClientHybrid_createTestExecution E (reporter_executionInfo E R results) results)
       (\<lambda>testExecutionKey.
     bind (logger Info ''=== Xray Integration Summary ==='') (\<lambda>_.
     bind (if truthy testExecutionKey
           then logger Info (hybrid_done_mark @ '' Test Execution Created: '' @ js_String testExecutionKey)
           else logger Info (hybrid_warning_mark
                  @ ''  Test Execution: Could not create (no existing test cases found)'')) (\<lambda>_.
     bind (logger Info (hybrid_done_mark @ '' Test Cases Processed: '' @ show_nat (length results))) (\<lambda>_.
     bind (logger Info (hybrid_done_mark @ '' Comments Added: '' @ show_nat commentSuccessCount @ ''/''
                        @ show_nat (length results))) (\<lambda>_.
     bind (logger Info (hybrid_done_mark @ '' Status Updates: '' @ status_updates results)) (\<lambda>_.
     bind (logger Info ''=== End Xray Integration Summary ==='') (\<lambda>_.
     bind (case outputDir_set R of
             None \<Rightarrow> ret ()
           | Some d \<Rightarrow>
               (let outputFile = path_join d ''xray-integration-results.json'';
                    resultsData = JObj
                      [(''timestamp'', JStr (iso_now E)),
                       (''testExecutionKey'', testExecutionKey),
                       (''testResults'', JArr (map result_json results)),
                       (''summary'', JObj
                          [(''totalTests'', JNum (int (length results))),
                           (''commentsAdded'', JNum (int commentSuccessCount)),
                           (''executionCreated'', JBool (truthy testExecutionKey))])]
                in bind (writeFileSync outputFile (JSON_stringify E resultsData)) (\<lambda>_.
                   logger Info (''Integration results saved to: '' @ outputFile)))) (\<lambda>_.
     bind (if truthy testExecutionKey
           then logger Info (hybrid_success_mark @ '' Successfully integrated with Xray! Test Execution: ''
                             @ js_String testExecutionKey)
           else bind (logger Info (hybrid_partial_mark
                        @ '' Partial integration completed - test cases updated but execution not created''))
                  (\<lambda>_. logger Info (hybrid_hint_mark
                        @ '' To create test executions, ensure test cases exist in Xray Test Repository''))) (\<lambda>_.
     ret JUndefined)))))))))))))))"

definition XrayReporterHybrid_reportToXray :: "'s env \<Rightarrow> reporter \<Rightarrow> (json, 's) prog" where
  "XrayReporterHybrid_reportToXray E R =
     (let results = Map_values (testResults R) in
      if length results = 0 then
        bind (logger Warn ''No test results to report to Xray'') (\<lambda>_. ret JUndefined)
      else
        try_catch
          (bind XrayClientHybrid_getInstance (\<lambda>xrayClient.
           XrayReporterHybrid_reportToXray_steps E R results))
          XrayReporterHybrid_reportToXray_catch)"

definition XrayReporterHybrid_onEnd_catch :: "js_error \<Rightarrow> (json, 's) prog" where
  "XrayReporterHybrid_onEnd_catch error =
     bind (logger Err (''Failed to report to Xray: '' @ error_toString error)) (\<lambda>_. ret JUndefined)"

definition XrayReporterHybrid_onEnd :: "'s env \<Rightarrow> reporter \<Rightarrow> (json, 's) prog" where
  "XrayReporterHybrid_onEnd E R =
     bind (logger Info ''Xray Reporter (Hybrid): Test execution completed'') (\<lambda>_.
     try_catch
       (if validateConfig (config E) then XrayReporterHybrid_reportToXray E R
        else bind (logger Warn ''Xray configuration is incomplete. Skipping Xray reporting.'')
                  (\<lambda>_. ret JUndefined))
       XrayReporterHybrid_onEnd_catch)"

section \<open>Example inputs\<close>

text \<open>
  A server that knows every issue and accepts every request, a server that rejects every
  request, and a reporter that has collected one passed test.
\<close>

definition example_issue :: "string \<Rightarrow> json" where
  "example_issue k =
     JObj [(''key'', JStr k), (''id'', JStr ''10001''),
           (''fields'', JObj [(''issuetype'', JObj [(''name'', JStr ''Test'')]),
                              (''summary'', JStr ''Login'')])]"

definition accepting_srv :: "unit \<Rightarrow> request \<Rightarrow> response \<times> unit" where
  "accepting_srv s q =
     (case q of
        GET_issue k \<Rightarrow> (Resolved (example_issue k), ())
      | POST_testexecution _ \<Rightarrow> (Resolved (JObj [(''key'', JStr ''EXEC-1'')]), ())
      | _ \<Rightarrow> (Resolved (JObj []), ()))"

definition rejecting_srv :: "unit \<Rightarrow> request \<Rightarrow> response \<times> unit" where
  "rejecting_srv s q =
     (Rejected (JsError ''AxiosError'' ''Request failed with status code 404'') (Some (404, JObj [])), ())"

definition example_config :: xray_config where
  "example_config =
     \<lparr>jiraBaseUrl = ''https://jira.example.test'', jiraUsername = ''bot'', jiraApiToken = ''t'',
      projectKey = ''PROJ'', environment = ''CI/CD'', version = ''1.0.0''\<rparr>"

definition accepting_env :: "unit env" where
  "accepting_env =
     \<lparr>srv = accepting_srv, config = example_config, iso_now = ''2024-01-01T00:00:00.000Z'',
      millis_now = 5, JSON_stringify = js_String, fs_existsSync = (\<lambda>_. False)\<rparr>"

definition rejecting_env :: "unit env" where
  "rejecting_env =
     \<lparr>srv = rejecting_srv, config = example_config, iso_now = ''2024-01-01T00:00:00.000Z'',
      millis_now = 5, JSON_stringify = js_String, fs_existsSync = (\<lambda>_. False)\<rparr>"

definition world0 :: "unit world" where
  "world0 = \<lparr>server = (), http = [], logs = [], files = [], canCreateIssues = True\<rparr>"

definition example_result :: xray_result where
  "example_result =
     \<lparr>testKey_of = ''PROJ-1'', status_of = ''PASSED'', comment_of = Some ''ok'',
      executionTime_of = Some 12, evidence_of = Some []\<rparr>"

definition example_reporter :: reporter where
  "example_reporter =
     \<lparr>options = \<lparr>opt_environment = None, opt_testPlanKey = None, opt_version = None,
                  opt_outputDir = None\<rparr>,
      testResults = [(''id1'', example_result)], startTime = 0\<rparr>"

definition example_info :: execution_info where
  "example_info =
     \<lparr>summary = ''Automated Test Execution'', description = None, testEnvironments = None,
      testPlanKey = None, info_version = None, user = None, startDate = None\<rparr>"

definition preserves :: "('s world \<Rightarrow> 's world \<Rightarrow> bool) \<Rightarrow> ('a, 's) prog \<Rightarrow> bool" where
  "preserves I m \<longleftrightarrow> (\<forall>w r w'. m w = (r, w') \<longrightarrow> I w w')"

definition only_logs :: "'s world \<Rightarrow> 's world \<Rightarrow> bool" where
  "only_logs w w' \<longleftrightarrow> (\<exists>L. w' = w\<lparr>logs := logs w @ L\<rparr>)"

definition ext_by :: "(request \<Rightarrow> bool) \<Rightarrow> 's world \<Rightarrow> 's world \<Rightarrow> bool" where
  "ext_by P w w' \<longleftrightarrow> (\<exists>reqs. http w' = http w @ reqs \<and> list_all P reqs)"

definition latch_kept :: "'s world \<Rightarrow> 's world \<Rightarrow> bool" where
  "latch_kept w w' \<longleftrightarrow> (\<not> canCreateIssues w \<longrightarrow> \<not> canCreateIssues w')"

definition two_phase :: "(request \<Rightarrow> bool) \<Rightarrow> (request \<Rightarrow> bool) \<Rightarrow> 's world \<Rightarrow> 's world \<Rightarrow> bool" where
  "two_phase P Q w w' \<longleftrightarrow>
     (\<exists>A B. http w' = http w @ A @ B \<and> list_all P A \<and> list_all Q B)"

definition is_GET_issue :: "request \<Rightarrow> bool" where
  "is_GET_issue q = (case q of GET_issue _ \<Rightarrow> True | _ \<Rightarrow> False)"

definition is_POST_issue :: "request \<Rightarrow> bool" where
  "is_POST_issue q = (case q of POST_issue _ \<Rightarrow> True | _ \<Rightarrow> False)"

definition is_PUT_issue :: "request \<Rightarrow> bool" where
  "is_PUT_issue q = (case q of PUT_issue _ _ \<Rightarrow> True | _ \<Rightarrow> False)"

definition is_POST_issue_comment :: "request \<Rightarrow> bool" where
  "is_POST_issue_comment q = (case q of POST_issue_comment _ _ \<Rightarrow> True | _ \<Rightarrow> False)"

definition is_POST_testexecution :: "request \<Rightarrow> bool" where
  "is_POST_testexecution q = (case q of POST_testexecution _ \<Rightarrow> True | _ \<Rightarrow> False)"

section \<open>The public operations of XrayClientHybrid\<close>

text \<open>
  \<open>XrayClientHybrid_new\<close> is the state right after the constructor ran: the field
  initialiser sets \<^verbatim>\<open>canCreateIssues\<close> to true. A \<open>hybrid_call\<close> is one call of a public
  method of the (singleton) client; \<open>run_hybrid_calls\<close> runs a sequence of calls one after
  the other. \<open>creation_request_fails\<close> says that the creation request of
  \<^verbatim>\<open>tryCreateTestCase\<close> fails in server state \<open>s\<close>: the POST is rejected, or reading
  \<^verbatim>\<open>response.data.key\<close> raises.
\<close>

definition XrayClientHybrid_new :: "'s \<Rightarrow> 's world" where
  "XrayClientHybrid_new s = \<lparr>server = s, http = [], logs = [], files = [], canCreateIssues = True\<rparr>"

datatype hybrid_call =
    FindTestCase string
  | TryCreateTestCase string string "string option"
  | EnsureTestCaseExists string string "string option"
  | UpdateTestCaseStatus string string
  | UpdateAllTestCaseStatuses "xray_result list"
  | AddTestExecutionComment string string "nat option" "string option"
  | CreateTestExecution execution_info "xray_result list"

fun run_hybrid_call :: "'s env \<Rightarrow> hybrid_call \<Rightarrow> (json, 's) prog" where
  "run_hybrid_call E (FindTestCase k) = XrayClientHybrid_findTestCase E k"
| "run_hybrid_call E (TryCreateTestCase k t d) = XrayClientHybrid_tryCreateTestCase E k t d"
| "run_hybrid_call E (EnsureTestCaseExists k t d) = XrayClientHybrid_ensureTestCaseExists E k t d"
| "run_hybrid_call E (UpdateTestCaseStatus k s) = XrayClientHybrid_updateTestCaseStatus E k s"
| "run_hybrid_call E (UpdateAllTestCaseStatuses rs) = XrayClientHybrid_updateAllTestCaseStatuses E rs"
| "run_hybrid_call E (AddTestExecutionComment k s t c) = XrayClientHybrid_addTestExecutionComment E k s t c"
| "run_hybrid_call E (CreateTestExecution i rs) = XrayClientHybrid_createTestExecution E i rs"

fun run_hybrid_calls :: "'s env \<Rightarrow> hybrid_call list \<Rightarrow> 's world \<Rightarrow> 's world" where
  "run_hybrid_calls E [] w = w"
| "run_hybrid_calls E (c # cs) w = run_hybrid_calls E cs (snd (run_hybrid_call E c w))"

definition creation_request_fails :: "'s env \<Rightarrow> 's \<Rightarrow> string \<Rightarrow> string \<Rightarrow> string option \<Rightarrow> bool" where
  "creation_request_fails E s k t d =
     (case fst (srv E s (POST_issue (testCaseData E k t d))) of
        Rejected _ _ \<Rightarrow> True
      | Resolved data \<Rightarrow> isl (js_get data ''key''))"

section \<open>Order of requests in the hybrid reporter\<close>




section \<open>Which test cases a lookup finds\<close>

text \<open>
  \<open>response_found\<close> says that \<^verbatim>\<open>findTestCase\<close> returns an issue for this answer of the
  server: the GET resolves, its data is truthy and \<^verbatim>\<open>data.fields.issuetype.name\<close> can be
  read (the log line reading it is inside the \<^verbatim>\<open>try\<close>; in every other case the method
  returns null). \<open>lookups\<close> pairs each test of an execution report with the outcome of the
  lookup that \<^verbatim>\<open>createTestExecution\<close> makes for it, the server state threaded through the
  lookups in order; \<open>found_tests\<close> keeps the tests whose lookup found an issue.
\<close>

definition response_found :: "response \<Rightarrow> bool" where
  "response_found resp =
     (case resp of Resolved d \<Rightarrow> truthy d \<and> \<not> isl (issuetype_name d) | Rejected _ _ \<Rightarrow> False)"

fun lookups :: "'s env \<Rightarrow> 's \<Rightarrow> xray_result list \<Rightarrow> (xray_result \<times> bool) list" where
  "lookups E s [] = []"
| "lookups E s (t # ts) =
     (let (resp, s') = srv E s (GET_issue (testKey_of t))
      in (t, response_found resp) # lookups E s' ts)"

definition found_tests :: "'s env \<Rightarrow> 's \<Rightarrow> xray_result list \<Rightarrow> xray_result list" where
  "found_tests E s tests = map fst (filter snd (lookups E s tests))"

definition lookup_requests :: "xray_result list \<Rightarrow> request list" where
  "lookup_requests tests = map (\<lambda>t. GET_issue (testKey_of t)) tests"

section \<open>The reconciliation flow of the full client and of the basic reporter\<close>

definition always_throws :: "('a, 's) prog \<Rightarrow> bool" where
  "always_throws m \<longleftrightarrow> (\<forall>w. isl (fst (m w)))"

section \<open>The lifecycle of the basic reporter\<close>

text \<open>
  A \<open>lifecycle\<close> event is one call the test runner makes before the run ends, with the
  environment (clock, file system, server) it is made in; \<open>XrayReporter_callbacks\<close> applies a
  sequence of them to the reporter and the world. \<open>incomplete_env\<close> is the accepting
  environment with an empty API token, so that \<^verbatim>\<open>validateConfig\<close> is false.
\<close>

datatype 's lifecycle =
    OnBegin "'s env"
  | OnTestBegin "'s env" test_case
  | OnTestEnd "'s env" test_case test_result

fun XrayReporter_callback :: "'s lifecycle \<Rightarrow> reporter \<Rightarrow> (reporter, 's) prog" where
  "XrayReporter_callback (OnBegin E) R = XrayReporter_onBegin E R"
| "XrayReporter_callback (OnTestBegin E test) R = XrayReporter_onTestBegin E test R"
| "XrayReporter_callback (OnTestEnd E test result) R = XrayReporter_onTestEnd E test result R"

fun XrayReporter_callbacks :: "'s lifecycle list \<Rightarrow> reporter \<times> 's world \<Rightarrow> reporter \<times> 's world" where
  "XrayReporter_callbacks [] (R, w) = (R, w)"
| "XrayReporter_callbacks (c # cs) (R, w) =
     (case XrayReporter_callback c R w of
        (Inr R', w') \<Rightarrow> XrayReporter_callbacks cs (R', w')
      | (Inl e, w') \<Rightarrow> (R, w'))"

definition incomplete_env :: "unit env" where
  "incomplete_env = accepting_env\<lparr>config := example_config\<lparr>jiraApiToken := []\<rparr>\<rparr>"

definition example_test :: test_case where
  "example_test = \<lparr>test_id = ''id1'', title = ''PROJ-1: user can log in'', location_file = Some ''/repo/tests/login.spec.ts''\<rparr>"

definition example_test_result :: test_result where
  "example_test_result = \<lparr>result_status = ''passed'', duration = 12, error_message = None, attachments = Some []\<rparr>"

section \<open>Key extraction\<close>

text \<open>
  \<open>file_name\<close> is the base name \<^verbatim>\<open>extractTestKey\<close> computes from the test's location.
  \<open>title_has_key\<close> and \<open>file_has_key\<close> word the two cases of the specification: the title
  begins with a key immediately followed by a colon; the base name begins with a key.
  \<open>all_keyed\<close> says that every result recorded in the reporter's map carries a key.
\<close>

definition file_name :: "test_case \<Rightarrow> string" where
  "file_name test = basename (case location_file test of None \<Rightarrow> [] | Some f \<Rightarrow> f)"

definition title_has_key :: "test_case \<Rightarrow> bool" where
  "title_has_key test \<longleftrightarrow> (\<exists>k rest. is_key k \<and> title test = k @ CHR '':'' # rest)"

definition file_has_key :: "test_case \<Rightarrow> bool" where
  "file_has_key test \<longleftrightarrow> (\<exists>k rest. is_key k \<and> file_name test = k @ rest)"

definition all_keyed :: "reporter \<Rightarrow> bool" where
  "all_keyed R \<longleftrightarrow> (\<forall>(i, x) \<in> set (testResults R). is_key (testKey_of x))"

definition file_keyed_test :: test_case where
  "file_keyed_test =
     \<lparr>test_id = ''id2'', title = ''search shows results'',
      location_file = Some ''/repo/tests/XSP-58-search.spec.ts''\<rparr>"

definition unkeyed_test :: test_case where
  "unkeyed_test =
     \<lparr>test_id = ''id3'', title = ''should initialize configuration correctly'',
      location_file = Some ''/repo/tests/framework/setup.spec.ts''\<rparr>"

section \<open>GoogleHomePage.verifyPageLoaded\<close>

text \<open>
  The page object delegates to the browser driver. What the driver answers is the input of
  the model: for each of the two locators the error that \<^verbatim>\<open>expect(locator).toBeVisible\<close>
  raises (\<open>None\<close> when the element is visible and the assertion passes), and the title
  that \<^verbatim>\<open>page.title()\<close> resolves to, or the error it rejects with. \<open>toLowerCase\<close> lowers the
  letters A to Z; \<open>js_includes\<close> is \<^verbatim>\<open>String.prototype.includes\<close>, true when the second
  string occurs in the first at some position.
\<close>

record page_driver =
  googleLogo_visible :: "js_error option"
  searchInput_visible :: "js_error option"
  page_title :: "js_error + string"

definition toLowerCase_char :: "char \<Rightarrow> char" where
  "toLowerCase_char c =
     (case map_of (zip ''ABCDEFGHIJKLMNOPQRSTUVWXYZ'' ''abcdefghijklmnopqrstuvwxyz'') c of
        Some l \<Rightarrow> l
      | None \<Rightarrow> c)"

definition toLowerCase :: "string \<Rightarrow> string" where
  "toLowerCase s = map toLowerCase_char s"

fun starts_with :: "string \<Rightarrow> string \<Rightarrow> bool" where
  "starts_with s [] = True"
| "starts_with [] (c # cs) = False"
| "starts_with (x # xs) (c # cs) = (x = c \<and> starts_with xs cs)"

fun js_includes :: "string \<Rightarrow> string \<Rightarrow> bool" where
  "js_includes [] sub = starts_with [] sub"
| "js_includes (x # xs) sub = (starts_with (x # xs) sub \<or> js_includes xs sub)"

definition BasePage_assertElementVisible :: "js_error option \<Rightarrow> string option \<Rightarrow> (unit, 's) prog" where
  "BasePage_assertElementVisible locator message =
     (case locator of
        Some error \<Rightarrow> throw error
      | None \<Rightarrow> logger Debug (or_str message ''Element visibility assertion passed''))"

definition BasePage_getTitle :: "page_driver \<Rightarrow> (string, 's) prog" where
  "BasePage_getTitle page =
     bind (lift (page_title page)) (\<lambda>title.
     bind (logger Debug (''Page title: '' @ title)) (\<lambda>_.
     ret title))"

definition title_error :: "string \<Rightarrow> js_error" where
  "title_error t =
     JsError ''Error'' (''Expected page title to contain '' @ [CHR 0x27] @ ''Google'' @ [CHR 0x27]
                        @ '', but got: '' @ t)"

definition GoogleHomePage_verifyPageLoaded :: "page_driver \<Rightarrow> (unit, 's) prog" where
  "GoogleHomePage_verifyPageLoaded page =
     bind (BasePage_assertElementVisible (googleLogo_visible page)
             (Some ''Google logo should be visible'')) (\<lambda>_.
     bind (BasePage_assertElementVisible (searchInput_visible page)
             (Some ''Search input should be visible'')) (\<lambda>_.
     bind (BasePage_getTitle page) (\<lambda>title.
       if \<not> js_includes (toLowerCase title) ''google'' then throw (title_error title)
       else logger Info ''Google home page verified successfully'')))"

definition google_page :: "string \<Rightarrow> page_driver" where
  "google_page t = \<lparr>googleLogo_visible = None, searchInput_visible = None, page_title = Inr t\<rparr>"

section \<open>Failure handling\<close>

text \<open>
  The repository holds further copies of the reporter and of the client. Of these only the
  \<^verbatim>\<open>catch\<close> blocks are transcribed here, one definition for each block, named after the class
  and the method the block stands in. A handler takes the caught error, and the test key or
  the execution key when its log line interpolates one. A block that ends without a
  \<^verbatim>\<open>return\<close> and without a \<^verbatim>\<open>throw\<close> lets the method return \<open>undefined\<close>. The handlers of
  \<open>XrayClientFull\<close>, \<open>XrayClientReadOnly\<close>, \<open>XrayClientHybrid\<close>, \<open>XrayReporter\<close> and
  \<open>XrayReporterHybrid\<close> are the ones their methods above are built from.
\<close>

subsection \<open>XrayReporterCloud (the reporter listed in XRAY_INTEGRATION.md)\<close>

definition XrayReporterCloud_onEnd_catch :: "js_error \<Rightarrow> (json, 's) prog" where
  "XrayReporterCloud_onEnd_catch error =
     bind (logger Err (''Failed to report to Xray Cloud: '' @ error_toString error))
          (\<lambda>_. ret JUndefined)"

definition XrayReporterCloud_reportToXrayCloud_catch :: "js_error \<Rightarrow> (json, 's) prog" where
  "XrayReporterCloud_reportToXrayCloud_catch error =
     bind (logger Err (''Failed to report test results to Xray Cloud: '' @ error_toString error))
          (\<lambda>_. throw error)"

subsection \<open>XrayClient, the copy that talks to the Xray API URL\<close>

definition XrayClientXrayApi_findTestCase_catch :: "string \<Rightarrow> js_error \<Rightarrow> (json, 's) prog" where
  "XrayClientXrayApi_findTestCase_catch testKey error =
     bind (logger Err (''Failed to find test case '' @ testKey @ '': '' @ error_toString error))
          (\<lambda>_. ret JNull)"

definition XrayClientXrayApi_updateTestCaseStatus_catch :: "string \<Rightarrow> js_error \<Rightarrow> (json, 's) prog" where
  "XrayClientXrayApi_updateTestCaseStatus_catch testKey error =
     bind (logger Err (''Failed to update test case '' @ testKey @ '' status: '' @ error_toString error))
          (\<lambda>_. ret JUndefined)"

definition XrayClientXrayApi_createTestExecution_catch :: "js_error \<Rightarrow> (json, 's) prog" where
  "XrayClientXrayApi_createTestExecution_catch error =
     bind (logger Err (''Failed to create test execution: '' @ error_toString error))
          (\<lambda>_. throw error)"

subsection \<open>XrayClient of src/utils/xray-client-simple.ts\<close>

definition XrayClientSimple_createTestExecution_catch :: "js_error \<Rightarrow> (json, 's) prog" where
  "XrayClientSimple_createTestExecution_catch error =
     bind (logger Err (''Failed to create test execution: '' @ error_toString error))
          (\<lambda>_. throw error)"

definition XrayClientSimple_addTestsToExecution_catch :: "string \<Rightarrow> js_error \<Rightarrow> (json, 's) prog" where
  "XrayClientSimple_addTestsToExecution_catch testExecutionKey error =
     bind (logger Err (''Failed to add tests to execution '' @ testExecutionKey @ '': '' @ error_toString error))
          (\<lambda>_. throw error)"

definition XrayClientSimple_updateTestExecutionStatus_catch :: "string \<Rightarrow> js_error \<Rightarrow> (json, 's) prog" where
  "XrayClientSimple_updateTestExecutionStatus_catch testExecutionKey error =
     bind (logger Warn (''Could not update test execution status for '' @ testExecutionKey @ '': '' @ error_toString error))
          (\<lambda>_. bind (logger Info (''Test execution '' @ testExecutionKey @ '' completed successfully without status update''))
          (\<lambda>_. ret JUndefined))"

subsection \<open>XrayClient of src/utils/xray-client.ts\<close>

definition XrayClient_createTestExecution_catch :: "js_error \<Rightarrow> (json, 's) prog" where
  "XrayClient_createTestExecution_catch error =
     bind (logger Err (''Failed to create test execution: '' @ error_toString error))
          (\<lambda>_. throw error)"

definition XrayClient_addTestsToExecution_catch :: "js_error \<Rightarrow> (json, 's) prog" where
  "XrayClient_addTestsToExecution_catch error =
     bind (logger Err (''Failed to add tests to execution: '' @ error_toString error))
          (\<lambda>_. throw error)"

definition XrayClient_updateTestExecutionStatus_catch :: "js_error \<Rightarrow> (json, 's) prog" where
  "XrayClient_updateTestExecutionStatus_catch error =
     bind (logger Err (''Failed to update test execution status: '' @ error_toString error))
          (\<lambda>_. throw error)"

subsection \<open>XrayClient of src/utils/xray-client.ts.old\<close>

definition XrayClientOld_createTestExecution_catch :: "js_error \<Rightarrow> (json, 's) prog" where
  "XrayClientOld_createTestExecution_catch error =
     bind (logger Err (''Failed to create test execution: '' @ error_toString error))
          (\<lambda>_. throw error)"

definition XrayClientOld_addTestsToExecution_catch :: "string \<Rightarrow> js_error \<Rightarrow> (json, 's) prog" where
  "XrayClientOld_addTestsToExecution_catch testExecutionKey error =
     bind (logger Err (''Failed to add tests to execution '' @ testExecutionKey @ '': '' @ error_toString error))
          (\<lambda>_. throw error)"

definition XrayClientOld_updateTestExecutionStatus_catch :: "js_error \<Rightarrow> (json, 's) prog" where
  "XrayClientOld_updateTestExecutionStatus_catch error =
     bind (logger Err (''Failed to update test execution status: '' @ error_toString error))
          (\<lambda>_. throw error)"

definition XrayClientOld_getTestExecution_catch :: "string \<Rightarrow> js_error \<Rightarrow> (json, 's) prog" where
  "XrayClientOld_getTestExecution_catch testExecutionKey error =
     bind (logger Err (''Failed to get test execution '' @ testExecutionKey @ '': '' @ error_toString error))
          (\<lambda>_. throw error)"

definition XrayClientOld_searchTestCases_catch :: "js_error \<Rightarrow> (json, 's) prog" where
  "XrayClientOld_searchTestCases_catch error =
     bind (logger Err (''Failed to search test cases: '' @ error_toString error))
          (\<lambda>_. throw error)"

definition XrayClientOld_getTestCase_catch :: "string \<Rightarrow> js_error \<Rightarrow> (json, 's) prog" where
  "XrayClientOld_getTestCase_catch testKey error =
     bind (logger Err (''Failed to get test case '' @ testKey @ '': '' @ error_toString error))
          (\<lambda>_. throw error)"

subsection \<open>XrayCloudClient\<close>

definition XrayCloudClient_findTestCase_catch :: "string \<Rightarrow> js_error \<Rightarrow> (json, 's) prog" where
  "XrayCloudClient_findTestCase_catch testKey error =
     bind (logger Info (''Test case '' @ testKey @ '' not found in Xray Cloud - will import it''))
          (\<lambda>_. ret JNull)"

definition XrayCloudClient_importTestCase_catch :: "string \<Rightarrow> js_error \<Rightarrow> (json, 's) prog" where
  "XrayCloudClient_importTestCase_catch testKey error =
     bind (logger Err (''Failed to import test case '' @ testKey @ '' to Xray Cloud: '' @ error_toString error))
          (\<lambda>_. ret JNull)"

definition XrayCloudClient_updateTestCaseStatus_catch :: "string \<Rightarrow> js_error \<Rightarrow> (json, 's) prog" where
  "XrayCloudClient_updateTestCaseStatus_catch testKey error =
     bind (logger Err (''Failed to update test case '' @ testKey @ '' status in Xray Cloud: '' @ error_toString error))
          (\<lambda>_. ret (JBool False))"

definition XrayCloudClient_createTestExecution_catch :: "js_error \<Rightarrow> (json, 's) prog" where
  "XrayCloudClient_createTestExecution_catch error =
     bind (logger Err (''Failed to create test execution in Xray Cloud: '' @ error_toString error))
          (\<lambda>_. ret JNull)"

definition XrayCloudClient_addTestExecutionComment_catch :: "string \<Rightarrow> js_error \<Rightarrow> (json, 's) prog" where
  "XrayCloudClient_addTestExecutionComment_catch testKey error =
     bind (logger Err (''Failed to add comment to test case '' @ testKey @ '' in Xray Cloud: '' @ error_toString error))
          (\<lambda>_. ret (JBool False))"

subsection \<open>XrayServerClient of src/utils/xray-server-client.ts\<close>

definition XrayServerClient_findTestCase_catch :: "string \<Rightarrow> js_error \<Rightarrow> (json, 's) prog" where
  "XrayServerClient_findTestCase_catch testKey error =
     bind (logger Info (''Test case '' @ testKey @ '' not found in Xray Server - will create it''))
          (\<lambda>_. ret JNull)"

definition XrayServerClient_findTestCaseByDescription_catch :: "js_error \<Rightarrow> (json, 's) prog" where
  "XrayServerClient_findTestCaseByDescription_catch error =
     bind (logger Err (''Failed to search test case by description: '' @ error_toString error))
          (\<lambda>_. ret JNull)"

definition XrayServerClient_updateTestCaseSummary_catch :: "string \<Rightarrow> js_error \<Rightarrow> (json, 's) prog" where
  "XrayServerClient_updateTestCaseSummary_catch testKey error =
     bind (logger Err (''Failed to update test case '' @ testKey @ '' summary: '' @ error_toString error))
          (\<lambda>_. ret (JBool False))"

definition XrayServerClient_createTestCase_catch :: "string \<Rightarrow> js_error \<Rightarrow> (json, 's) prog" where
  "XrayServerClient_createTestCase_catch testKey error =
     bind (logger Err (''Failed to create test case '' @ testKey @ '' in Xray Server: '' @ error_toString error))
          (\<lambda>_. ret JNull)"

definition XrayServerClient_updateTestCaseStatus_catch :: "string \<Rightarrow> js_error \<Rightarrow> (json, 's) prog" where
  "XrayServerClient_updateTestCaseStatus_catch testKey error =
     bind (logger Err (''Failed to update test case '' @ testKey @ '' status in Xray Server: '' @ error_toString error))
          (\<lambda>_. ret (JBool False))"

definition XrayServerClient_ensureTestExecutionExists_catch :: "js_error \<Rightarrow> (json, 's) prog" where
  "XrayServerClient_ensureTestExecutionExists_catch error =
     bind (logger Err (''Failed to ensure test execution exists: '' @ error_toString error))
          (\<lambda>_. ret JNull)"

definition XrayServerClient_addTestCaseToExecution_catch :: "js_error \<Rightarrow> (json, 's) prog" where
  "XrayServerClient_addTestCaseToExecution_catch error =
     bind (logger Err (''Failed to add test case to execution: '' @ error_toString error))
          (\<lambda>_. ret JNull)"

definition XrayServerClient_createTestExecution_catch :: "js_error \<Rightarrow> (json, 's) prog" where
  "XrayServerClient_createTestExecution_catch error =
     bind (logger Err (''Failed to create test execution in Xray Server: '' @ error_toString error))
          (\<lambda>_. ret JNull)"

subsection \<open>XrayReporterServer, the enhanced copy\<close>

definition XrayReporterServerEnhanced_onEnd_catch :: "js_error \<Rightarrow> (json, 's) prog" where
  "XrayReporterServerEnhanced_onEnd_catch error =
     bind (logger Err (''Failed to report to Xray Server: '' @ error_toString error))
          (\<lambda>_. ret JUndefined)"

definition XrayReporterServerEnhanced_reportToXrayServer_catch :: "js_error \<Rightarrow> (json, 's) prog" where
  "XrayReporterServerEnhanced_reportToXrayServer_catch error =
     bind (logger Err (''Failed to report test results to Xray Server: '' @ error_toString error))
          (\<lambda>_. throw error)"

subsection \<open>XrayCloudClient, the copy that authenticates first\<close>

definition XrayCloudClientAuth_authenticate_catch :: "js_error \<Rightarrow> (json, 's) prog" where
  "XrayCloudClientAuth_authenticate_catch error =
     bind (logger Err (''Failed to authenticate with Xray Cloud: '' @ error_toString error))
          (\<lambda>_. throw error)"

definition XrayCloudClientAuth_findTestCase_catch :: "string \<Rightarrow> js_error \<Rightarrow> (json, 's) prog" where
  "XrayCloudClientAuth_findTestCase_catch testKey error =
     bind (logger Info (''Test case '' @ testKey @ '' not found in Xray Cloud - will import it''))
          (\<lambda>_. ret JNull)"

definition XrayCloudClientAuth_importTestCase_catch :: "string \<Rightarrow> js_error \<Rightarrow> (json, 's) prog" where
  "XrayCloudClientAuth_importTestCase_catch testKey error =
     bind (logger Err (''Failed to import test case '' @ testKey @ '' to Xray Cloud: '' @ error_toString error))
          (\<lambda>_. ret JNull)"

definition XrayCloudClientAuth_updateTestCaseStatus_catch :: "string \<Rightarrow> js_error \<Rightarrow> (json, 's) prog" where
  "XrayCloudClientAuth_updateTestCaseStatus_catch testKey error =
     bind (logger Err (''Failed to update test case '' @ testKey @ '' status in Xray Cloud: '' @ error_toString error))
          (\<lambda>_. ret (JBool False))"

definition XrayCloudClientAuth_createTestExecution_catch :: "js_error \<Rightarrow> (json, 's) prog" where
  "XrayCloudClientAuth_createTestExecution_catch error =
     bind (logger Err (''Failed to create test execution in Xray Cloud: '' @ error_toString error))
          (\<lambda>_. ret JNull)"

definition XrayCloudClientAuth_addTestExecutionComment_catch :: "string \<Rightarrow> js_error \<Rightarrow> (json, 's) prog" where
  "XrayCloudClientAuth_addTestExecutionComment_catch testKey error =
     bind (logger Err (''Failed to add comment to test case '' @ testKey @ '' in Xray Cloud: '' @ error_toString error))
          (\<lambda>_. ret (JBool False))"

subsection \<open>XrayReporter of src/utils/xray-reporter.ts\<close>

definition XrayReporterTs_onEnd_catch :: "js_error \<Rightarrow> (json, 's) prog" where
  "XrayReporterTs_onEnd_catch error =
     bind (logger Err (''Failed to report to Xray: '' @ error_toString error))
          (\<lambda>_. ret JUndefined)"

definition XrayReporterTs_reportToXray_catch :: "js_error \<Rightarrow> (json, 's) prog" where
  "XrayReporterTs_reportToXray_catch error =
     bind (logger Err (''Failed to report test results to Xray: '' @ error_toString error))
          (\<lambda>_. throw error)"

subsection \<open>XrayServerClient, the copy with addTestExecutionComment\<close>

definition XrayServerClientComments_findTestCase_catch :: "string \<Rightarrow> js_error \<Rightarrow> (json, 's) prog" where
  "XrayServerClientComments_findTestCase_catch testKey error =
     bind (logger Info (''Test case '' @ testKey @ '' not found in Xray Server - will create it''))
          (\<lambda>_. ret JNull)"

definition XrayServerClientComments_createTestCase_catch :: "string \<Rightarrow> js_error \<Rightarrow> (json, 's) prog" where
  "XrayServerClientComments_createTestCase_catch testKey error =
     bind (logger Err (''Failed to create test case '' @ testKey @ '' in Xray Server: '' @ error_toString error))
          (\<lambda>_. ret JNull)"

definition XrayServerClientComments_updateTestCaseStatus_catch :: "string \<Rightarrow> js_error \<Rightarrow> (json, 's) prog" where
  "XrayServerClientComments_updateTestCaseStatus_catch testKey error =
     bind (logger Err (''Failed to update test case '' @ testKey @ '' status in Xray Server: '' @ error_toString error))
          (\<lambda>_. ret (JBool False))"

definition XrayServerClientComments_addTestExecutionComment_catch :: "string \<Rightarrow> js_error \<Rightarrow> (json, 's) prog" where
  "XrayServerClientComments_addTestExecutionComment_catch testKey error =
     bind (logger Err (''Failed to add comment to test case '' @ testKey @ '' in Xray Server: '' @ error_toString error))
          (\<lambda>_. ret (JBool False))"

definition XrayServerClientComments_createTestExecution_catch :: "js_error \<Rightarrow> (json, 's) prog" where
  "XrayServerClientComments_createTestExecution_catch error =
     bind (logger Err (''Failed to create test execution in Xray Server: '' @ error_toString error))
          (\<lambda>_. ret JNull)"

subsection \<open>XrayClient, the copy with createTestCase\<close>

definition XrayClientJira_findTestCase_catch :: "string \<Rightarrow> js_error \<Rightarrow> (json, 's) prog" where
  "XrayClientJira_findTestCase_catch testKey error =
     bind (logger Err (''Failed to find test case '' @ testKey @ '': '' @ error_toString error))
          (\<lambda>_. ret JNull)"

definition XrayClientJira_createTestCase_catch :: "string \<Rightarrow> js_error \<Rightarrow> (json, 's) prog" where
  "XrayClientJira_createTestCase_catch testKey error =
     bind (logger Err (''Failed to create test case '' @ testKey @ '': '' @ error_toString error))
          (\<lambda>_. throw error)"

definition XrayClientJira_updateTestCaseStatus_catch :: "string \<Rightarrow> js_error \<Rightarrow> (json, 's) prog" where
  "XrayClientJira_updateTestCaseStatus_catch testKey error =
     bind (logger Err (''Failed to update test case '' @ testKey @ '' status: '' @ error_toString error))
          (\<lambda>_. ret JUndefined)"

definition XrayClientJira_createTestExecution_catch :: "js_error \<Rightarrow> (json, 's) prog" where
  "XrayClientJira_createTestExecution_catch error =
     bind (logger Err (''Failed to create test execution: '' @ error_toString error))
          (\<lambda>_. throw error)"

subsection \<open>XrayReporterFull of xray-reporter-full.js\<close>

definition XrayReporterFull_onEnd_catch :: "js_error \<Rightarrow> (json, 's) prog" where
  "XrayReporterFull_onEnd_catch error =
     bind (logger Err (''Failed to report to Xray: '' @ error_toString error))
          (\<lambda>_. ret JUndefined)"

definition XrayReporterFull_reportToXray_catch :: "js_error \<Rightarrow> (json, 's) prog" where
  "XrayReporterFull_reportToXray_catch error =
     bind (logger Err (''Failed to report test results to Xray: '' @ error_toString error))
          (\<lambda>_. throw error)"

subsection \<open>XrayReporterServer of xray-reporter-server.js\<close>

definition XrayReporterServer_onEnd_catch :: "js_error \<Rightarrow> (json, 's) prog" where
  "XrayReporterServer_onEnd_catch error =
     bind (logger Err (''Failed to report to Xray Server: '' @ error_toString error))
          (\<lambda>_. ret JUndefined)"

definition XrayReporterServer_reportToXrayServer_catch :: "js_error \<Rightarrow> (json, 's) prog" where
  "XrayReporterServer_reportToXrayServer_catch error =
     bind (logger Err (''Failed to report test results to Xray Server: '' @ error_toString error))
          (\<lambda>_. throw error)"

subsection \<open>XrayReporterSimple of xray-reporter-server.js\<close>

definition XrayReporterSimple_onEnd_catch :: "js_error \<Rightarrow> (json, 's) prog" where
  "XrayReporterSimple_onEnd_catch error =
     bind (logger Err (''Failed to report to Xray: '' @ error_toString error))
          (\<lambda>_. ret JUndefined)"

definition XrayReporterSimple_reportToXray_catch :: "js_error \<Rightarrow> (json, 's) prog" where
  "XrayReporterSimple_reportToXray_catch error =
     bind (logger Err (''Failed to report test results: '' @ error_toString error))
          (\<lambda>_. throw error)"

subsection \<open>All handlers\<close>

text \<open>
  The 71 \<^verbatim>\<open>catch\<close> blocks of the reporters and the Xray clients, in three groups:
  \<open>error_logging_handlers\<close> are the 64 blocks whose log line ends with the caught error,
  \<open>not_found_handlers\<close> are the six blocks of \<^verbatim>\<open>findTestCase\<close> whose log line does not mention
  it, and the block of \<^verbatim>\<open>XrayClientHybrid.tryCreateTestCase\<close> stands alone;
  \<open>all_catch_handlers\<close> lists them all. \<open>interceptor_handlers\<close> lists the rejection handlers of
  the response interceptors, one for each wording found among the clients.
\<close>

definition error_logging_handlers :: "string \<Rightarrow> string \<Rightarrow> (js_error \<Rightarrow> (json, 's) prog) list" where
  "error_logging_handlers testKey testExecutionKey =
     [XrayReporterCloud_onEnd_catch, XrayReporterCloud_reportToXrayCloud_catch,
      XrayClientXrayApi_findTestCase_catch testKey,
      XrayClientXrayApi_updateTestCaseStatus_catch testKey,
      XrayClientXrayApi_createTestExecution_catch, XrayClientFull_createTestCase_catch testKey,
      XrayClientFull_updateTestCaseStatus_catch testKey,
      XrayClientFull_createTestExecution_catch,
      XrayClientFull_addTestExecutionComment_catch testKey,
      XrayClientReadOnly_findTestCase_catch testKey,
      XrayClientReadOnly_createTestExecution_catch, XrayClientSimple_createTestExecution_catch,
      XrayClientSimple_addTestsToExecution_catch testExecutionKey,
      XrayClientSimple_updateTestExecutionStatus_catch testExecutionKey,
      XrayClient_createTestExecution_catch, XrayClient_addTestsToExecution_catch,
      XrayClient_updateTestExecutionStatus_catch, XrayClientOld_createTestExecution_catch,
      XrayClientOld_addTestsToExecution_catch testExecutionKey,
      XrayClientOld_updateTestExecutionStatus_catch,
      XrayClientOld_getTestExecution_catch testExecutionKey, XrayClientOld_searchTestCases_catch,
      XrayClientOld_getTestCase_catch testKey, XrayCloudClient_importTestCase_catch testKey,
      XrayCloudClient_updateTestCaseStatus_catch testKey,
      XrayCloudClient_createTestExecution_catch,
      XrayCloudClient_addTestExecutionComment_catch testKey,
      XrayServerClient_findTestCaseByDescription_catch,
      XrayServerClient_updateTestCaseSummary_catch testKey,
      XrayServerClient_createTestCase_catch testKey,
      XrayServerClient_updateTestCaseStatus_catch testKey,
      XrayServerClient_ensureTestExecutionExists_catch,
      XrayServerClient_addTestCaseToExecution_catch, XrayServerClient_createTestExecution_catch,
      XrayReporterServerEnhanced_onEnd_catch,
      XrayReporterServerEnhanced_reportToXrayServer_catch,
      XrayCloudClientAuth_authenticate_catch, XrayCloudClientAuth_importTestCase_catch testKey,
      XrayCloudClientAuth_updateTestCaseStatus_catch testKey,
      XrayCloudClientAuth_createTestExecution_catch,
      XrayCloudClientAuth_addTestExecutionComment_catch testKey, XrayReporterTs_onEnd_catch,
      XrayReporterTs_reportToXray_catch, XrayServerClientComments_createTestCase_catch testKey,
      XrayServerClientComments_updateTestCaseStatus_catch testKey,
      XrayServerClientComments_addTestExecutionComment_catch testKey,
      XrayServerClientComments_createTestExecution_catch,
      XrayClientJira_findTestCase_catch testKey, XrayClientJira_createTestCase_catch testKey,
      XrayClientJira_updateTestCaseStatus_catch testKey,
      XrayClientJira_createTestExecution_catch,
      XrayClientHybrid_updateTestCaseStatus_catch testKey,
      XrayClientHybrid_addTestExecutionComment_catch testKey,
      XrayClientHybrid_createTestExecution_catch, XrayReporterFull_onEnd_catch,
      XrayReporterFull_reportToXray_catch, XrayReporterHybrid_onEnd_catch,
      XrayReporterHybrid_reportToXray_catch, XrayReporterServer_onEnd_catch,
      XrayReporterServer_reportToXrayServer_catch, XrayReporterSimple_onEnd_catch,
      XrayReporterSimple_reportToXray_catch, XrayReporter_onEnd_catch,
      XrayReporter_reportToXray_catch]"

definition not_found_handlers :: "string \<Rightarrow> (js_error \<Rightarrow> (json, 's) prog) list" where
  "not_found_handlers testKey =
     [XrayClientFull_findTestCase_catch testKey, XrayCloudClient_findTestCase_catch testKey,
      XrayServerClient_findTestCase_catch testKey,
      XrayCloudClientAuth_findTestCase_catch testKey,
      XrayServerClientComments_findTestCase_catch testKey,
      XrayClientHybrid_findTestCase_catch testKey]"

definition all_catch_handlers :: "string \<Rightarrow> string \<Rightarrow> (js_error \<Rightarrow> (json, 's) prog) list" where
  "all_catch_handlers testKey testExecutionKey =
     XrayClientHybrid_tryCreateTestCase_catch testKey
     # not_found_handlers testKey @ error_logging_handlers testKey testExecutionKey"

definition interceptor_handlers ::
  "'s env \<Rightarrow> request \<Rightarrow> (int \<times> json) option \<Rightarrow> (js_error \<Rightarrow> (json, 's) prog) list" where
  "interceptor_handlers E req r =
     [interceptor_onRejected ''Xray API'' False E req r,
      interceptor_onRejected ''Xray API'' True E req r,
      interceptor_onRejected ''Xray Server API'' True E req r,
      interceptor_onRejected ''Xray Cloud API'' True E req r]"

text \<open>
  \<open>logs_error L error\<close>: one of the log lines \<open>L\<close> ends with the error as a template string
  renders it, \<^verbatim>\<open>String(error)\<close>. A handler logs and continues when, for every error and in
  every state, the lines it appends to the log include such a line, it changes nothing else
  (no request is sent, no file written, the server and the \<open>canCreateIssues\<close> flag stay as
  they are) and it returns \<open>null\<close>, \<open>false\<close> or \<open>undefined\<close>. It logs and throws when it appends
  such a line, changes nothing else and throws the error it caught.
\<close>

definition logs_error :: "(level \<times> string) list \<Rightarrow> js_error \<Rightarrow> bool" where
  "logs_error L error \<longleftrightarrow> (\<exists>l msg. (l, msg) \<in> set L \<and> suffix (error_toString error) msg)"

definition log_and_continue :: "(js_error \<Rightarrow> (json, 's) prog) \<Rightarrow> bool" where
  "log_and_continue h \<longleftrightarrow>
     (\<forall>error w. \<exists>L v. logs_error L error \<and> h error w = (Inr v, w\<lparr>logs := logs w @ L\<rparr>)
                      \<and> (v = JNull \<or> v = JBool False \<or> v = JUndefined))"

definition log_and_throw :: "(js_error \<Rightarrow> (json, 's) prog) \<Rightarrow> bool" where
  "log_and_throw h \<longleftrightarrow>
     (\<forall>error w. \<exists>L. logs_error L error \<and> h error w = (Inl error, w\<lparr>logs := logs w @ L\<rparr>))"

definition log_and_continue_or_throw :: "(js_error \<Rightarrow> (json, 's) prog) \<Rightarrow> bool" where
  "log_and_continue_or_throw h \<longleftrightarrow> log_and_continue h \<or> log_and_throw h"

text \<open>
  A handler logs "not found" and continues when it appends the same lines \<open>L\<close>, at least one,
  whatever the error is, changes nothing else and returns \<open>null\<close>. The rejection handler of an
  interceptor logs the message of the error (\<^verbatim>\<open>error.message\<close>) and rejects with the error.
\<close>

definition log_not_found_and_continue :: "(js_error \<Rightarrow> (json, 's) prog) \<Rightarrow> bool" where
  "log_not_found_and_continue h \<longleftrightarrow>
     (\<exists>L. L \<noteq> [] \<and> (\<forall>error w. h error w = (Inr JNull, w\<lparr>logs := logs w @ L\<rparr>)))"

definition logs_message :: "(level \<times> string) list \<Rightarrow> js_error \<Rightarrow> bool" where
  "logs_message L error \<longleftrightarrow> (\<exists>l msg. (l, msg) \<in> set L \<and> suffix (err_message error) msg)"

definition log_message_and_reject :: "(js_error \<Rightarrow> (json, 's) prog) \<Rightarrow> bool" where
  "log_message_and_reject h \<longleftrightarrow>
     (\<forall>error w. \<exists>L. logs_message L error \<and> h error w = (Inl error, w\<lparr>logs := logs w @ L\<rparr>))"

text \<open>
  A server whose answer to a lookup is an issue without the \<^verbatim>\<open>fields\<close> property: reading
  \<^verbatim>\<open>response.data.fields.issuetype\<close> raises a TypeError inside \<^verbatim>\<open>findTestCase\<close>.
\<close>

definition fieldless_srv :: "unit \<Rightarrow> request \<Rightarrow> response \<times> unit" where
  "fieldless_srv s q =
     (case q of
        GET_issue k \<Rightarrow> (Resolved (JObj [(''key'', JStr k)]), ())
      | _ \<Rightarrow> (Resolved (JObj []), ()))"

definition fieldless_env :: "unit env" where
  "fieldless_env =
     \<lparr>srv = fieldless_srv, config = example_config, iso_now = ''2024-01-01T00:00:00.000Z'',
      millis_now = 5, JSON_stringify = js_String, fs_existsSync = (\<lambda>_. False)\<rparr>"


section \<open>Properties\<close>

lemmas mapTestStatus_defs =
  XrayReporter_mapTestStatus_def XrayReporterFull_mapTestStatus_def
  XrayReporterHybrid_mapTestStatus_def XrayReporterServer_mapTestStatus_def
  XrayReporterServerEnhanced_mapTestStatus_def XrayReporterSimple_mapTestStatus_def
  XrayReporterCloud_mapTestStatus_def XrayReporterTs_mapTestStatus_def

text \<open>
  Claim C6. The two client variants agree on the status mapping: the functions
  \<^verbatim>\<open>XrayClientFull.mapXrayStatusToJira\<close> and \<^verbatim>\<open>XrayClientHybrid.mapXrayStatusToJira\<close> are
  equal as functions, and on every input string both return 'Done' for 'PASSED',
  'In Progress' for 'FAILED' and 'EXECUTING', and 'To Do' for everything else
  (which covers 'SKIPPED' and 'TODO').
\<close>

theorem mapXrayStatusToJira_variants_agree:
  "XrayClientFull_mapXrayStatusToJira = XrayClientHybrid_mapXrayStatusToJira
   \<and> XrayClientFull_mapXrayStatusToJira s = mapXrayStatusToJira_spec s
   \<and> XrayClientHybrid_mapXrayStatusToJira s = mapXrayStatusToJira_spec s
   \<and> XrayClientFull_mapXrayStatusToJira ''PASSED'' = ''Done''
   \<and> XrayClientFull_mapXrayStatusToJira ''FAILED'' = ''In Progress''
   \<and> XrayClientFull_mapXrayStatusToJira ''EXECUTING'' = ''In Progress''
   \<and> XrayClientFull_mapXrayStatusToJira ''SKIPPED'' = ''To Do''
   \<and> XrayClientFull_mapXrayStatusToJira ''TODO'' = ''To Do''"
proof -
  have eq: "XrayClientFull_mapXrayStatusToJira = XrayClientHybrid_mapXrayStatusToJira"
    by (rule ext) (simp add: XrayClientFull_mapXrayStatusToJira_def
        XrayClientHybrid_mapXrayStatusToJira_def)
  have full: "XrayClientFull_mapXrayStatusToJira s = mapXrayStatusToJira_spec s"
    by (simp add: XrayClientFull_mapXrayStatusToJira_def mapXrayStatusToJira_spec_def)
  have hyb: "XrayClientHybrid_mapXrayStatusToJira s = mapXrayStatusToJira_spec s"
    by (simp add: XrayClientHybrid_mapXrayStatusToJira_def mapXrayStatusToJira_spec_def)
  show ?thesis
    by (intro conjI eq full hyb) (simp_all add: XrayClientFull_mapXrayStatusToJira_def)
qed

theorem mapXrayStatusToJira_variants_agree_witness:
  "XrayClientFull_mapXrayStatusToJira ''BLOCKED'' = ''To Do''
   \<and> XrayClientHybrid_mapXrayStatusToJira ''BLOCKED'' = ''To Do''"
  using mapXrayStatusToJira_variants_agree [of "''BLOCKED''"]
  by (simp add: mapXrayStatusToJira_spec_def)

text \<open>
  Claim C10. In every reporter variant \<^verbatim>\<open>mapTestStatus\<close> is total and its result is one
  of 'PASSED', 'FAILED', 'SKIPPED': 'passed' goes to 'PASSED', 'skipped' to 'SKIPPED',
  and every other status (such as 'timedOut', 'interrupted' or an unknown value) to
  'FAILED'. The functions of the basic and of the hybrid reporter are equal.
\<close>

theorem mapTestStatus_total_and_equal:
  "list_all (\<lambda>f. f s = mapTestStatus_spec s) mapTestStatus_variants
   \<and> mapTestStatus_spec s \<in> {''PASSED'', ''FAILED'', ''SKIPPED''}
   \<and> XrayReporter_mapTestStatus ''timedOut'' = ''FAILED''
   \<and> XrayReporter_mapTestStatus ''interrupted'' = ''FAILED''
   \<and> XrayReporter_mapTestStatus = XrayReporterHybrid_mapTestStatus"
proof -
  have all: "list_all (\<lambda>f. f s = mapTestStatus_spec s) mapTestStatus_variants"
    by (simp add: mapTestStatus_variants_def mapTestStatus_defs mapTestStatus_spec_def)
  have rng: "mapTestStatus_spec s \<in> {''PASSED'', ''FAILED'', ''SKIPPED''}"
    by (simp add: mapTestStatus_spec_def)
  have eq: "XrayReporter_mapTestStatus = XrayReporterHybrid_mapTestStatus"
    by (rule ext) (simp add: mapTestStatus_defs)
  show ?thesis
    by (intro conjI all rng eq) (simp_all add: XrayReporter_mapTestStatus_def)
qed

theorem mapTestStatus_total_and_equal_witness:
  "list_all (\<lambda>f. f ''interrupted'' = ''FAILED'') mapTestStatus_variants"
  using mapTestStatus_total_and_equal [of "''interrupted''"]
  by (simp add: mapTestStatus_spec_def)

lemma lit_mismatch: "P (hd s) \<Longrightarrow> \<not> P c \<Longrightarrow> s \<noteq> [] \<Longrightarrow> rx_matches (Lit c # as) s = []"
  by (cases s) auto

lemma drop_in_run:
  assumes "k < length (takeWhile P s)"
  shows "drop k s \<noteq> [] \<and> P (hd (drop k s))"
proof -
  have len: "length (takeWhile P s) \<le> length s" by (rule length_takeWhile_le)
  have k: "k < length s" using assms len by simp
  have "takeWhile P s ! k \<in> set (takeWhile P s)" using assms by simp
  then have "P (takeWhile P s ! k)" by (rule set_takeWhileD[THEN conjunct2])
  moreover have "takeWhile P s ! k = s ! k" using assms by (rule takeWhile_nth)
  moreover have "hd (drop k s) = s ! k" using k by (simp add: hd_drop_conv_nth)
  ultimately show ?thesis using k by simp
qed

lemma concat_run_empty:
  assumes "\<And>k. k \<in> set ks \<Longrightarrow> f k = []"
  shows "concat (map f ks) = []"
  using assms by (induction ks) auto

lemma plus_then_lit:
  assumes "\<not> P c"
  shows "rx_matches (Plus P # Lit c # as) s =
           (if takeWhile P s = [] then []
            else map (\<lambda>(m, r). (takeWhile P s @ m, r))
                     (rx_matches (Lit c # as) (dropWhile P s)))"
proof (cases "takeWhile P s = []")
  case True
  then show ?thesis by simp
next
  case False
  define n where "n = length (takeWhile P s)"
  define f where "f = (\<lambda>k. map (\<lambda>(m, r). (take k s @ m, r)) (rx_matches (Lit c # as) (drop k s)))"
  have n1: "1 \<le> n" using False by (simp add: n_def Suc_le_eq)
  have split: "rev [1..<Suc n] = n # rev [1..<n]" using n1 by simp
  have small: "f k = []" if "k \<in> set (rev [1..<n])" for k
  proof -
    have "k < n" using that by simp
    then have "drop k s \<noteq> [] \<and> P (hd (drop k s))" unfolding n_def by (rule drop_in_run)
    then have "rx_matches (Lit c # as) (drop k s) = []"
      using assms lit_mismatch[of P "drop k s" c as] by simp
    then show ?thesis by (simp add: f_def)
  qed
  have "rx_matches (Plus P # Lit c # as) s = concat (map f (rev [1..<Suc n]))"
    unfolding f_def n_def by (simp del: upt_Suc)
  also have "\<dots> = f n @ concat (map f (rev [1..<n]))" by (simp only: split list.map concat.simps)
  also have "\<dots> = f n" using concat_run_empty[of "rev [1..<n]" f] small by simp
  also have "\<dots> = map (\<lambda>(m, r). (takeWhile P s @ m, r)) (rx_matches (Lit c # as) (dropWhile P s))"
    unfolding f_def n_def
    by (simp only: takeWhile_eq_take[symmetric] dropWhile_eq_drop[symmetric])
  finally show ?thesis using False by simp
qed

lemma plus_last_then_lit:
  assumes "\<not> P c"
  shows "concat (map (\<lambda>(m, r). map (\<lambda>_. F m) (rx_matches [Lit c] r)) (rx_matches [Plus P] s)) =
           (if takeWhile P s \<noteq> [] \<and> dropWhile P s \<noteq> [] \<and> hd (dropWhile P s) = c
            then [F (takeWhile P s)] else [])"
proof (cases "takeWhile P s = []")
  case True
  then show ?thesis by simp
next
  case False
  define n where "n = length (takeWhile P s)"
  define f where "f = (\<lambda>k. map (\<lambda>_. F (take k s)) (rx_matches [Lit c] (drop k s)))"
  have n1: "1 \<le> n" using False by (simp add: n_def Suc_le_eq)
  have split: "rev [1..<Suc n] = n # rev [1..<n]" using n1 by simp
  have small: "f k = []" if "k \<in> set (rev [1..<n])" for k
  proof -
    have "k < n" using that by simp
    then have "drop k s \<noteq> [] \<and> P (hd (drop k s))" unfolding n_def by (rule drop_in_run)
    then have "rx_matches [Lit c] (drop k s) = []"
      using assms lit_mismatch[of P "drop k s" c "[]"] by simp
    then show ?thesis by (simp add: f_def)
  qed
  have "concat (map (\<lambda>(m, r). map (\<lambda>_. F m) (rx_matches [Lit c] r)) (rx_matches [Plus P] s))
        = concat (map f (rev [1..<Suc n]))"
    unfolding f_def n_def by (simp del: upt_Suc add: comp_def)
  also have "\<dots> = f n @ concat (map f (rev [1..<n]))" by (simp only: split list.map concat.simps)
  also have "\<dots> = f n" using concat_run_empty[of "rev [1..<n]" f] small by simp
  also have "\<dots> = map (\<lambda>_. F (takeWhile P s)) (rx_matches [Lit c] (dropWhile P s))"
    unfolding f_def n_def
    by (simp only: takeWhile_eq_take[symmetric] dropWhile_eq_drop[symmetric])
  finally show ?thesis using False by (cases "dropWhile P s") auto
qed

lemma dash_not_upper: "\<not> is_upper (CHR ''-'')" by (simp add: is_upper_def)

lemma colon_not_digit: "\<not> is_digit (CHR '':'')" by (simp add: is_digit_def)

lemma upper_not_dash: "is_upper c \<Longrightarrow> c \<noteq> CHR ''-''" using dash_not_upper by auto

lemma is_key_iff:
  "is_key k \<longleftrightarrow> (\<exists>ls ds. ls \<noteq> [] \<and> list_all is_upper ls \<and> ds \<noteq> [] \<and> list_all is_digit ds
                     \<and> k = ls @ CHR ''-'' # ds)"
proof
  assume "is_key k"
  then obtain ds where
    ls: "takeWhile (\<lambda>c. c \<noteq> CHR ''-'') k \<noteq> []" "list_all is_upper (takeWhile (\<lambda>c. c \<noteq> CHR ''-'') k)"
    and r: "dropWhile (\<lambda>c. c \<noteq> CHR ''-'') k = hd (dropWhile (\<lambda>c. c \<noteq> CHR ''-'') k) # ds"
    and ds: "ds \<noteq> []" "list_all is_digit ds"
    by (auto simp: is_key_def Let_def split: list.splits)
  have "dropWhile (\<lambda>c. c \<noteq> CHR ''-'') k \<noteq> []"
    using r by (metis list.distinct(1))
  then have "hd (dropWhile (\<lambda>c. c \<noteq> CHR ''-'') k) = CHR ''-''"
    using hd_dropWhile[of "\<lambda>c. c \<noteq> CHR ''-''" k] by simp
  then have "k = takeWhile (\<lambda>c. c \<noteq> CHR ''-'') k @ CHR ''-'' # ds"
    using r takeWhile_dropWhile_id[of "\<lambda>c. c \<noteq> CHR ''-''" k] by simp
  then show "\<exists>ls ds. ls \<noteq> [] \<and> list_all is_upper ls \<and> ds \<noteq> [] \<and> list_all is_digit ds
                     \<and> k = ls @ CHR ''-'' # ds"
    using ls ds by blast
next
  assume "\<exists>ls ds. ls \<noteq> [] \<and> list_all is_upper ls \<and> ds \<noteq> [] \<and> list_all is_digit ds
                     \<and> k = ls @ CHR ''-'' # ds"
  then obtain ls ds where h: "ls \<noteq> []" "list_all is_upper ls" "ds \<noteq> []" "list_all is_digit ds"
    "k = ls @ CHR ''-'' # ds" by blast
  have nd: "\<forall>c\<in>set ls. c \<noteq> CHR ''-''" using h(2) upper_not_dash by (auto simp: list_all_iff)
  have t: "takeWhile (\<lambda>c. c \<noteq> CHR ''-'') k = ls"
    unfolding h(5) using nd by (simp add: takeWhile_append2)
  have d: "dropWhile (\<lambda>c. c \<noteq> CHR ''-'') k = CHR ''-'' # ds"
    unfolding h(5) using nd by (simp add: dropWhile_append2)
  show "is_key k" using h t d by (simp add: is_key_def)
qed

lemma key_prefix_intro:
  assumes "is_key k" and "rest = [] \<or> \<not> is_digit (hd rest)"
  shows "key_prefix (k @ rest) = Some (k, rest)"
proof -
  obtain ls ds where h: "ls \<noteq> []" "list_all is_upper ls" "ds \<noteq> []" "list_all is_digit ds"
    "k = ls @ CHR ''-'' # ds" using assms(1) is_key_iff by blast
  have up: "\<forall>c\<in>set ls. is_upper c" using h(2) by (simp add: list_all_iff)
  have dg: "\<forall>c\<in>set ds. is_digit c" using h(4) by (simp add: list_all_iff)
  have t: "takeWhile is_upper (k @ rest) = ls"
    unfolding h(5) using up dash_not_upper by (simp add: takeWhile_append2)
  have d: "dropWhile is_upper (k @ rest) = CHR ''-'' # ds @ rest"
    unfolding h(5) using up dash_not_upper by (simp add: dropWhile_append2)
  have t2: "takeWhile is_digit (ds @ rest) = ds"
    using dg assms(2) by (cases rest) (simp_all add: takeWhile_append2)
  have d2: "dropWhile is_digit (ds @ rest) = rest"
    using dg assms(2) by (cases rest) (simp_all add: dropWhile_append2)
  show ?thesis
    unfolding key_prefix_def using t d t2 d2 h(1,3,5) by simp
qed

lemma key_prefix_Some:
  assumes "key_prefix s = Some (k, r)"
  shows "is_key k \<and> s = k @ r \<and> (r = [] \<or> \<not> is_digit (hd r))"
proof -
  define ls where "ls = takeWhile is_upper s"
  define r0 where "r0 = dropWhile is_upper s"
  from assms obtain r' where
    ls: "ls \<noteq> []" and r0: "r0 = CHR ''-'' # r'"
    and ds: "takeWhile is_digit r' \<noteq> []"
    and k: "k = ls @ CHR ''-'' # takeWhile is_digit r'" and r: "r = dropWhile is_digit r'"
    unfolding key_prefix_def ls_def r0_def
    by (auto simp: Let_def split: list.splits if_splits)
  have s: "s = ls @ r0" unfolding ls_def r0_def by simp
  have "list_all is_upper ls" unfolding ls_def list_all_iff using set_takeWhileD by fast
  moreover have "list_all is_digit (takeWhile is_digit r')"
    unfolding list_all_iff using set_takeWhileD by fast
  ultimately have "is_key k" using ls ds k is_key_iff by blast
  moreover have "s = k @ r" using s r0 k r by simp
  moreover have "r = [] \<or> \<not> is_digit (hd r)"
    unfolding r using hd_dropWhile[of is_digit r'] by blast
  ultimately show ?thesis by simp
qed

lemma key_prefix_None:
  assumes "key_prefix s = None"
  shows "\<not> (\<exists>k r. is_key k \<and> s = k @ r)"
proof
  assume "\<exists>k r. is_key k \<and> s = k @ r"
  then obtain k r where kr: "is_key k" "s = k @ r" by blast
  obtain ls ds where h: "ls \<noteq> []" "list_all is_upper ls" "ds \<noteq> []" "list_all is_digit ds"
    "k = ls @ CHR ''-'' # ds" using kr(1) is_key_iff by blast
  define k' where "k' = ls @ CHR ''-'' # (ds @ takeWhile is_digit r)"
  have "list_all is_digit (ds @ takeWhile is_digit r)"
    using h(4) set_takeWhileD[of _ is_digit r] by (auto simp: list_all_iff)
  then have "is_key k'" unfolding k'_def using h(1,2,3) is_key_iff by blast
  moreover have "s = k' @ dropWhile is_digit r" unfolding k'_def kr(2) h(5) by simp
  moreover have "dropWhile is_digit r = [] \<or> \<not> is_digit (hd (dropWhile is_digit r))"
    using hd_dropWhile[of is_digit r] by blast
  ultimately have "key_prefix s = Some (k', dropWhile is_digit r)"
    using key_prefix_intro by blast
  then show False using assms by simp
qed

lemma key_rx_matches:
  "rx_matches key_rx s =
     (if takeWhile is_upper s = [] then []
      else (case dropWhile is_upper s of
              [] \<Rightarrow> []
            | c # r' \<Rightarrow>
                if c = CHR ''-''
                then map (\<lambda>(m, r). (takeWhile is_upper s @ CHR ''-'' # m, r)) (rx_matches [Plus is_digit] r')
                else []))"
proof -
  have L: "map (\<lambda>(m, r). (pre @ m, r)) (rx_matches [Lit c, Plus P] r) =
             (case r of [] \<Rightarrow> []
              | x # xs \<Rightarrow> if x = c then map (\<lambda>(m, r). (pre @ c # m, r)) (rx_matches [Plus P] xs) else [])"
    for c P r pre
    by (cases r) (simp_all del: rx_matches.simps(3) add: comp_def case_prod_beta)
  show ?thesis
    unfolding key_rx_def plus_then_lit[where P=is_upper and c="CHR ''-''", OF dash_not_upper] L
    by (rule refl)
qed

lemma match_group_title:
  "match_group key_rx [Lit (CHR '':'')] s =
     (case key_prefix s of
        None \<Rightarrow> None
      | Some (k, r) \<Rightarrow> (case r of [] \<Rightarrow> None | c # _ \<Rightarrow> if c = CHR '':'' then Some k else None))"
proof -
  have M: "map (\<lambda>(m, r). map (\<lambda>_. m) (rx_matches t r)) (map (\<lambda>(m, r). (pre @ CHR ''-'' # m, r)) xs)
           = map (\<lambda>(m, r). map (\<lambda>_. pre @ CHR ''-'' # m) (rx_matches t r)) xs"
    for t pre and xs :: "(string \<times> string) list"
    by (induction xs) (auto simp del: rx_matches.simps)
  have F: "concat (map (\<lambda>(m, r). map (\<lambda>_. m) (rx_matches [Lit (CHR '':'')] r))
             (map (\<lambda>(m, r). (pre @ CHR ''-'' # m, r)) (rx_matches [Plus is_digit] r'))) =
           (if takeWhile is_digit r' \<noteq> [] \<and> dropWhile is_digit r' \<noteq> [] \<and> hd (dropWhile is_digit r') = CHR '':''
            then [pre @ CHR ''-'' # takeWhile is_digit r'] else [])" for pre r'
    by (simp only: M plus_last_then_lit[where P=is_digit and c="CHR '':''"
          and F="\<lambda>m. pre @ CHR ''-'' # m" and s=r', OF colon_not_digit])
  show ?thesis
  proof (cases "takeWhile is_upper s = []")
    case True
    then show ?thesis by (simp add: match_group_def key_rx_matches key_prefix_def)
  next
    case False
    show ?thesis
    proof (cases "dropWhile is_upper s")
      case Nil
      show ?thesis using False
        unfolding match_group_def key_rx_matches key_prefix_def Nil by simp
    next
      case (Cons c r')
      show ?thesis
      proof (cases "c = CHR ''-''")
        case True
        have "match_group key_rx [Lit (CHR '':'')] s =
            (case (if takeWhile is_digit r' \<noteq> [] \<and> dropWhile is_digit r' \<noteq> [] \<and> hd (dropWhile is_digit r') = CHR '':''
            then [takeWhile is_upper s @ CHR ''-'' # takeWhile is_digit r'] else []) of [] \<Rightarrow> None | m # _ \<Rightarrow> Some m)"
          unfolding match_group_def key_rx_matches using False Cons True
          by (simp only: F if_False list.case if_True refl)
        moreover have "key_prefix s =
            (if takeWhile is_digit r' = [] then None
             else Some (takeWhile is_upper s @ CHR ''-'' # takeWhile is_digit r', dropWhile is_digit r'))"
          using False Cons True by (simp add: key_prefix_def Let_def)
        ultimately show ?thesis
          by (cases "dropWhile is_digit r'") (simp_all del: dropWhile_eq_Nil_conv)
      next
        case F2: False
        then show ?thesis using False Cons
          by (simp add: match_group_def key_rx_matches key_prefix_def)
      qed
    qed
  qed
qed

lemma match_group_file:
  "match_group key_rx [] s = map_option fst (key_prefix s)"
proof -
  have G: "concat (map (\<lambda>(m, r). map (\<lambda>_. m) (rx_matches [] r)) xs) = map fst xs"
    for xs :: "(string \<times> string) list"
    by (induction xs) auto
  have H: "map fst (map (\<lambda>(m, r). (pre @ m, r)) (rx_matches [Plus P] r)) =
             (if takeWhile P r = [] then []
              else (pre @ takeWhile P r) # map (\<lambda>k. pre @ take k r) (rev [1..<length (takeWhile P r)]))"
    for P r pre
  proof (cases "takeWhile P r = []")
    case True then show ?thesis by simp
  next
    case False
    then have "1 \<le> length (takeWhile P r)" by (simp add: Suc_le_eq)
    then have "rev [1..<Suc (length (takeWhile P r))] = length (takeWhile P r) # rev [1..<length (takeWhile P r)]"
      by simp
    then show ?thesis using False
      by (simp add: comp_def takeWhile_eq_take[symmetric] del: upt_Suc)
  qed
  show ?thesis
  proof (cases "takeWhile is_upper s = []")
    case True
    then show ?thesis by (simp add: match_group_def key_rx_matches key_prefix_def)
  next
    case False
    show ?thesis
    proof (cases "dropWhile is_upper s")
      case Nil
      show ?thesis using False
        unfolding match_group_def key_rx_matches key_prefix_def Nil by simp
    next
      case (Cons c r')
      show ?thesis
      proof (cases "c = CHR ''-''")
        case True
        have "match_group key_rx [] s =
            (case (if takeWhile is_digit r' = [] then []
              else (takeWhile is_upper s @ CHR ''-'' # takeWhile is_digit r') #
                   map (\<lambda>k. takeWhile is_upper s @ CHR ''-'' # take k r') (rev [1..<length (takeWhile is_digit r')]))
             of [] \<Rightarrow> None | m # _ \<Rightarrow> Some m)"
          unfolding match_group_def key_rx_matches G using False Cons True
            H[where pre="takeWhile is_upper s @ [CHR ''-'']" and P=is_digit and r=r']
          by (simp del: rx_matches.simps)
        then show ?thesis
          using False Cons True by (simp add: key_prefix_def)
      next
        case F2: False
        then show ?thesis using False Cons
          by (simp add: match_group_def key_rx_matches key_prefix_def)
      qed
    qed
  qed
qed

lemmas prog_defs = ret_def throw_def bind_def try_catch_def lift_def logger_def writeFileSync_def
  axios_request_def interceptor_onRejected_def set_canCreateIssues_def get_canCreateIssues_def

lemma hybrid_example_http:
  "map req_url (http (snd (XrayReporterHybrid_reportToXray_steps accepting_env example_reporter
      [example_result] world0))) =
     [''/issue/PROJ-1'', ''/issue/PROJ-1'', ''/issue/PROJ-1'', ''/issue/PROJ-1/comment'', ''/issue/PROJ-1'', ''/testexecution'']"
  by (simp add: XrayReporterHybrid_reportToXray_steps_def
      XrayClientHybrid_updateAllTestCaseStatuses_def XrayClientHybrid_updateTestCaseStatus_def
      XrayClientHybrid_updateTestCaseStatus_catch_def XrayClientHybrid_findTestCase_def
      XrayClientHybrid_findTestCase_catch_def XrayClientHybrid_addTestExecutionComment_def
      XrayClientHybrid_addTestExecutionComment_catch_def XrayClientHybrid_createTestExecution_def
      XrayClientHybrid_createTestExecution_catch_def XrayClientHybrid_mapXrayStatusToJira_def
      prog_defs accepting_env_def accepting_srv_def world0_def example_issue_def issuetype_name_def
      example_reporter_def example_result_def execution_key_def outputDir_set_def
      req_url_def Let_def)

lemmas is_req_defs = is_GET_issue_def is_POST_issue_def is_PUT_issue_def
  is_POST_issue_comment_def is_POST_testexecution_def

lemma preservesI:
  assumes "\<And>w r w'. m w = (r, w') \<Longrightarrow> I w w'"
  shows "preserves I m"
  using assms unfolding preserves_def by blast

lemma preservesD: "preserves I m \<Longrightarrow> m w = (r, w') \<Longrightarrow> I w w'"
  unfolding preserves_def by blast

lemma preserves_ret: "(\<And>w. I w w) \<Longrightarrow> preserves I (ret v)"
  by (rule preservesI) (auto simp: ret_def)

lemma preserves_throw: "(\<And>w. I w w) \<Longrightarrow> preserves I (throw e)"
  by (rule preservesI) (auto simp: throw_def)

lemma preserves_lift: "(\<And>w. I w w) \<Longrightarrow> preserves I (lift r)"
  by (rule preservesI) (auto simp: lift_def)

lemma preserves_bind:
  assumes tr: "\<And>a b c. I a b \<Longrightarrow> I b c \<Longrightarrow> I a c"
    and m: "preserves I m" and f: "\<And>v. preserves I (f v)"
  shows "preserves I (bind m f)"
proof (rule preservesI)
  fix w r w'
  assume run: "bind m f w = (r, w')"
  obtain r1 w1 where mw: "m w = (r1, w1)" by (cases "m w")
  have i1: "I w w1" using preservesD[OF m mw] .
  show "I w w'"
  proof (cases r1)
    case (Inl e)
    then show ?thesis using run mw i1 by (simp add: bind_def)
  next
    case (Inr v)
    then have "f v w1 = (r, w')" using run mw by (simp add: bind_def)
    then show ?thesis using preservesD[OF f] i1 tr by blast
  qed
qed

lemma preserves_try_catch:
  assumes tr: "\<And>a b c. I a b \<Longrightarrow> I b c \<Longrightarrow> I a c"
    and m: "preserves I m" and h: "\<And>e. preserves I (h e)"
  shows "preserves I (try_catch m h)"
proof (rule preservesI)
  fix w r w'
  assume run: "try_catch m h w = (r, w')"
  obtain r1 w1 where mw: "m w = (r1, w1)" by (cases "m w")
  have i1: "I w w1" using preservesD[OF m mw] .
  show "I w w'"
  proof (cases r1)
    case (Inr v)
    then show ?thesis using run mw i1 by (simp add: try_catch_def)
  next
    case (Inl e)
    then have "h e w1 = (r, w')" using run mw by (simp add: try_catch_def)
    then show ?thesis using preservesD[OF h] i1 tr by blast
  qed
qed

lemma preserves_if:
  "(c \<Longrightarrow> preserves I m) \<Longrightarrow> (\<not> c \<Longrightarrow> preserves I n) \<Longrightarrow> preserves I (if c then m else n)"
  by simp

lemma preserves_case_option:
  "(x = None \<Longrightarrow> preserves I m) \<Longrightarrow> (\<And>v. x = Some v \<Longrightarrow> preserves I (f v))
   \<Longrightarrow> preserves I (case x of None \<Rightarrow> m | Some v \<Rightarrow> f v)"
  by (cases x) simp_all


lemma preserves_weaken:
  "preserves I m \<Longrightarrow> (\<And>w w'. I w w' \<Longrightarrow> J w w') \<Longrightarrow> preserves J m"
  unfolding preserves_def by blast

lemma preserves_state_fun:
  "(\<And>w0. preserves I (f w0)) \<Longrightarrow> preserves I (\<lambda>w. f w w)"
  unfolding preserves_def by blast

text \<open>only_logs\<close>

lemma only_logs_refl: "only_logs w w"
  unfolding only_logs_def by (rule exI[of _ "[]"]) simp

lemma only_logs_trans:
  assumes "only_logs a b" and "only_logs b c"
  shows "only_logs a c"
proof -
  obtain L1 where b: "b = a\<lparr>logs := logs a @ L1\<rparr>" using assms(1) unfolding only_logs_def by blast
  obtain L2 where c: "c = b\<lparr>logs := logs b @ L2\<rparr>" using assms(2) unfolding only_logs_def by blast
  have "c = a\<lparr>logs := logs a @ (L1 @ L2)\<rparr>" unfolding c b by simp
  then show ?thesis unfolding only_logs_def by blast
qed

lemma ext_by_refl: "ext_by P w w"
  unfolding ext_by_def by simp

lemma ext_by_trans: "ext_by P a b \<Longrightarrow> ext_by P b c \<Longrightarrow> ext_by P a c"
  unfolding ext_by_def by (metis append.assoc list_all_append)

lemma latch_kept_refl: "latch_kept w w"
  unfolding latch_kept_def by simp

lemma latch_kept_trans: "latch_kept a b \<Longrightarrow> latch_kept b c \<Longrightarrow> latch_kept a c"
  unfolding latch_kept_def by blast

lemma only_logs_ext_by: "only_logs w w' \<Longrightarrow> ext_by P w w'"
  unfolding only_logs_def ext_by_def by auto

lemma only_logs_latch_kept: "only_logs w w' \<Longrightarrow> latch_kept w w'"
  unfolding only_logs_def latch_kept_def by auto

lemma preserves_logger_only_logs: "preserves only_logs (logger lvl msg)"
  by (rule preservesI) (auto simp: logger_def only_logs_def)

lemma preserves_logger_ext_by: "preserves (ext_by P) (logger lvl msg)"
  by (rule preserves_weaken[OF preserves_logger_only_logs only_logs_ext_by])

lemma preserves_logger_latch: "preserves latch_kept (logger lvl msg)"
  by (rule preserves_weaken[OF preserves_logger_only_logs only_logs_latch_kept])

lemma preserves_writeFileSync_ext_by: "preserves (ext_by P) (writeFileSync p c)"
  by (rule preservesI) (auto simp: writeFileSync_def ext_by_def)

lemma axios_request_http:
  assumes "axios_request E req w = (r, w')"
  shows "http w' = http w @ [req] \<and> server w' = snd (srv E (server w) req)
         \<and> canCreateIssues w' = canCreateIssues w \<and> files w' = files w"
  using assms
  by (auto simp: axios_request_def interceptor_onRejected_def Let_def bind_def logger_def ret_def throw_def
        split: prod.splits response.splits option.splits)

lemma axios_request_result:
  assumes "axios_request E req w = (r, w')"
  shows "r = (case fst (srv E (server w) req) of Resolved d \<Rightarrow> Inr d | Rejected e x \<Rightarrow> Inl e)"
  using assms
  by (auto simp: axios_request_def interceptor_onRejected_def Let_def bind_def logger_def ret_def throw_def
        split: prod.splits response.splits option.splits)

lemma preserves_axios_ext_by: "P req \<Longrightarrow> preserves (ext_by P) (axios_request E req)"
  by (rule preservesI) (auto simp: ext_by_def dest: axios_request_http)

lemma preserves_axios_latch: "preserves latch_kept (axios_request E req)"
  by (rule preservesI) (auto simp: latch_kept_def dest: axios_request_http)

lemma preserves_get_latch_only_logs: "preserves only_logs get_canCreateIssues"
  by (rule preservesI) (auto simp: get_canCreateIssues_def only_logs_refl)

lemma preserves_get_latch_ext_by: "preserves (ext_by P) get_canCreateIssues"
  by (rule preserves_weaken[OF preserves_get_latch_only_logs only_logs_ext_by])

lemma preserves_get_latch_latch: "preserves latch_kept get_canCreateIssues"
  by (rule preserves_weaken[OF preserves_get_latch_only_logs only_logs_latch_kept])

lemma preserves_set_latch_False: "preserves latch_kept (set_canCreateIssues False)"
  by (rule preservesI) (auto simp: set_canCreateIssues_def latch_kept_def)

lemma preserves_set_latch_ext_by: "preserves (ext_by P) (set_canCreateIssues b)"
  by (rule preservesI) (auto simp: set_canCreateIssues_def ext_by_def)

lemma ext_by_bind:
  assumes "preserves (ext_by P) m" and "\<And>v. preserves (ext_by P) (f v)"
  shows "preserves (ext_by P) (bind m f)"
proof (rule preserves_bind)
  show "\<And>a b c. ext_by P a b \<Longrightarrow> ext_by P b c \<Longrightarrow> ext_by P a c" by (rule ext_by_trans)
qed (use assms in auto)

lemma ext_by_try_catch:
  assumes "preserves (ext_by P) m" and "\<And>e. preserves (ext_by P) (h e)"
  shows "preserves (ext_by P) (try_catch m h)"
proof (rule preserves_try_catch)
  show "\<And>a b c. ext_by P a b \<Longrightarrow> ext_by P b c \<Longrightarrow> ext_by P a c" by (rule ext_by_trans)
qed (use assms in auto)

lemma latch_bind:
  assumes "preserves latch_kept m" and "\<And>v. preserves latch_kept (f v)"
  shows "preserves latch_kept (bind m f)"
proof (rule preserves_bind)
  show "\<And>a b c. latch_kept a b \<Longrightarrow> latch_kept b c \<Longrightarrow> latch_kept a c" by (rule latch_kept_trans)
qed (use assms in auto)

lemma latch_try_catch:
  assumes "preserves latch_kept m" and "\<And>e. preserves latch_kept (h e)"
  shows "preserves latch_kept (try_catch m h)"
proof (rule preserves_try_catch)
  show "\<And>a b c. latch_kept a b \<Longrightarrow> latch_kept b c \<Longrightarrow> latch_kept a c" by (rule latch_kept_trans)
qed (use assms in auto)

lemma only_logs_bind:
  assumes "preserves only_logs m" and "\<And>v. preserves only_logs (f v)"
  shows "preserves only_logs (bind m f)"
proof (rule preserves_bind)
  show "\<And>a b c. only_logs a b \<Longrightarrow> only_logs b c \<Longrightarrow> only_logs a c" by (rule only_logs_trans)
qed (use assms in auto)

lemma only_logs_try_catch:
  assumes "preserves only_logs m" and "\<And>e. preserves only_logs (h e)"
  shows "preserves only_logs (try_catch m h)"
proof (rule preserves_try_catch)
  show "\<And>a b c. only_logs a b \<Longrightarrow> only_logs b c \<Longrightarrow> only_logs a c" by (rule only_logs_trans)
qed (use assms in auto)

lemmas ext_by_intros =
  ext_by_bind ext_by_try_catch
  preserves_ret[where I="ext_by P", OF ext_by_refl]
  preserves_throw[where I="ext_by P", OF ext_by_refl]
  preserves_lift[where I="ext_by P", OF ext_by_refl]
  preserves_logger_ext_by preserves_writeFileSync_ext_by preserves_set_latch_ext_by
  preserves_get_latch_ext_by
  preserves_if preserves_case_option
  for P

lemmas latch_intros =
  latch_bind latch_try_catch
  preserves_ret[where I=latch_kept, OF latch_kept_refl]
  preserves_throw[where I=latch_kept, OF latch_kept_refl]
  preserves_lift[where I=latch_kept, OF latch_kept_refl]
  preserves_logger_latch preserves_axios_latch preserves_set_latch_False
  preserves_get_latch_latch
  preserves_if preserves_case_option

lemmas only_logs_intros =
  only_logs_bind only_logs_try_catch
  preserves_ret[where I=only_logs, OF only_logs_refl]
  preserves_throw[where I=only_logs, OF only_logs_refl]
  preserves_lift[where I=only_logs, OF only_logs_refl]
  preserves_logger_only_logs preserves_get_latch_only_logs
  preserves_if preserves_case_option

lemma ext_by_mono: "ext_by P w w' \<Longrightarrow> (\<And>q. P q \<Longrightarrow> Q q) \<Longrightarrow> ext_by Q w w'"
  unfolding ext_by_def list_all_iff by blast

lemma sends_mono: "preserves (ext_by P) m \<Longrightarrow> (\<And>q. P q \<Longrightarrow> Q q) \<Longrightarrow> preserves (ext_by Q) m"
  by (erule preserves_weaken) (erule ext_by_mono)


lemma latch_Hybrid_findTestCase: "preserves latch_kept (XrayClientHybrid_findTestCase E k)"
  unfolding XrayClientHybrid_findTestCase_def XrayClientHybrid_findTestCase_catch_def
  by (intro latch_intros)

lemma latch_Hybrid_tryCreateTestCase:
  "preserves latch_kept (XrayClientHybrid_tryCreateTestCase E k t d)"
  unfolding XrayClientHybrid_tryCreateTestCase_def XrayClientHybrid_tryCreateTestCase_catch_def
  by (intro latch_intros)

lemma latch_Hybrid_ensureTestCaseExists:
  "preserves latch_kept (XrayClientHybrid_ensureTestCaseExists E k t d)"
  unfolding XrayClientHybrid_ensureTestCaseExists_def
  by (intro latch_intros latch_Hybrid_findTestCase latch_Hybrid_tryCreateTestCase)

lemma latch_Hybrid_updateTestCaseStatus:
  "preserves latch_kept (XrayClientHybrid_updateTestCaseStatus E k s)"
  unfolding XrayClientHybrid_updateTestCaseStatus_def XrayClientHybrid_updateTestCaseStatus_catch_def Let_def
  by (intro latch_intros latch_Hybrid_findTestCase)

lemma latch_Hybrid_updateAll_loop:
  "preserves latch_kept (XrayClientHybrid_updateAll_loop E rs n)"
  by (induction rs arbitrary: n) (auto intro!: latch_intros latch_Hybrid_updateTestCaseStatus)

lemma latch_Hybrid_updateAllTestCaseStatuses:
  "preserves latch_kept (XrayClientHybrid_updateAllTestCaseStatuses E rs)"
  unfolding XrayClientHybrid_updateAllTestCaseStatuses_def
  by (intro latch_intros latch_Hybrid_updateAll_loop)

lemma latch_Hybrid_addTestExecutionComment:
  "preserves latch_kept (XrayClientHybrid_addTestExecutionComment E k s t c)"
  unfolding XrayClientHybrid_addTestExecutionComment_def XrayClientHybrid_addTestExecutionComment_catch_def
  by (intro latch_intros latch_Hybrid_findTestCase)

lemma latch_Hybrid_find_loop:
  "preserves latch_kept (XrayClientHybrid_find_loop E rs acc)"
  by (induction rs arbitrary: acc) (auto intro!: latch_intros latch_Hybrid_findTestCase)

lemma latch_Hybrid_createTestExecution:
  "preserves latch_kept (XrayClientHybrid_createTestExecution E i rs)"
  unfolding XrayClientHybrid_createTestExecution_def XrayClientHybrid_createTestExecution_catch_def
  by (intro latch_intros latch_Hybrid_find_loop)

lemma latch_hybrid_call: "preserves latch_kept (run_hybrid_call E c)"
  by (cases c)
     (simp_all add: latch_Hybrid_findTestCase latch_Hybrid_tryCreateTestCase
        latch_Hybrid_ensureTestCaseExists latch_Hybrid_updateTestCaseStatus
        latch_Hybrid_updateAllTestCaseStatuses latch_Hybrid_addTestExecutionComment
        latch_Hybrid_createTestExecution)

lemma latch_hybrid_calls:
  "\<not> canCreateIssues w \<Longrightarrow> \<not> canCreateIssues (run_hybrid_calls E cs w)"
proof (induction cs arbitrary: w)
  case Nil
  then show ?case by simp
next
  case (Cons c cs)
  have "latch_kept w (snd (run_hybrid_call E c w))"
    using preservesD[OF latch_hybrid_call, of E c w] by (metis prod.collapse)
  then have "\<not> canCreateIssues (snd (run_hybrid_call E c w))"
    using Cons.prems by (simp add: latch_kept_def)
  then show ?case using Cons.IH by simp
qed

lemma tryCreate_disabled:
  assumes "\<not> canCreateIssues w"
  shows "XrayClientHybrid_tryCreateTestCase E k t d w =
           (Inr JNull, w\<lparr>logs := logs w @ [(Info, ''Skipping test case creation for '' @ k @ '' - creation disabled'')]\<rparr>)"
  using assms
  by (simp add: XrayClientHybrid_tryCreateTestCase_def get_canCreateIssues_def bind_def logger_def ret_def)

lemma tryCreate_catch_latches:
  "\<not> canCreateIssues (snd (XrayClientHybrid_tryCreateTestCase_catch k e w))
   \<and> fst (XrayClientHybrid_tryCreateTestCase_catch k e w) = Inr JNull"
  by (simp add: XrayClientHybrid_tryCreateTestCase_catch_def bind_def logger_def ret_def
      set_canCreateIssues_def)

lemma bind_logger: "bind (logger l m) f w = f () (w\<lparr>logs := logs w @ [(l, m)]\<rparr>)"
  by (simp add: bind_def logger_def)

lemma bind_lift_Inl: "bind (lift (Inl e)) f w = (Inl e, w)"
  by (simp add: bind_def lift_def)

lemma bind_lift_Inr: "bind (lift (Inr v)) f w = f v w"
  by (simp add: bind_def lift_def)

lemma bind_ret: "bind (ret v) f w = f v w"
  by (simp add: bind_def ret_def)

lemma bind_throw: "bind (throw e) f w = (Inl e, w)"
  by (simp add: bind_def throw_def)

lemma ret_apply: "ret v w = (Inr v, w)"
  by (simp add: ret_def)

lemma throw_apply: "throw e w = (Inl e, w)"
  by (simp add: throw_def)

lemma logger_apply: "logger l m w = (Inr (), w\<lparr>logs := logs w @ [(l, m)]\<rparr>)"
  by (simp add: logger_def)

lemmas prog_simps = bind_logger bind_lift_Inl bind_lift_Inr bind_ret bind_throw ret_apply throw_apply
  logger_apply

lemma bind_Inl: "m w = (Inl e, w') \<Longrightarrow> bind m f w = (Inl e, w')"
  by (simp add: bind_def)

lemma bind_Inr: "m w = (Inr v, w') \<Longrightarrow> bind m f w = f v w'"
  by (simp add: bind_def)

lemma try_catch_Inl: "m w = (Inl e, w') \<Longrightarrow> try_catch m h w = h e w'"
  by (simp add: try_catch_def)

lemma try_catch_Inr: "m w = (Inr v, w') \<Longrightarrow> try_catch m h w = (Inr v, w')"
  by (simp add: try_catch_def)

lemma axios_request_cases:
  obtains (resolved) d w' where "fst (srv E (server w) req) = Resolved d"
      "axios_request E req w = (Inr d, w')" "canCreateIssues w' = canCreateIssues w"
    | (rejected) e x w' where "fst (srv E (server w) req) = Rejected e x"
      "axios_request E req w = (Inl e, w')" "canCreateIssues w' = canCreateIssues w"
proof -
  obtain r w' where run: "axios_request E req w = (r, w')" by (cases "axios_request E req w")
  note h = axios_request_http[OF run] axios_request_result[OF run]
  show ?thesis
  proof (cases "fst (srv E (server w) req)")
    case (Resolved d)
    then show ?thesis using resolved run h by simp
  next
    case (Rejected e x)
    then show ?thesis using rejected run h by simp
  qed
qed

lemma tryCreate_body_cases:
  fixes E k t d w
  defines "body \<equiv>
      bind (logger Info (''Attempting to create test case: '' @ k)) (\<lambda>_.
            bind (axios_request E (POST_issue (testCaseData E k t d))) (\<lambda>data.
            bind (lift (js_get data ''key'')) (\<lambda>createdTestKey.
            bind (logger Info (''Successfully created new test case: '' @ js_String createdTestKey)) (\<lambda>_.
            ret createdTestKey))))"
  shows "(creation_request_fails E (server w) k t d \<longrightarrow> (\<exists>e w'. body w = (Inl e, w')))
       \<and> (\<not> creation_request_fails E (server w) k t d \<longrightarrow>
            (\<exists>v w'. body w = (Inr v, w') \<and> canCreateIssues w' = canCreateIssues w))"
proof -
  let ?w1 = "w\<lparr>logs := logs w @ [(Info, ''Attempting to create test case: '' @ k)]\<rparr>"
  have srv1: "server ?w1 = server w" by simp
  show ?thesis
  proof (cases rule: axios_request_cases[of E ?w1 "POST_issue (testCaseData E k t d)"])
    case (resolved data w')
    show ?thesis
    proof (cases "js_get data ''key''")
      case (Inl e)
      then show ?thesis using resolved
        by (simp add: body_def prog_simps bind_Inr creation_request_fails_def)
    next
      case (Inr v)
      then show ?thesis using resolved
        by (simp add: body_def prog_simps bind_Inr creation_request_fails_def)
    qed
  next
    case (rejected e x w')
    then show ?thesis
      by (simp add: body_def prog_simps bind_Inl creation_request_fails_def)
  qed
qed

lemma tryCreate_failure_latches:
  assumes "canCreateIssues w" and "creation_request_fails E (server w) k t d"
  shows "\<not> canCreateIssues (snd (XrayClientHybrid_tryCreateTestCase E k t d w))
         \<and> fst (XrayClientHybrid_tryCreateTestCase E k t d w) = Inr JNull"
proof -
  obtain e w' where "bind (logger Info (''Attempting to create test case: '' @ k)) (\<lambda>_.
            bind (axios_request E (POST_issue (testCaseData E k t d))) (\<lambda>data.
            bind (lift (js_get data ''key'')) (\<lambda>createdTestKey.
            bind (logger Info (''Successfully created new test case: '' @ js_String createdTestKey)) (\<lambda>_.
            ret createdTestKey)))) w = (Inl e, w')"
    using tryCreate_body_cases[of E w k t d] assms(2) by blast
  then have "XrayClientHybrid_tryCreateTestCase E k t d w = XrayClientHybrid_tryCreateTestCase_catch k e w'"
    using assms(1)
    by (simp add: XrayClientHybrid_tryCreateTestCase_def get_canCreateIssues_def bind_def try_catch_Inl)
  then show ?thesis using tryCreate_catch_latches[of k e w'] by simp
qed

lemma tryCreate_success_keeps:
  assumes "canCreateIssues w" and "\<not> creation_request_fails E (server w) k t d"
  shows "canCreateIssues (snd (XrayClientHybrid_tryCreateTestCase E k t d w))"
proof -
  obtain v w' where "bind (logger Info (''Attempting to create test case: '' @ k)) (\<lambda>_.
            bind (axios_request E (POST_issue (testCaseData E k t d))) (\<lambda>data.
            bind (lift (js_get data ''key'')) (\<lambda>createdTestKey.
            bind (logger Info (''Successfully created new test case: '' @ js_String createdTestKey)) (\<lambda>_.
            ret createdTestKey)))) w = (Inr v, w')" and "canCreateIssues w' = canCreateIssues w"
    using tryCreate_body_cases[of E w k t d] assms(2) by blast
  then show ?thesis
    using assms(1)
    by (simp add: XrayClientHybrid_tryCreateTestCase_def get_canCreateIssues_def bind_def try_catch_Inr)
qed

text \<open>
  Claim C9. \<^verbatim>\<open>canCreateIssues\<close> of XrayClientHybrid is a one-way latch. It is true after
  construction. When the creation request of a call of \<^verbatim>\<open>tryCreateTestCase\<close> fails, the flag
  is false afterwards, it is still false after any further sequence \<open>cs\<close> of calls of the
  client's public methods, and every later call of \<^verbatim>\<open>tryCreateTestCase\<close> returns null
  without sending a request (the request trace and the server state are unchanged). A
  creation request that succeeds leaves the flag true.
\<close>

theorem canCreateIssues_one_way_latch:
  "canCreateIssues (XrayClientHybrid_new s)
   \<and> (canCreateIssues w \<and> creation_request_fails E (server w) k t d \<longrightarrow>
        (let w1 = snd (XrayClientHybrid_tryCreateTestCase E k t d w);
             w2 = run_hybrid_calls E cs w1;
             (r, w3) = XrayClientHybrid_tryCreateTestCase E k' t' d' w2
         in \<not> canCreateIssues w1 \<and> \<not> canCreateIssues w2 \<and> \<not> canCreateIssues w3
            \<and> r = Inr JNull \<and> http w3 = http w2 \<and> server w3 = server w2))
   \<and> (canCreateIssues w \<and> \<not> creation_request_fails E (server w) k t d \<longrightarrow>
        canCreateIssues (snd (XrayClientHybrid_tryCreateTestCase E k t d w)))"
proof -
  have init: "canCreateIssues (XrayClientHybrid_new s)" by (simp add: XrayClientHybrid_new_def)
  have latch: "\<not> canCreateIssues w1 \<and> \<not> canCreateIssues w2 \<and> \<not> canCreateIssues w3
            \<and> r = Inr JNull \<and> http w3 = http w2 \<and> server w3 = server w2"
    if pre: "canCreateIssues w" "creation_request_fails E (server w) k t d"
      and w1: "w1 = snd (XrayClientHybrid_tryCreateTestCase E k t d w)"
      and w2: "w2 = run_hybrid_calls E cs w1"
      and w3: "(r, w3) = XrayClientHybrid_tryCreateTestCase E k' t' d' w2"
    for w1 w2 w3 r
  proof -
    have c1: "\<not> canCreateIssues w1" using tryCreate_failure_latches[OF pre] w1 by simp
    have c2: "\<not> canCreateIssues w2" using latch_hybrid_calls[OF c1] w2 by simp
    show ?thesis using c1 c2 w3 tryCreate_disabled[OF c2, of E k' t' d'] by simp
  qed
  have part2: "canCreateIssues w \<and> creation_request_fails E (server w) k t d \<longrightarrow>
        (let w1 = snd (XrayClientHybrid_tryCreateTestCase E k t d w);
             w2 = run_hybrid_calls E cs w1;
             (r, w3) = XrayClientHybrid_tryCreateTestCase E k' t' d' w2
         in \<not> canCreateIssues w1 \<and> \<not> canCreateIssues w2 \<and> \<not> canCreateIssues w3
            \<and> r = Inr JNull \<and> http w3 = http w2 \<and> server w3 = server w2)"
  proof (intro impI, elim conjE)
    assume pre: "canCreateIssues w" "creation_request_fails E (server w) k t d"
    obtain r w3 where w3: "(r, w3) = XrayClientHybrid_tryCreateTestCase E k' t' d'
        (run_hybrid_calls E cs (snd (XrayClientHybrid_tryCreateTestCase E k t d w)))"
      by (metis prod.collapse)
    from latch[OF pre refl refl w3] show "(let w1 = snd (XrayClientHybrid_tryCreateTestCase E k t d w);
             w2 = run_hybrid_calls E cs w1;
             (r, w3) = XrayClientHybrid_tryCreateTestCase E k' t' d' w2
         in \<not> canCreateIssues w1 \<and> \<not> canCreateIssues w2 \<and> \<not> canCreateIssues w3
            \<and> r = Inr JNull \<and> http w3 = http w2 \<and> server w3 = server w2)"
      unfolding Let_def w3[symmetric] by simp
  qed
  have part3: "canCreateIssues w \<and> \<not> creation_request_fails E (server w) k t d \<longrightarrow>
        canCreateIssues (snd (XrayClientHybrid_tryCreateTestCase E k t d w))"
    using tryCreate_success_keeps by blast
  show ?thesis
    using init part2 part3 by (intro conjI)
qed

theorem canCreateIssues_one_way_latch_witness:
  "canCreateIssues world0 \<and> creation_request_fails rejecting_env (server world0) ''PROJ-1'' ''Login'' None
   \<and> (let w1 = snd (XrayClientHybrid_tryCreateTestCase rejecting_env ''PROJ-1'' ''Login'' None world0);
           w2 = run_hybrid_calls rejecting_env [FindTestCase ''PROJ-1''] w1;
           (r, w3) = XrayClientHybrid_tryCreateTestCase rejecting_env ''PROJ-2'' ''Logout'' None w2
       in \<not> canCreateIssues w1 \<and> \<not> canCreateIssues w2 \<and> \<not> canCreateIssues w3
          \<and> r = Inr JNull \<and> http w3 = http w2 \<and> server w3 = server w2)"
proof -
  have h: "canCreateIssues world0 \<and> creation_request_fails rejecting_env (server world0) ''PROJ-1'' ''Login'' None"
    by (simp add: world0_def creation_request_fails_def rejecting_env_def rejecting_srv_def)
  show ?thesis
    using h canCreateIssues_one_way_latch[of "()" world0 rejecting_env "''PROJ-1''" "''Login''" None
        "[FindTestCase ''PROJ-1'']" "''PROJ-2''" "''Logout''" None]
    by blast
qed








lemma two_phase_first:
  assumes "preserves (ext_by P) m" and "\<And>v. preserves (two_phase P Q) (f v)"
  shows "preserves (two_phase P Q) (bind m f)"
proof (rule preservesI)
  fix w r w'
  assume run: "bind m f w = (r, w')"
  obtain r1 w1 where mw: "m w = (r1, w1)" by (cases "m w")
  from preservesD[OF assms(1) mw] obtain A1 where a1: "http w1 = http w @ A1" "list_all P A1"
    unfolding ext_by_def by blast
  show "two_phase P Q w w'"
  proof (cases r1)
    case (Inl e)
    then have "w' = w1" using run mw by (simp add: bind_def)
    then have "http w' = http w @ A1 @ [] \<and> list_all P A1 \<and> list_all Q []" using a1 by simp
    then show ?thesis unfolding two_phase_def by blast
  next
    case (Inr v)
    then have "f v w1 = (r, w')" using run mw by (simp add: bind_def)
    from preservesD[OF assms(2) this] obtain A B where
      "http w' = http w1 @ A @ B" "list_all P A" "list_all Q B"
      unfolding two_phase_def by blast
    then have "http w' = http w @ (A1 @ A) @ B \<and> list_all P (A1 @ A) \<and> list_all Q B"
      using a1 by simp
    then show ?thesis unfolding two_phase_def by blast
  qed
qed

lemma two_phase_second:
  assumes "preserves (ext_by Q) m"
  shows "preserves (two_phase P Q) m"
proof (rule preservesI)
  fix w r w'
  assume "m w = (r, w')"
  from preservesD[OF assms this] obtain B where "http w' = http w @ B" "list_all Q B"
    unfolding ext_by_def by blast
  then have "http w' = http w @ [] @ B \<and> list_all P [] \<and> list_all Q B" by simp
  then show "two_phase P Q w w'" unfolding two_phase_def by blast
qed

lemma two_phase_try_catch:
  assumes "preserves (two_phase P Q) m" and "\<And>e. preserves (ext_by Q) (h e)"
  shows "preserves (two_phase P Q) (try_catch m h)"
proof (rule preservesI)
  fix w r w'
  assume run: "try_catch m h w = (r, w')"
  obtain r1 w1 where mw: "m w = (r1, w1)" by (cases "m w")
  from preservesD[OF assms(1) mw] obtain A B where
    ab: "http w1 = http w @ A @ B" "list_all P A" "list_all Q B"
    unfolding two_phase_def by blast
  show "two_phase P Q w w'"
  proof (cases r1)
    case (Inr v)
    then have "w' = w1" using run mw by (simp add: try_catch_def)
    then show ?thesis unfolding two_phase_def using ab by blast
  next
    case (Inl e)
    then have "h e w1 = (r, w')" using run mw by (simp add: try_catch_def)
    from preservesD[OF assms(2) this] obtain B2 where "http w' = http w1 @ B2" "list_all Q B2"
      unfolding ext_by_def by blast
    then have "http w' = http w @ A @ (B @ B2) \<and> list_all P A \<and> list_all Q (B @ B2)"
      using ab by simp
    then show ?thesis unfolding two_phase_def by blast
  qed
qed















lemma js_get_truthy: "truthy v \<Longrightarrow> \<exists>x. js_get v k = Inr x"
  by (cases v) simp_all

lemma axios_request_run:
  obtains r w' where "axios_request E req w = (r, w')"
    "r = (case fst (srv E (server w) req) of Resolved d \<Rightarrow> Inr d | Rejected e x \<Rightarrow> Inl e)"
    "http w' = http w @ [req]" "server w' = snd (srv E (server w) req)"
    "canCreateIssues w' = canCreateIssues w" "files w' = files w"
proof -
  obtain r w' where run: "axios_request E req w = (r, w')" by (cases "axios_request E req w")
  show ?thesis using that[OF run] axios_request_http[OF run] axios_request_result[OF run] by simp
qed

lemma findTestCase_body_run:
  fixes found_log :: "json \<Rightarrow> string" and missing :: "(unit, 's) prog"
    and E :: "'s env" and k start :: string and h :: "js_error \<Rightarrow> (json, 's) prog"
  assumes catch: "\<And>e w. \<exists>L. h e w = (Inr JNull, w\<lparr>logs := logs w @ L\<rparr>)"
    and missing: "\<And>w. \<exists>L. missing w = (Inr (), w\<lparr>logs := logs w @ L\<rparr>)"
  defines "prog \<equiv> try_catch
       (bind (logger Info start) (\<lambda>_.
        bind (axios_request E (GET_issue k)) (\<lambda>data.
          if truthy data then
            bind (lift (issuetype_name data)) (\<lambda>name.
            bind (logger Info (found_log name)) (\<lambda>_.
            ret data))
          else bind missing (\<lambda>_. ret JNull))))
       h"
  shows "\<exists>v w'. prog w = (Inr v, w')
           \<and> (truthy v \<longleftrightarrow> response_found (fst (srv E (server w) (GET_issue k))))
           \<and> http w' = http w @ [GET_issue k]
           \<and> server w' = snd (srv E (server w) (GET_issue k))
           \<and> canCreateIssues w' = canCreateIssues w \<and> files w' = files w"
proof -
  let ?w0 = "w\<lparr>logs := logs w @ [(Info, start)]\<rparr>"
  obtain r w1 where ax: "axios_request E (GET_issue k) ?w0 = (r, w1)"
    and r: "r = (case fst (srv E (server ?w0) (GET_issue k)) of Resolved d \<Rightarrow> Inr d | Rejected e x \<Rightarrow> Inl e)"
    and w1: "http w1 = http ?w0 @ [GET_issue k]" "server w1 = snd (srv E (server ?w0) (GET_issue k))"
      "canCreateIssues w1 = canCreateIssues ?w0" "files w1 = files ?w0"
    by (rule axios_request_run)
  show ?thesis
  proof (cases "fst (srv E (server w) (GET_issue k))")
    case (Rejected e x)
    then have "r = Inl e" using r by simp
    then have "prog w = h e w1"
      unfolding prog_def using ax by (simp add: try_catch_def bind_logger bind_Inl)
    moreover obtain L where "h e w1 = (Inr JNull, w1\<lparr>logs := logs w1 @ L\<rparr>)" using catch by blast
    ultimately show ?thesis using w1 Rejected by (simp add: response_found_def)
  next
    case (Resolved d)
    then have rd: "r = Inr d" using r by simp
    show ?thesis
    proof (cases "truthy d")
      case False
      obtain L where "missing w1 = (Inr (), w1\<lparr>logs := logs w1 @ L\<rparr>)" using missing by blast
      then have "prog w = (Inr JNull, w1\<lparr>logs := logs w1 @ L\<rparr>)"
        unfolding prog_def using ax rd False
        by (simp add: try_catch_def bind_logger bind_Inr bind_ret ret_apply)
      then show ?thesis using w1 Resolved False by (simp add: response_found_def)
    next
      case True
      show ?thesis
      proof (cases "issuetype_name d")
        case (Inl e)
        then have "prog w = h e w1"
          unfolding prog_def using ax rd True
          by (simp add: try_catch_def bind_logger bind_Inr bind_lift_Inl)
        moreover obtain L where "h e w1 = (Inr JNull, w1\<lparr>logs := logs w1 @ L\<rparr>)" using catch by blast
        ultimately show ?thesis using w1 Resolved True Inl by (simp add: response_found_def)
      next
        case (Inr name)
        then have "prog w = (Inr d, w1\<lparr>logs := logs w1 @ [(Info, found_log name)]\<rparr>)"
          unfolding prog_def using ax rd True
          by (simp add: try_catch_def bind_logger bind_Inr bind_lift_Inr ret_apply)
        then show ?thesis using w1 Resolved True Inr by (simp add: response_found_def)
      qed
    qed
  qed
qed

lemma log_ex: "\<exists>L. w\<lparr>logs := logs w @ X\<rparr> = w\<lparr>logs := logs w @ L\<rparr>"
  by (rule exI[of _ X]) simp

lemma ReadOnly_findTestCase_run:
  "\<exists>v w'. XrayClientReadOnly_findTestCase E k w = (Inr v, w')
           \<and> (truthy v \<longleftrightarrow> response_found (fst (srv E (server w) (GET_issue k))))
           \<and> http w' = http w @ [GET_issue k]
           \<and> server w' = snd (srv E (server w) (GET_issue k))
           \<and> canCreateIssues w' = canCreateIssues w \<and> files w' = files w"
  unfolding XrayClientReadOnly_findTestCase_def
  by (rule findTestCase_body_run)
     (simp_all add: XrayClientReadOnly_findTestCase_catch_def bind_logger ret_apply logger_apply log_ex)

lemma Hybrid_findTestCase_run:
  "\<exists>v w'. XrayClientHybrid_findTestCase E k w = (Inr v, w')
           \<and> (truthy v \<longleftrightarrow> response_found (fst (srv E (server w) (GET_issue k))))
           \<and> http w' = http w @ [GET_issue k]
           \<and> server w' = snd (srv E (server w) (GET_issue k))
           \<and> canCreateIssues w' = canCreateIssues w \<and> files w' = files w"
  unfolding XrayClientHybrid_findTestCase_def
  by (rule findTestCase_body_run)
     (simp_all add: XrayClientHybrid_findTestCase_catch_def bind_logger ret_apply logger_apply log_ex)

lemma Full_findTestCase_run:
  "\<exists>v w'. XrayClientFull_findTestCase E k w = (Inr v, w')
           \<and> (truthy v \<longleftrightarrow> response_found (fst (srv E (server w) (GET_issue k))))
           \<and> http w' = http w @ [GET_issue k]
           \<and> server w' = snd (srv E (server w) (GET_issue k))
           \<and> canCreateIssues w' = canCreateIssues w \<and> files w' = files w"
  unfolding XrayClientFull_findTestCase_def
  by (rule findTestCase_body_run)
     (simp_all add: XrayClientFull_findTestCase_catch_def bind_logger ret_apply logger_apply log_ex)

lemma found_tests_Nil: "found_tests E s [] = []"
  by (simp add: found_tests_def)

lemma found_tests_Cons:
  "found_tests E s (t # ts) =
     (if response_found (fst (srv E s (GET_issue (testKey_of t)))) then [t] else [])
     @ found_tests E (snd (srv E s (GET_issue (testKey_of t)))) ts"
  by (simp add: found_tests_def split: prod.splits)

lemma ReadOnly_find_loop_run:
  "\<exists>ex w'. XrayClientReadOnly_find_loop E tests acc w = (Inr ex, w')
      \<and> map fst ex = map fst acc @ found_tests E (server w) tests
      \<and> http w' = http w @ lookup_requests tests"
proof (induction tests arbitrary: acc w)
  case Nil
  then show ?case by (simp add: ret_apply found_tests_Nil lookup_requests_def)
next
  case (Cons test rest)
  obtain v w1 where f: "XrayClientReadOnly_findTestCase E (testKey_of test) w = (Inr v, w1)"
    and v: "truthy v \<longleftrightarrow> response_found (fst (srv E (server w) (GET_issue (testKey_of test))))"
    and w1: "http w1 = http w @ [GET_issue (testKey_of test)]"
      "server w1 = snd (srv E (server w) (GET_issue (testKey_of test)))"
    using ReadOnly_findTestCase_run[of E "testKey_of test" w] by blast
  show ?case
  proof (cases "truthy v")
    case True
    obtain x where x: "js_get v ''id'' = Inr x" using js_get_truthy[OF True] by blast
    let ?w2 = "w1\<lparr>logs := logs w1 @ [(Info, ''Test case '' @ testKey_of test @ '' exists and is ready for execution'')]\<rparr>"
    have step: "XrayClientReadOnly_find_loop E (test # rest) acc w =
                XrayClientReadOnly_find_loop E rest (acc @ [(test, x)]) ?w2"
      using f True x by (simp add: bind_Inr bind_lift_Inr bind_logger)
    obtain ex w' where "XrayClientReadOnly_find_loop E rest (acc @ [(test, x)]) ?w2 = (Inr ex, w')"
      "map fst ex = map fst (acc @ [(test, x)]) @ found_tests E (server ?w2) rest"
      "http w' = http ?w2 @ lookup_requests rest"
      using Cons.IH[of "acc @ [(test, x)]" ?w2] by blast
    then show ?thesis
      using step w1 v True by (simp add: found_tests_Cons lookup_requests_def)
  next
    case False
    let ?w2 = "w1\<lparr>logs := logs w1 @ [(Warn, ''Test case '' @ testKey_of test @ '' not found - skipping'')]\<rparr>"
    have step: "XrayClientReadOnly_find_loop E (test # rest) acc w =
                XrayClientReadOnly_find_loop E rest acc ?w2"
      using f False by (simp add: bind_Inr bind_logger)
    obtain ex w' where "XrayClientReadOnly_find_loop E rest acc ?w2 = (Inr ex, w')"
      "map fst ex = map fst acc @ found_tests E (server ?w2) rest"
      "http w' = http ?w2 @ lookup_requests rest"
      using Cons.IH[of acc ?w2] by blast
    then show ?thesis
      using step w1 v False by (simp add: found_tests_Cons lookup_requests_def)
  qed
qed

lemma Hybrid_find_loop_run:
  "\<exists>ex w'. XrayClientHybrid_find_loop E tests acc w = (Inr ex, w')
      \<and> map fst ex = map fst acc @ found_tests E (server w) tests
      \<and> http w' = http w @ lookup_requests tests"
proof (induction tests arbitrary: acc w)
  case Nil
  then show ?case by (simp add: ret_apply found_tests_Nil lookup_requests_def)
next
  case (Cons test rest)
  obtain v w1 where f: "XrayClientHybrid_findTestCase E (testKey_of test) w = (Inr v, w1)"
    and v: "truthy v \<longleftrightarrow> response_found (fst (srv E (server w) (GET_issue (testKey_of test))))"
    and w1: "http w1 = http w @ [GET_issue (testKey_of test)]"
      "server w1 = snd (srv E (server w) (GET_issue (testKey_of test)))"
    using Hybrid_findTestCase_run[of E "testKey_of test" w] by blast
  show ?case
  proof (cases "truthy v")
    case True
    obtain x where x: "js_get v ''key'' = Inr x" using js_get_truthy[OF True] by blast
    have step: "XrayClientHybrid_find_loop E (test # rest) acc w =
                XrayClientHybrid_find_loop E rest (acc @ [(test, x)]) w1"
      using f True x by (simp add: bind_Inr bind_lift_Inr)
    obtain ex w' where "XrayClientHybrid_find_loop E rest (acc @ [(test, x)]) w1 = (Inr ex, w')"
      "map fst ex = map fst (acc @ [(test, x)]) @ found_tests E (server w1) rest"
      "http w' = http w1 @ lookup_requests rest"
      using Cons.IH[of "acc @ [(test, x)]" w1] by blast
    then show ?thesis
      using step w1 v True by (simp add: found_tests_Cons lookup_requests_def)
  next
    case False
    let ?w2 = "w1\<lparr>logs := logs w1 @ [(Warn, ''Test case '' @ testKey_of test @ '' not found - skipping from execution'')]\<rparr>"
    have step: "XrayClientHybrid_find_loop E (test # rest) acc w =
                XrayClientHybrid_find_loop E rest acc ?w2"
      using f False by (simp add: bind_Inr bind_logger)
    obtain ex w' where "XrayClientHybrid_find_loop E rest acc ?w2 = (Inr ex, w')"
      "map fst ex = map fst acc @ found_tests E (server ?w2) rest"
      "http w' = http ?w2 @ lookup_requests rest"
      using Cons.IH[of acc ?w2] by blast
    then show ?thesis
      using step w1 v False by (simp add: found_tests_Cons lookup_requests_def)
  qed
qed

lemma post_execution_tail:
  fixes E :: "'s env"
  assumes "\<And>e w. \<exists>r. h e w = (r, w\<lparr>logs := logs w @ [(Err, ''Failed to create test execution: '' @ error_toString e)]\<rparr>)"
  shows "\<exists>r w'. try_catch
            (bind (axios_request E (POST_testexecution body)) (\<lambda>data.
             bind (lift (execution_key data)) (\<lambda>testExecutionKey.
             bind (logger Info (''Created test execution: '' @ js_String testExecutionKey)) (\<lambda>_.
             ret testExecutionKey)))) h w = (r, w')
          \<and> http w' = http w @ [POST_testexecution body]"
proof -
  obtain r w1 where ax: "axios_request E (POST_testexecution body) w = (r, w1)"
    and w1: "http w1 = http w @ [POST_testexecution body]"
    by (rule axios_request_run)
  show ?thesis
  proof (cases r)
    case (Inl e)
    obtain r' where "h e w1 = (r', w1\<lparr>logs := logs w1 @ [(Err, ''Failed to create test execution: '' @ error_toString e)]\<rparr>)"
      using assms by blast
    then show ?thesis using ax Inl w1 by (simp add: try_catch_def bind_Inl)
  next
    case (Inr d)
    show ?thesis
    proof (cases "execution_key d")
      case (Inl e)
      obtain r' where "h e w1 = (r', w1\<lparr>logs := logs w1 @ [(Err, ''Failed to create test execution: '' @ error_toString e)]\<rparr>)"
        using assms by blast
      then show ?thesis using ax Inr Inl w1
        by (simp add: try_catch_def bind_Inr bind_lift_Inl)
    next
      case k: (Inr key)
      show ?thesis using ax Inr k w1
        by (simp add: try_catch_def bind_Inr bind_lift_Inr bind_logger ret_apply)
    qed
  qed
qed

lemma try_catch_bind_Inr: "m w = (Inr v, w1) \<Longrightarrow> try_catch (bind m f) h w = try_catch (f v) h w1"
  by (simp add: try_catch_def bind_def)

lemma ReadOnly_createTestExecution_run:
  fixes E :: "'s env"
  defines "err \<equiv> JsError ''Error'' ''No existing test cases found to execute''"
  shows "\<exists>r w'. XrayClientReadOnly_createTestExecution E info tests w = (r, w')
     \<and> (found_tests E (server w) tests = [] \<longrightarrow>
           r = Inl err \<and> http w' = http w @ lookup_requests tests)
     \<and> (found_tests E (server w) tests \<noteq> [] \<longrightarrow>
           http w' = http w @ lookup_requests tests
             @ [POST_testexecution (executionData E
                  ''Automated test execution from Playwright (Read-only mode)'' info
                  (found_tests E (server w) tests))])"
proof -
  obtain ex w1 where loop: "XrayClientReadOnly_find_loop E tests [] w = (Inr ex, w1)"
    and ex: "map fst ex = found_tests E (server w) tests"
    and w1: "http w1 = http w @ lookup_requests tests"
    using ReadOnly_find_loop_run[of E tests "[]" w] by auto
  show ?thesis
  proof (cases "found_tests E (server w) tests = []")
    case True
    then have "ex = []" using ex by simp
    then show ?thesis
      unfolding XrayClientReadOnly_createTestExecution_def
        try_catch_bind_Inr[where m="XrayClientReadOnly_find_loop E tests []" and w=w, OF loop]
      using True w1
      by (simp add: try_catch_def throw_apply XrayClientReadOnly_createTestExecution_catch_def
          bind_logger err_def)
  next
    case False
    then have ne: "length ex \<noteq> 0" using ex by auto
    have h: "\<And>e w. \<exists>r. XrayClientReadOnly_createTestExecution_catch e w =
        (r, w\<lparr>logs := logs w @ [(Err, ''Failed to create test execution: '' @ error_toString e)]\<rparr>)"
      by (simp add: XrayClientReadOnly_createTestExecution_catch_def bind_logger throw_apply)
    show ?thesis
      unfolding XrayClientReadOnly_createTestExecution_def
        try_catch_bind_Inr[where m="XrayClientReadOnly_find_loop E tests []" and w=w, OF loop]
      using post_execution_tail[of XrayClientReadOnly_createTestExecution_catch E _ w1, OF h] ne False w1 ex
      by (simp only: if_False append_assoc) blast
  qed
qed

lemma Hybrid_createTestExecution_run:
  fixes E :: "'s env"
  shows "\<exists>r w'. XrayClientHybrid_createTestExecution E info tests w = (r, w')
     \<and> (found_tests E (server w) tests = [] \<longrightarrow>
           r = Inr JNull \<and> http w' = http w @ lookup_requests tests
           \<and> (Warn, ''No existing test cases found for execution'') \<in> set (logs w'))
     \<and> (found_tests E (server w) tests \<noteq> [] \<longrightarrow>
           http w' = http w @ lookup_requests tests
             @ [POST_testexecution (executionData E
                  ''Automated test execution from Playwright'' info
                  (found_tests E (server w) tests))])"
proof -
  obtain ex w1 where loop: "XrayClientHybrid_find_loop E tests [] w = (Inr ex, w1)"
    and ex: "map fst ex = found_tests E (server w) tests"
    and w1: "http w1 = http w @ lookup_requests tests"
    using Hybrid_find_loop_run[of E tests "[]" w] by auto
  show ?thesis
  proof (cases "found_tests E (server w) tests = []")
    case True
    then have "ex = []" using ex by simp
    then show ?thesis
      unfolding XrayClientHybrid_createTestExecution_def
        try_catch_bind_Inr[where m="XrayClientHybrid_find_loop E tests []" and w=w, OF loop]
      using True w1
      by (simp add: try_catch_def bind_logger ret_apply)
  next
    case False
    then have ne: "length ex \<noteq> 0" using ex by auto
    have h: "\<And>e w. \<exists>r. XrayClientHybrid_createTestExecution_catch e w =
        (r, w\<lparr>logs := logs w @ [(Err, ''Failed to create test execution: '' @ error_toString e)]\<rparr>)"
      by (simp add: XrayClientHybrid_createTestExecution_catch_def bind_logger ret_apply)
    show ?thesis
      unfolding XrayClientHybrid_createTestExecution_def
        try_catch_bind_Inr[where m="XrayClientHybrid_find_loop E tests []" and w=w, OF loop]
      using post_execution_tail[of XrayClientHybrid_createTestExecution_catch E _ w1, OF h] ne False w1 ex
      by (simp only: if_False append_assoc) blast
  qed
qed

text \<open>
  Claim C4. The read-only and the hybrid client degrade differently on the same input.
  When no lookup of an execution report's test keys finds an issue,
  \<^verbatim>\<open>XrayClientReadOnly.createTestExecution\<close> throws the error 'No existing test cases found
  to execute', while \<^verbatim>\<open>XrayClientHybrid.createTestExecution\<close> logs the warning 'No existing
  test cases found for execution' and returns null; neither sends a request other than the
  lookups. Otherwise each variant sends, after the lookups, one request creating the test
  execution, and the tests of its payload are exactly the tests whose lookup found an issue,
  in order: every test whose key is not found is left out.
\<close>

theorem readonly_throws_hybrid_returns_null:
  "(found_tests E (server w) tests = [] \<longrightarrow>
      fst (XrayClientReadOnly_createTestExecution E info tests w)
        = Inl (JsError ''Error'' ''No existing test cases found to execute'')
      \<and> http (snd (XrayClientReadOnly_createTestExecution E info tests w))
        = http w @ lookup_requests tests
      \<and> fst (XrayClientHybrid_createTestExecution E info tests w) = Inr JNull
      \<and> (Warn, ''No existing test cases found for execution'')
           \<in> set (logs (snd (XrayClientHybrid_createTestExecution E info tests w)))
      \<and> http (snd (XrayClientHybrid_createTestExecution E info tests w))
        = http w @ lookup_requests tests)
   \<and> (found_tests E (server w) tests \<noteq> [] \<longrightarrow>
      http (snd (XrayClientReadOnly_createTestExecution E info tests w))
        = http w @ lookup_requests tests
          @ [POST_testexecution (executionData E
               ''Automated test execution from Playwright (Read-only mode)'' info
               (found_tests E (server w) tests))]
      \<and> http (snd (XrayClientHybrid_createTestExecution E info tests w))
        = http w @ lookup_requests tests
          @ [POST_testexecution (executionData E
               ''Automated test execution from Playwright'' info
               (found_tests E (server w) tests))])
   \<and> js_get (executionData E d info (found_tests E (server w) tests)) ''tests''
        = Inr (JArr (map test_payload (found_tests E (server w) tests)))"
proof -
  obtain r1 w1 where ro: "XrayClientReadOnly_createTestExecution E info tests w = (r1, w1)"
    and ro1: "found_tests E (server w) tests = [] \<longrightarrow>
           r1 = Inl (JsError ''Error'' ''No existing test cases found to execute'')
           \<and> http w1 = http w @ lookup_requests tests"
    and ro2: "found_tests E (server w) tests \<noteq> [] \<longrightarrow>
           http w1 = http w @ lookup_requests tests
             @ [POST_testexecution (executionData E
                  ''Automated test execution from Playwright (Read-only mode)'' info
                  (found_tests E (server w) tests))]"
    using ReadOnly_createTestExecution_run[of E info tests w] by blast
  obtain r2 w2 where hy: "XrayClientHybrid_createTestExecution E info tests w = (r2, w2)"
    and hy1: "found_tests E (server w) tests = [] \<longrightarrow>
           r2 = Inr JNull \<and> http w2 = http w @ lookup_requests tests
           \<and> (Warn, ''No existing test cases found for execution'') \<in> set (logs w2)"
    and hy2: "found_tests E (server w) tests \<noteq> [] \<longrightarrow>
           http w2 = http w @ lookup_requests tests
             @ [POST_testexecution (executionData E
                  ''Automated test execution from Playwright'' info
                  (found_tests E (server w) tests))]"
    using Hybrid_createTestExecution_run[of E info tests w] by blast
  have payload: "js_get (executionData E d info (found_tests E (server w) tests)) ''tests''
        = Inr (JArr (map test_payload (found_tests E (server w) tests)))"
    by (simp add: executionData_def)
  show ?thesis
    unfolding ro hy fst_conv snd_conv
    using ro1 ro2 hy1 hy2 payload by blast
qed

lemma found_tests_rejecting: "found_tests rejecting_env () [example_result] = []"
  by (simp add: found_tests_def rejecting_env_def rejecting_srv_def response_found_def)

lemma found_tests_accepting: "found_tests accepting_env () [example_result] = [example_result]"
  by (simp add: found_tests_def accepting_env_def accepting_srv_def response_found_def
      example_issue_def issuetype_name_def)

theorem readonly_throws_hybrid_returns_null_witness:
  "found_tests rejecting_env (server world0) [example_result] = []
   \<and> fst (XrayClientReadOnly_createTestExecution rejecting_env example_info [example_result] world0)
        = Inl (JsError ''Error'' ''No existing test cases found to execute'')
   \<and> fst (XrayClientHybrid_createTestExecution rejecting_env example_info [example_result] world0) = Inr JNull
   \<and> found_tests accepting_env (server world0) [example_result] \<noteq> []
   \<and> http (snd (XrayClientHybrid_createTestExecution accepting_env example_info [example_result] world0))
        = [GET_issue ''PROJ-1'',
           POST_testexecution (executionData accepting_env
             ''Automated test execution from Playwright'' example_info [example_result])]"
proof -
  have s: "server world0 = ()" "http world0 = []" by (simp_all add: world0_def)
  have k: "testKey_of example_result = ''PROJ-1''" by (simp add: example_result_def)
  show ?thesis
    using readonly_throws_hybrid_returns_null[of rejecting_env world0 "[example_result]" example_info]
      readonly_throws_hybrid_returns_null[of accepting_env world0 "[example_result]" example_info]
    unfolding s found_tests_rejecting found_tests_accepting lookup_requests_def
    by (simp add: k)
qed

lemma always_throws_throw: "always_throws (throw e)"
  by (simp add: always_throws_def throw_def)

lemma always_throws_bind:
  assumes "\<And>v. always_throws (f v)"
  shows "always_throws (bind m f)"
  unfolding always_throws_def
proof
  fix w
  obtain r w1 where mw: "m w = (r, w1)" by (cases "m w")
  show "isl (fst (bind m f w))"
  proof (cases r)
    case (Inl e)
    then show ?thesis using mw by (simp add: bind_def)
  next
    case (Inr v)
    then show ?thesis using mw assms[of v] by (simp add: bind_def always_throws_def)
  qed
qed

lemma always_throws_bind_first:
  assumes "always_throws m"
  shows "always_throws (bind m f)"
  unfolding always_throws_def
proof
  fix w
  obtain r w1 where mw: "m w = (r, w1)" by (cases "m w")
  have "isl r" using assms mw unfolding always_throws_def by (metis fst_conv)
  then obtain e where "r = Inl e" by (cases r) auto
  then show "isl (fst (bind m f w))" using mw by (simp add: bind_def)
qed

lemma always_throws_try_catch:
  assumes "always_throws m" and "\<And>e. always_throws (h e)"
  shows "always_throws (try_catch m h)"
  unfolding always_throws_def
proof
  fix w
  obtain r w1 where mw: "m w = (r, w1)" by (cases "m w")
  have "isl r" using assms(1) mw unfolding always_throws_def by (metis fst_conv)
  then obtain e where "r = Inl e" by (cases r) auto
  then show "isl (fst (try_catch m h w))"
    using mw assms(2)[of e] by (simp add: try_catch_def always_throws_def)
qed

lemma sends_Full_findTestCase: "preserves (ext_by is_GET_issue) (XrayClientFull_findTestCase E k)"
  unfolding XrayClientFull_findTestCase_def XrayClientFull_findTestCase_catch_def
  by (intro ext_by_intros preserves_axios_ext_by) (simp_all add: is_GET_issue_def)

lemma sends_Full_createTestCase: "preserves (ext_by is_POST_issue) (XrayClientFull_createTestCase E k t d)"
  unfolding XrayClientFull_createTestCase_def XrayClientFull_createTestCase_catch_def
  by (intro ext_by_intros preserves_axios_ext_by) (simp_all add: is_POST_issue_def)

lemma sends_Full_ensureTestCaseExists:
  "preserves (ext_by (\<lambda>q. is_GET_issue q \<or> is_POST_issue q)) (XrayClientFull_ensureTestCaseExists E k t d)"
  unfolding XrayClientFull_ensureTestCaseExists_def
  by (intro ext_by_intros sends_mono[OF sends_Full_findTestCase] sends_mono[OF sends_Full_createTestCase])
     simp_all

lemma sends_Full_ensure_loop:
  "preserves (ext_by (\<lambda>q. is_GET_issue q \<or> is_POST_issue q)) (XrayClientFull_ensure_loop E tests acc)"
  by (induction tests arbitrary: acc)
     (auto simp: Let_def intro!: ext_by_intros sends_Full_ensureTestCaseExists)

lemma Full_createTestExecution_two_phase:
  "preserves (two_phase (\<lambda>q. is_GET_issue q \<or> is_POST_issue q) is_POST_testexecution)
     (XrayClientFull_createTestExecution E info tests)"
  unfolding XrayClientFull_createTestExecution_def XrayClientFull_createTestExecution_catch_def
  apply (rule two_phase_try_catch)
   apply (rule two_phase_first, rule sends_Full_ensure_loop)
   apply (rule two_phase_second)
   apply (intro ext_by_intros preserves_axios_ext_by)
   apply (simp add: is_POST_testexecution_def)
  apply (intro ext_by_intros)
  done

lemma Full_ensure_loop_length:
  "XrayClientFull_ensure_loop E tests acc w = (Inr ex, w') \<Longrightarrow> map fst ex = map fst acc @ tests"
proof (induction tests arbitrary: acc w)
  case Nil
  then show ?case by (simp add: ret_def)
next
  case (Cons t ts)
  let ?m = "XrayClientFull_ensureTestCaseExists E (testKey_of t)
      (or_str (map_option (takeWhile (\<lambda>c. c \<noteq> CHR 0x0A)) (comment_of t)) (''Test '' @ testKey_of t))
      (Some (or_str (comment_of t) (''Automated test case for '' @ testKey_of t)))"
  obtain r w1 where m: "?m w = (r, w1)" by (cases "?m w")
  show ?case
  proof (cases r)
    case (Inl e)
    then show ?thesis using Cons.prems m by (simp add: Let_def bind_def)
  next
    case (Inr k)
    then have "XrayClientFull_ensure_loop E ts (acc @ [(t, k)]) w1 = (Inr ex, w')"
      using Cons.prems m by (simp add: Let_def bind_def)
    from Cons.IH[OF this] show ?thesis by simp
  qed
qed

lemma Full_ensureTestCaseExists_trace:
  assumes "XrayClientFull_ensureTestCaseExists E k t d w = (r, w')"
  shows "\<exists>P. http w' = http w @ GET_issue k # P \<and> list_all is_POST_issue P"
proof -
  from Full_findTestCase_run[of E k w] obtain v w1 where
    f: "XrayClientFull_findTestCase E k w = (Inr v, w1)" and h1: "http w1 = http w @ [GET_issue k]"
    by blast
  let ?rest = "\<lambda>testCase.
       if \<not> truthy testCase then
         bind (logger Info (''Creating test case '' @ k @ '' in Xray Test Repository'')) (\<lambda>_.
         bind (XrayClientFull_createTestCase E k t d) (\<lambda>createdKey.
         lift (js_get (JObj [(''key'', createdKey)]) ''key'')))
       else lift (js_get testCase ''key'')"
  have run: "?rest v w1 = (r, w')"
    using assms f unfolding XrayClientFull_ensureTestCaseExists_def by (simp add: bind_def)
  have "preserves (ext_by is_POST_issue) (?rest v)"
    by (intro preserves_if ext_by_intros sends_Full_createTestCase)
  from preservesD[OF this run] obtain P where "http w' = http w1 @ P" "list_all is_POST_issue P"
    unfolding ext_by_def by blast
  then show ?thesis using h1 by simp
qed

lemma not_GET_POST_issue: "is_POST_issue q \<Longrightarrow> \<not> is_GET_issue q"
  by (cases q) (simp_all add: is_req_defs)

lemma filter_GET_POST_issues: "list_all is_POST_issue P \<Longrightarrow> filter is_GET_issue P = []"
  by (induction P) (simp_all add: not_GET_POST_issue)

lemma Full_ensure_loop_trace:
  assumes "XrayClientFull_ensure_loop E tests acc w = (Inr ex, w')"
  shows "\<exists>N. http w' = http w @ N \<and> filter is_GET_issue N = lookup_requests tests"
  using assms
proof (induction tests arbitrary: acc w)
  case Nil
  then show ?case by (simp add: ret_def lookup_requests_def)
next
  case (Cons t ts)
  let ?m = "XrayClientFull_ensureTestCaseExists E (testKey_of t)
      (or_str (map_option (takeWhile (\<lambda>c. c \<noteq> CHR 0x0A)) (comment_of t)) (''Test '' @ testKey_of t))
      (Some (or_str (comment_of t) (''Automated test case for '' @ testKey_of t)))"
  obtain r w1 where m: "?m w = (r, w1)" by (cases "?m w")
  from Full_ensureTestCaseExists_trace[OF m] obtain P where
    p: "http w1 = http w @ GET_issue (testKey_of t) # P" "list_all is_POST_issue P" by blast
  show ?case
  proof (cases r)
    case (Inl e)
    then show ?thesis using Cons.prems m by (simp add: Let_def bind_def)
  next
    case (Inr k)
    then have "XrayClientFull_ensure_loop E ts (acc @ [(t, k)]) w1 = (Inr ex, w')"
      using Cons.prems m by (simp add: Let_def bind_def)
    from Cons.IH[OF this] obtain N where
      n: "http w' = http w1 @ N" "filter is_GET_issue N = lookup_requests ts" by blast
    have "http w' = http w @ (GET_issue (testKey_of t) # P @ N)" using n(1) p(1) by simp
    moreover have "filter is_GET_issue (GET_issue (testKey_of t) # P @ N) = lookup_requests (t # ts)"
      using n(2) filter_GET_POST_issues[OF p(2)] by (simp add: lookup_requests_def is_GET_issue_def)
    ultimately show ?thesis by blast
  qed
qed

lemma Full_createTestExecution_catch_run:
  "\<exists>r. XrayClientFull_createTestExecution_catch e w
         = (r, w\<lparr>logs := logs w @ [(Err, ''Failed to create test execution: '' @ error_toString e)]\<rparr>)"
  by (simp add: XrayClientFull_createTestExecution_catch_def bind_def logger_def throw_def)

text \<open>
  \<^verbatim>\<open>XrayClientFull.createTestExecution\<close>: every request that looks a test case up or creates
  one comes before the request that creates the test execution, of which there is at most
  one; and when it is sent, the loop has ensured every listed test case, of which there is at
  least one, with one lookup for each in the order of the list.
\<close>

lemma XrayClientFull_ensures_before_execution:
  assumes "XrayClientFull_createTestExecution E info tests w = (r, w')"
  shows "\<exists>A B. http w' = http w @ A @ B
           \<and> list_all (\<lambda>q. is_GET_issue q \<or> is_POST_issue q) A
           \<and> list_all is_POST_testexecution B \<and> length B \<le> 1
           \<and> (B \<noteq> [] \<longrightarrow> tests \<noteq> [] \<and> filter is_GET_issue A = lookup_requests tests
                \<and> (\<exists>ex w1. XrayClientFull_ensure_loop E tests [] w = (Inr ex, w1) \<and> map fst ex = tests))"
proof -
  obtain r1 w1 where loop: "XrayClientFull_ensure_loop E tests [] w = (r1, w1)"
    by (cases "XrayClientFull_ensure_loop E tests [] w")
  from preservesD[OF sends_Full_ensure_loop loop] obtain A where
    a: "http w1 = http w @ A" "list_all (\<lambda>q. is_GET_issue q \<or> is_POST_issue q) A"
    unfolding ext_by_def by blast
  have sent: "\<exists>ex body. r1 = Inr ex \<and> ex \<noteq> [] \<and> http w' = http w1 @ [POST_testexecution body]"
    if "http w' \<noteq> http w1"
  proof (cases r1)
    case (Inl e)
    then have "http w' = http w1" using assms loop
      by (auto simp: XrayClientFull_createTestExecution_def XrayClientFull_createTestExecution_catch_def
          try_catch_def bind_def throw_def logger_def)
    then show ?thesis using that by simp
  next
    case (Inr ex)
    show ?thesis
    proof (cases "ex = []")
      case True
      then have "http w' = http w1" using assms loop Inr
        by (auto simp: XrayClientFull_createTestExecution_def XrayClientFull_createTestExecution_catch_def
            try_catch_def bind_def throw_def logger_def)
      then show ?thesis using that by simp
    next
      case False
      let ?body = "executionData E ''Automated test execution from Playwright'' info (map fst ex)"
      from post_execution_tail[of XrayClientFull_createTestExecution_catch E ?body w1,
          OF Full_createTestExecution_catch_run]
      obtain r2 w2 where t: "try_catch
            (bind (axios_request E (POST_testexecution ?body)) (\<lambda>data.
             bind (lift (execution_key data)) (\<lambda>testExecutionKey.
             bind (logger Info (''Created test execution: '' @ js_String testExecutionKey)) (\<lambda>_.
             ret testExecutionKey)))) XrayClientFull_createTestExecution_catch w1 = (r2, w2)"
        and h2: "http w2 = http w1 @ [POST_testexecution ?body]" by blast
      have lp: "XrayClientFull_ensure_loop E tests [] w = (Inr ex, w1)" using loop Inr by simp
      have ne: "length ex \<noteq> 0" using False by simp
      have "XrayClientFull_createTestExecution E info tests w = (r2, w2)"
        unfolding XrayClientFull_createTestExecution_def
          try_catch_bind_Inr[where m="XrayClientFull_ensure_loop E tests []" and w=w, OF lp]
        using t ne by (simp only: if_False)
      then have "w' = w2" using assms by simp
      then show ?thesis using Inr False h2 by blast
    qed
  qed
  show ?thesis
  proof (cases "http w' = http w1")
    case True
    then have "http w' = http w @ A @ []" using a(1) by simp
    then show ?thesis using a(2) by (intro exI[of _ A] exI[of _ "[]"]) simp
  next
    case False
    from sent[OF this] obtain ex body where
      s: "r1 = Inr ex" "ex \<noteq> []" "http w' = http w1 @ [POST_testexecution body]" by blast
    have len: "map fst ex = tests"
      using Full_ensure_loop_length[of E tests "[]" w ex w1] loop s(1) by simp
    then have ne: "tests \<noteq> []" using s(2) by auto
    from Full_ensure_loop_trace[of E tests "[]" w ex w1] loop s(1) obtain N where
      n: "http w1 = http w @ N" "filter is_GET_issue N = lookup_requests tests" by blast
    have "N = A" using n(1) a(1) by simp
    then have g: "filter is_GET_issue A = lookup_requests tests" using n(2) by simp
    have "http w' = http w @ A @ [POST_testexecution body]" using s(3) a(1) by simp
    then show ?thesis using a(2) ne g len loop s(1)
      by (intro exI[of _ A] exI[of _ "[POST_testexecution body]"]) (simp add: is_POST_testexecution_def)
  qed
qed

text \<open>
  When the loop over the listed test cases does not deliver a single test case (it throws,
  because a test case was neither found nor created, or the list is empty),
  \<^verbatim>\<open>createTestExecution\<close> throws and sends no request that creates a test execution.
\<close>

lemma XrayClientFull_nothing_ensured_throws:
  assumes "XrayClientFull_createTestExecution E info tests w = (r, w')"
    and "\<And>ex w1. XrayClientFull_ensure_loop E tests [] w = (Inr ex, w1) \<Longrightarrow> ex = []"
  shows "isl r \<and> (\<exists>A. http w' = http w @ A \<and> list_all (\<lambda>q. is_GET_issue q \<or> is_POST_issue q) A)"
proof -
  obtain r1 w1 where loop: "XrayClientFull_ensure_loop E tests [] w = (r1, w1)"
    by (cases "XrayClientFull_ensure_loop E tests [] w")
  from preservesD[OF sends_Full_ensure_loop loop] obtain A where
    a: "http w1 = http w @ A" "list_all (\<lambda>q. is_GET_issue q \<or> is_POST_issue q) A"
    unfolding ext_by_def by blast
  have "isl r \<and> http w' = http w1"
  proof (cases r1)
    case (Inl e)
    then show ?thesis using assms(1) loop
      by (auto simp: XrayClientFull_createTestExecution_def XrayClientFull_createTestExecution_catch_def
          try_catch_def bind_def throw_def logger_def)
  next
    case (Inr ex)
    then have "ex = []" using assms(2) loop by simp
    then show ?thesis using assms(1) loop Inr
      by (auto simp: XrayClientFull_createTestExecution_def XrayClientFull_createTestExecution_catch_def
          try_catch_def bind_def throw_def logger_def)
  qed
  then show ?thesis using a by auto
qed

lemma XrayClientFull_no_tests_throws:
  "fst (XrayClientFull_createTestExecution E info [] w)
     = Inl (JsError ''Error'' ''No test cases could be created or found in Xray Test Repository'')
   \<and> http (snd (XrayClientFull_createTestExecution E info [] w)) = http w"
  by (simp add: XrayClientFull_createTestExecution_def XrayClientFull_createTestExecution_catch_def
      try_catch_def bind_def ret_def throw_def logger_def)

lemma sends_ReadOnly_findTestCase: "preserves (ext_by is_GET_issue) (XrayClientReadOnly_findTestCase E k)"
  unfolding XrayClientReadOnly_findTestCase_def XrayClientReadOnly_findTestCase_catch_def
  by (intro ext_by_intros preserves_axios_ext_by) (simp_all add: is_GET_issue_def)

lemma sends_ReadOnly_log_loop: "preserves (ext_by is_GET_issue) (XrayClientReadOnly_log_loop E rs)"
  by (induction rs) (auto intro!: ext_by_intros sends_ReadOnly_findTestCase)

lemma sends_ReadOnly_logTestResults:
  "preserves (ext_by is_GET_issue) (XrayClientReadOnly_logTestResults E rs)"
  unfolding XrayClientReadOnly_logTestResults_def
  by (intro ext_by_intros sends_ReadOnly_log_loop)

lemma sends_ReadOnly_find_loop:
  "preserves (ext_by is_GET_issue) (XrayClientReadOnly_find_loop E rs acc)"
  by (induction rs arbitrary: acc) (auto intro!: ext_by_intros sends_ReadOnly_findTestCase)

lemma sends_ReadOnly_createTestExecution:
  "preserves (ext_by (\<lambda>q. is_GET_issue q \<or> is_POST_testexecution q))
     (XrayClientReadOnly_createTestExecution E i rs)"
  unfolding XrayClientReadOnly_createTestExecution_def XrayClientReadOnly_createTestExecution_catch_def
  by (intro ext_by_intros preserves_axios_ext_by sends_mono[OF sends_ReadOnly_find_loop])
     (simp_all add: is_req_defs)

text \<open>
  The steps of \<^verbatim>\<open>XrayReporter.reportToXray\<close> (xray-reporter.js) send lookups and at most the
  request that creates the test execution, never a request that updates a status, and they
  never return normally, because the call of \<^verbatim>\<open>updateTestExecutionStatus\<close> on the read-only
  client raises.
\<close>

lemma XrayReporter_steps_sends:
  "preserves (ext_by (\<lambda>q. is_GET_issue q \<or> is_POST_testexecution q))
     (XrayReporter_reportToXray_steps E R results)"
  unfolding XrayReporter_reportToXray_steps_def
    XrayClientReadOnly_updateTestExecutionStatus_def Let_def
  by (intro ext_by_intros sends_mono[OF sends_ReadOnly_logTestResults]
        sends_ReadOnly_createTestExecution)
     simp_all

lemma XrayReporter_steps_always_throw:
  "always_throws (XrayReporter_reportToXray_steps E R results)"
  unfolding XrayReporter_reportToXray_steps_def
    XrayClientReadOnly_updateTestExecutionStatus_def Let_def
  apply (rule always_throws_bind)
  apply (rule always_throws_bind)
  apply (rule always_throws_bind)
  apply (rule always_throws_bind)
  apply (rule always_throws_bind_first)
  apply (rule always_throws_throw)
  done

lemma show_int_5: "show_int 5 = ''5''"
  by (simp add: show_int_def show_nat.simps[of 5] digit_char_def)

lemma XrayReporter_steps_example_run:
  "fst (XrayReporter_reportToXray_steps accepting_env example_reporter [example_result] world0)
     = Inl (JsError ''TypeError'' ''xrayClient.updateTestExecutionStatus is not a function'')
   \<and> http (snd (XrayReporter_reportToXray_steps accepting_env example_reporter [example_result] world0))
     = [GET_issue ''PROJ-1'', GET_issue ''PROJ-1'',
        POST_testexecution (executionData accepting_env
          ''Automated test execution from Playwright (Read-only mode)''
          \<lparr>summary = ''Automated Test Execution - 2024-01-01T00:00:00.000Z'',
           description = Some ''Playwright test execution completed in 5ms'',
           testEnvironments = Some [''CI/CD''], testPlanKey = None,
           info_version = Some ''1.0.0'', user = Some ''bot'', startDate = None\<rparr>
          [example_result])]"
  by (simp add: XrayReporter_reportToXray_steps_def
      XrayClientReadOnly_logTestResults_def XrayClientReadOnly_findTestCase_def
      XrayClientReadOnly_findTestCase_catch_def XrayClientReadOnly_createTestExecution_def
      XrayClientReadOnly_createTestExecution_catch_def XrayClientReadOnly_updateTestExecutionStatus_def
      prog_defs accepting_env_def accepting_srv_def world0_def example_issue_def issuetype_name_def
      example_reporter_def example_result_def example_config_def execution_key_def
      outputDir_set_def or_str_def show_int_5 Let_def)

lemma XrayClientReadOnly_getInstance_run:
  "XrayClientReadOnly_getInstance w
     = (Inl (JsError ''TypeError'' ''this.config.getJiraApiUrlV2 is not a function''), w)"
  by (simp add: XrayClientReadOnly_getInstance_def XrayConfigManager_getJiraApiUrlV2_def
      bind_def throw_def)

lemma XrayReporter_reportToXray_run:
  "XrayReporter_reportToXray E R w =
     (if Map_values (testResults R) = []
      then (Inr JUndefined, w\<lparr>logs := logs w @ [(Warn, ''No test results to report to Xray'')]\<rparr>)
      else (Inl (JsError ''TypeError'' ''this.config.getJiraApiUrlV2 is not a function''),
            w\<lparr>logs := logs w @ [(Err, ''Failed to report test results to Xray: ''
                     @ ''TypeError: this.config.getJiraApiUrlV2 is not a function'')]\<rparr>))"
  by (simp add: XrayReporter_reportToXray_def XrayReporter_reportToXray_catch_def
      XrayClientReadOnly_getInstance_run try_catch_def bind_def logger_def ret_def throw_def
      error_toString_def Let_def)

lemma XrayReporter_reportToXray_sends:
  "preserves (ext_by (\<lambda>q. is_GET_issue q \<or> is_POST_testexecution q)) (XrayReporter_reportToXray E R)"
proof (rule preservesI)
  fix w r w'
  assume "XrayReporter_reportToXray E R w = (r, w')"
  then have "http w' = http w @ []"
    unfolding XrayReporter_reportToXray_run by (auto split: if_splits)
  then show "ext_by (\<lambda>q. is_GET_issue q \<or> is_POST_testexecution q) w w'"
    unfolding ext_by_def by (intro exI[of _ "[]"]) simp
qed

text \<open>
  Claim C1 (the code misses it). \<^verbatim>\<open>XrayReporter.reportToXray\<close> never sends a request, so
  the status of the test execution is never updated. With no result collected it warns and
  returns. With a result to report it asks for the read-only client first, whose constructor
  calls \<^verbatim>\<open>getJiraApiUrlV2\<close> on a configuration manager that has no such method: the TypeError
  is caught, logged and rethrown, for every server, reporter and state.
\<close>

theorem XrayReporter_status_update_never_sent:
  "XrayReporter_reportToXray E R w =
     (if Map_values (testResults R) = []
      then (Inr JUndefined, w\<lparr>logs := logs w @ [(Warn, ''No test results to report to Xray'')]\<rparr>)
      else (Inl (JsError ''TypeError'' ''this.config.getJiraApiUrlV2 is not a function''),
            w\<lparr>logs := logs w @ [(Err, ''Failed to report test results to Xray: ''
                     @ ''TypeError: this.config.getJiraApiUrlV2 is not a function'')]\<rparr>))
   \<and> http (snd (XrayReporter_reportToXray E R w)) = http w
   \<and> server (snd (XrayReporter_reportToXray E R w)) = server w
   \<and> files (snd (XrayReporter_reportToXray E R w)) = files w"
  by (simp add: XrayReporter_reportToXray_run)

text \<open>
  At the example reporter, which holds one result of status 'PASSED', against the server that
  knows the issue and accepts every request: the method throws the TypeError and the request
  trace stays empty.
\<close>

theorem XrayReporter_status_update_never_sent_witness:
  "XrayReporter_reportToXray accepting_env example_reporter world0 =
     (Inl (JsError ''TypeError'' ''this.config.getJiraApiUrlV2 is not a function''),
      world0\<lparr>logs := [(Err, ''Failed to report test results to Xray: TypeError: this.config.getJiraApiUrlV2 is not a function'')]\<rparr>)
   \<and> http (snd (XrayReporter_reportToXray accepting_env example_reporter world0)) = []
   \<and> list_ex (\<lambda>r. status_of r = ''FAILED'') (Map_values (testResults example_reporter)) = False"
  using XrayReporter_status_update_never_sent[of accepting_env example_reporter world0]
  by (simp add: example_reporter_def example_result_def Map_values_def world0_def)

lemma XrayReporter_callback_frame:
  "\<exists>R' L. XrayReporter_callback c R w = (Inr R', w\<lparr>logs := logs w @ L\<rparr>) \<and> options R' = options R"
proof (cases c)
  case (OnBegin E)
  then show ?thesis
    by (simp add: XrayReporter_onBegin_def bind_logger ret_apply log_ex)
next
  case (OnTestBegin E test)
  have "w = w\<lparr>logs := logs w @ []\<rparr>" by simp
  then show ?thesis using OnTestBegin
    by (cases "XrayReporter_extractTestKey test")
       (auto simp: XrayReporter_onTestBegin_def ret_apply intro: exI[of _ "[]"])
next
  case (OnTestEnd E test result)
  show ?thesis
  proof (cases "XrayReporter_extractTestKey test")
    case None
    then show ?thesis using OnTestEnd
      by (auto simp: XrayReporter_onTestEnd_def ret_apply intro: exI[of _ "[]"])
  next
    case (Some key)
    then show ?thesis using OnTestEnd
      by (simp add: XrayReporter_onTestEnd_def Let_def bind_logger ret_apply log_ex)
  qed
qed

lemma XrayReporter_callbacks_frame:
  "XrayReporter_callbacks cs (R, w) = (R', w') \<Longrightarrow> only_logs w w' \<and> options R' = options R"
proof (induction cs arbitrary: R w)
  case Nil
  then show ?case by (simp add: only_logs_refl)
next
  case (Cons c cs)
  obtain R1 L where c: "XrayReporter_callback c R w = (Inr R1, w\<lparr>logs := logs w @ L\<rparr>)"
    and o: "options R1 = options R"
    using XrayReporter_callback_frame[of c R w] by blast
  then have "XrayReporter_callbacks cs (R1, w\<lparr>logs := logs w @ L\<rparr>) = (R', w')"
    using Cons.prems by simp
  from Cons.IH[OF this] have "only_logs (w\<lparr>logs := logs w @ L\<rparr>) w'" "options R' = options R1"
    by simp_all
  moreover have "only_logs w (w\<lparr>logs := logs w @ L\<rparr>)" unfolding only_logs_def by blast
  ultimately show ?case using o only_logs_trans by metis
qed

lemma XrayReporter_onEnd_incomplete:
  assumes "\<not> validateConfig (config E)"
  shows "\<exists>L. XrayReporter_onEnd E R w = (Inr JUndefined, w\<lparr>logs := logs w @ L\<rparr>)"
  using assms
  by (simp add: XrayReporter_onEnd_def try_catch_def bind_logger ret_apply log_ex)

lemma only_logs_fields:
  "only_logs w w' \<Longrightarrow> http w' = http w \<and> server w' = server w \<and> files w' = files w
     \<and> canCreateIssues w' = canCreateIssues w"
  unfolding only_logs_def by auto

text \<open>
  Claim C7. The callbacks \<^verbatim>\<open>onBegin\<close>, \<^verbatim>\<open>onTestBegin\<close> and \<^verbatim>\<open>onTestEnd\<close> of the basic reporter
  change the reporter's \<^verbatim>\<open>testResults\<close> and \<^verbatim>\<open>startTime\<close> only (its options stay as they
  are) and send no HTTP request: after any sequence of them the list of requests sent, the
  server, the files written and the clients' state are what they were, the only effect
  outside the reporter being lines written through the logger. So every request of a run is
  sent from within \<^verbatim>\<open>onEnd\<close>; and when \<^verbatim>\<open>validateConfig\<close> is false, \<^verbatim>\<open>onEnd\<close> sends none
  either: it logs and returns.
\<close>

theorem XrayReporter_forwards_only_at_run_end:
  assumes "XrayReporter_callbacks cs (R, w) = (R', w1)"
    and "XrayReporter_onEnd E R' w1 = (r, w2)"
  shows "options R' = options R
     \<and> http w1 = http w \<and> server w1 = server w \<and> files w1 = files w
     \<and> canCreateIssues w1 = canCreateIssues w
     \<and> (\<exists>L. w1 = w\<lparr>logs := logs w @ L\<rparr>)
     \<and> (\<exists>sent. http w2 = http w @ sent)
     \<and> (\<not> validateConfig (config E) \<longrightarrow>
           r = Inr JUndefined \<and> http w2 = http w \<and> server w2 = server w \<and> files w2 = files w)"
proof -
  have f: "only_logs w w1" "options R' = options R"
    using XrayReporter_callbacks_frame[OF assms(1)] by simp_all
  note f1 = only_logs_fields[OF f(1)]
  have sent: "\<exists>sent. http w2 = http w @ sent"
  proof -
    have "preserves (ext_by (\<lambda>q. True)) (XrayReporter_onEnd E R')"
      unfolding XrayReporter_onEnd_def XrayReporter_onEnd_catch_def
      by (intro ext_by_intros sends_mono[OF XrayReporter_reportToXray_sends]) simp
    from preservesD[OF this assms(2)] show ?thesis using f1 unfolding ext_by_def by auto
  qed
  have inc: "r = Inr JUndefined \<and> http w2 = http w \<and> server w2 = server w \<and> files w2 = files w"
    if nv: "\<not> validateConfig (config E)"
  proof -
    obtain L where "XrayReporter_onEnd E R' w1 = (Inr JUndefined, w1\<lparr>logs := logs w1 @ L\<rparr>)"
      using XrayReporter_onEnd_incomplete[OF nv] by blast
    then show ?thesis using assms(2) f1 by auto
  qed
  show ?thesis using f f1 sent inc unfolding only_logs_def by blast
qed

theorem XrayReporter_forwards_only_at_run_end_witness:
  "\<not> validateConfig (config incomplete_env)
   \<and> (let (R', w1) = XrayReporter_callbacks
           [OnBegin incomplete_env, OnTestBegin incomplete_env example_test,
            OnTestEnd incomplete_env example_test example_test_result] (example_reporter, world0);
          (r, w2) = XrayReporter_onEnd incomplete_env R' w1
      in http w1 = http world0 \<and> options R' = options example_reporter
         \<and> r = Inr JUndefined \<and> http w2 = http world0)"
proof -
  have h: "\<not> validateConfig (config incomplete_env)"
    by (simp add: incomplete_env_def accepting_env_def example_config_def validateConfig_def)
  obtain R' w1 where a: "XrayReporter_callbacks
           [OnBegin incomplete_env, OnTestBegin incomplete_env example_test,
            OnTestEnd incomplete_env example_test example_test_result] (example_reporter, world0) = (R', w1)"
    by (metis prod.collapse)
  obtain r w2 where b: "XrayReporter_onEnd incomplete_env R' w1 = (r, w2)"
    by (metis prod.collapse)
  show ?thesis
    using XrayReporter_forwards_only_at_run_end[OF a b] h
    unfolding a Let_def prod.case b by simp
qed

lemma title_match_iff:
  "match_group key_rx [Lit (CHR '':'')] s = Some k \<longleftrightarrow> (\<exists>rest. is_key k \<and> s = k @ CHR '':'' # rest)"
proof
  assume m: "match_group key_rx [Lit (CHR '':'')] s = Some k"
  then obtain k' r where kp: "key_prefix s = Some (k', r)"
    unfolding match_group_title by (cases "key_prefix s") auto
  then obtain c r' where r: "r = c # r'" "c = CHR '':''" "k' = k"
    using m unfolding match_group_title by (cases r) (auto split: if_splits)
  from key_prefix_Some[OF kp] have "is_key k'" "s = k' @ r" by simp_all
  then show "\<exists>rest. is_key k \<and> s = k @ CHR '':'' # rest" using r by blast
next
  assume "\<exists>rest. is_key k \<and> s = k @ CHR '':'' # rest"
  then obtain rest where h: "is_key k" "s = k @ CHR '':'' # rest" by blast
  have "key_prefix (k @ CHR '':'' # rest) = Some (k, CHR '':'' # rest)"
    using key_prefix_intro[OF h(1), of "CHR '':'' # rest"] colon_not_digit by simp
  then show "match_group key_rx [Lit (CHR '':'')] s = Some k"
    unfolding match_group_title h(2) by simp
qed

lemma title_match_None_iff:
  "match_group key_rx [Lit (CHR '':'')] s = None \<longleftrightarrow> \<not> (\<exists>k rest. is_key k \<and> s = k @ CHR '':'' # rest)"
proof
  assume n: "match_group key_rx [Lit (CHR '':'')] s = None"
  show "\<not> (\<exists>k rest. is_key k \<and> s = k @ CHR '':'' # rest)"
  proof
    assume "\<exists>k rest. is_key k \<and> s = k @ CHR '':'' # rest"
    then obtain k where "\<exists>rest. is_key k \<and> s = k @ CHR '':'' # rest" by blast
    then have "match_group key_rx [Lit (CHR '':'')] s = Some k" by (simp only: title_match_iff)
    then show False using n by simp
  qed
next
  assume n: "\<not> (\<exists>k rest. is_key k \<and> s = k @ CHR '':'' # rest)"
  show "match_group key_rx [Lit (CHR '':'')] s = None"
  proof (cases "match_group key_rx [Lit (CHR '':'')] s")
    case (Some a)
    then have "\<exists>rest. is_key a \<and> s = a @ CHR '':'' # rest" by (simp only: title_match_iff)
    then show ?thesis using n by blast
  qed simp
qed

lemma file_match_Some:
  "match_group key_rx [] s = Some k \<Longrightarrow>
     \<exists>rest. is_key k \<and> s = k @ rest \<and> (rest = [] \<or> \<not> is_digit (hd rest))"
  unfolding match_group_file using key_prefix_Some[of s k] by (cases "key_prefix s") auto

lemma file_match_None_iff:
  "match_group key_rx [] s = None \<longleftrightarrow> \<not> (\<exists>k rest. is_key k \<and> s = k @ rest)"
proof
  assume "match_group key_rx [] s = None"
  then have "key_prefix s = None" unfolding match_group_file by simp
  then show "\<not> (\<exists>k rest. is_key k \<and> s = k @ rest)" by (rule key_prefix_None)
next
  assume n: "\<not> (\<exists>k rest. is_key k \<and> s = k @ rest)"
  show "match_group key_rx [] s = None"
  proof (cases "match_group key_rx [] s")
    case (Some k)
    then show ?thesis using file_match_Some[OF Some] n by blast
  qed simp
qed

lemma extractTestKey_is_key:
  assumes "XrayReporter_extractTestKey test = Some k"
  shows "is_key k"
proof (cases "match_group key_rx [Lit (CHR '':'')] (title test)")
  case None
  then have "match_group key_rx [] (file_name test) = Some k"
    using assms by (simp add: XrayReporter_extractTestKey_def file_name_def)
  then show ?thesis using file_match_Some by blast
next
  case (Some k')
  then have "k' = k" using assms by (simp add: XrayReporter_extractTestKey_def)
  then show ?thesis using Some title_match_iff by blast
qed

lemma extractTestKey_variants: "XrayReporterHybrid_extractTestKey = XrayReporter_extractTestKey"
  by (rule ext) (simp add: XrayReporterHybrid_extractTestKey_def XrayReporter_extractTestKey_def)

lemma set_update_subset: "set (AList.update i x al) \<subseteq> insert (i, x) (set al)"
  by (induction al) auto

lemma all_keyed_update:
  assumes "all_keyed R" and "is_key (testKey_of x)"
  shows "all_keyed (R\<lparr>testResults := Map_set i x (testResults R)\<rparr>)"
  using assms set_update_subset[of i x "testResults R"]
  unfolding all_keyed_def Map_set_def by auto

lemma Hybrid_onTestBegin_cases:
  "(XrayReporter_extractTestKey test = None \<longrightarrow> XrayReporterHybrid_onTestBegin E test R w = (Inr R, w))
   \<and> (\<forall>key. XrayReporter_extractTestKey test = Some key \<longrightarrow>
        XrayReporterHybrid_onTestBegin E test R w =
          (Inr (R\<lparr>testResults := Map_set (test_id test) (executing_result key test) (testResults R)\<rparr>), w))"
  by (simp add: XrayReporterHybrid_onTestBegin_def extractTestKey_variants ret_apply)

lemma Hybrid_onTestEnd_cases:
  "(XrayReporter_extractTestKey test = None \<longrightarrow> XrayReporterHybrid_onTestEnd E test result R w = (Inr R, w))
   \<and> (\<forall>key. XrayReporter_extractTestKey test = Some key \<longrightarrow>
        (\<exists>x L. testKey_of x = key \<and> XrayReporterHybrid_onTestEnd E test result R w =
          (Inr (R\<lparr>testResults := Map_set (test_id test) x (testResults R)\<rparr>), w\<lparr>logs := logs w @ L\<rparr>)))"
proof (intro conjI allI impI)
  assume "XrayReporter_extractTestKey test = None"
  then show "XrayReporterHybrid_onTestEnd E test result R w = (Inr R, w)"
    by (simp add: XrayReporterHybrid_onTestEnd_def extractTestKey_variants ret_apply)
next
  fix key
  assume k: "XrayReporter_extractTestKey test = Some key"
  let ?x = "\<lparr>testKey_of = key, status_of = XrayReporterHybrid_mapTestStatus (result_status result),
                  comment_of = Some (XrayReporterHybrid_generateTestComment test result),
                  executionTime_of = Some (duration result),
                  evidence_of = Some (XrayReporterHybrid_generateEvidence test result)\<rparr>"
  have "testKey_of ?x = key" by simp
  moreover have "XrayReporterHybrid_onTestEnd E test result R w =
          (Inr (R\<lparr>testResults := Map_set (test_id test) ?x (testResults R)\<rparr>),
           w\<lparr>logs := logs w @ [(Info, ''Test '' @ key @ '' completed with status: ''
                  @ XrayReporterHybrid_mapTestStatus (result_status result))]\<rparr>)"
    using k by (simp add: XrayReporterHybrid_onTestEnd_def extractTestKey_variants Let_def
        bind_logger ret_apply)
  ultimately show "\<exists>x L. testKey_of x = key \<and> XrayReporterHybrid_onTestEnd E test result R w =
          (Inr (R\<lparr>testResults := Map_set (test_id test) x (testResults R)\<rparr>), w\<lparr>logs := logs w @ L\<rparr>)"
    by blast
qed

text \<open>
  Claim C5. \<^verbatim>\<open>extractTestKey\<close> of the basic reporter (the hybrid reporter's is the same
  function) returns the key when the test title begins with a key (one or more uppercase
  letters, a dash, one or more digits) immediately followed by a colon; otherwise, when the
  base name of the test's file begins with a key, it returns the key the base name begins
  with (the one taking all the digits that follow the dash); otherwise it returns null. In
  the hybrid reporter, \<^verbatim>\<open>onTestBegin\<close> and \<^verbatim>\<open>onTestEnd\<close> leave the reporter and the world
  untouched for a test without a key, and for a test with a key they store under the test's
  id a result that carries this key; so a reporter all of whose recorded results carry a key
  stays so.
\<close>

theorem extractTestKey_correlates_by_key:
  "(is_key k \<and> title test = k @ CHR '':'' # rest \<longrightarrow> XrayReporter_extractTestKey test = Some k)
   \<and> (\<not> title_has_key test \<and> file_has_key test \<longrightarrow>
        (\<exists>k' rest'. XrayReporter_extractTestKey test = Some k' \<and> is_key k'
            \<and> file_name test = k' @ rest' \<and> (rest' = [] \<or> \<not> is_digit (hd rest'))))
   \<and> (\<not> title_has_key test \<and> \<not> file_has_key test \<longrightarrow> XrayReporter_extractTestKey test = None)
   \<and> XrayReporterHybrid_extractTestKey test = XrayReporter_extractTestKey test
   \<and> (XrayReporter_extractTestKey test = None \<longrightarrow>
        XrayReporterHybrid_onTestBegin E test R w = (Inr R, w)
        \<and> XrayReporterHybrid_onTestEnd E test result R w = (Inr R, w))
   \<and> (\<forall>key. XrayReporter_extractTestKey test = Some key \<longrightarrow>
        (\<exists>x y L. testKey_of x = key \<and> testKey_of y = key
           \<and> XrayReporterHybrid_onTestBegin E test R w =
                (Inr (R\<lparr>testResults := Map_set (test_id test) x (testResults R)\<rparr>), w)
           \<and> XrayReporterHybrid_onTestEnd E test result R w =
                (Inr (R\<lparr>testResults := Map_set (test_id test) y (testResults R)\<rparr>),
                 w\<lparr>logs := logs w @ L\<rparr>)))
   \<and> (all_keyed R \<longrightarrow>
        (\<forall>R' w'. XrayReporterHybrid_onTestBegin E test R w = (Inr R', w')
                  \<or> XrayReporterHybrid_onTestEnd E test result R w = (Inr R', w')
           \<longrightarrow> all_keyed R'))"
proof -
  have p1: "is_key k \<and> title test = k @ CHR '':'' # rest \<longrightarrow> XrayReporter_extractTestKey test = Some k"
  proof
    assume "is_key k \<and> title test = k @ CHR '':'' # rest"
    then have "match_group key_rx [Lit (CHR '':'')] (title test) = Some k"
      using title_match_iff by blast
    then show "XrayReporter_extractTestKey test = Some k"
      by (simp add: XrayReporter_extractTestKey_def)
  qed
  have nt: "XrayReporter_extractTestKey test = match_group key_rx [] (file_name test)"
    if "\<not> title_has_key test"
  proof -
    have "match_group key_rx [Lit (CHR '':'')] (title test) = None"
      using that title_match_None_iff unfolding title_has_key_def by blast
    then show ?thesis by (simp add: XrayReporter_extractTestKey_def file_name_def)
  qed
  have p2: "\<not> title_has_key test \<and> file_has_key test \<longrightarrow>
        (\<exists>k' rest'. XrayReporter_extractTestKey test = Some k' \<and> is_key k'
            \<and> file_name test = k' @ rest' \<and> (rest' = [] \<or> \<not> is_digit (hd rest')))"
  proof
    assume a: "\<not> title_has_key test \<and> file_has_key test"
    then have "match_group key_rx [] (file_name test) \<noteq> None"
      using file_match_None_iff unfolding file_has_key_def by blast
    then obtain k' where k': "match_group key_rx [] (file_name test) = Some k'" by blast
    from file_match_Some[OF k'] nt a k'
    show "\<exists>k' rest'. XrayReporter_extractTestKey test = Some k' \<and> is_key k'
            \<and> file_name test = k' @ rest' \<and> (rest' = [] \<or> \<not> is_digit (hd rest'))"
      by auto
  qed
  have p3: "\<not> title_has_key test \<and> \<not> file_has_key test \<longrightarrow> XrayReporter_extractTestKey test = None"
    using nt file_match_None_iff unfolding file_has_key_def by auto
  have p4: "XrayReporterHybrid_extractTestKey test = XrayReporter_extractTestKey test"
    by (simp add: extractTestKey_variants)
  have p5: "XrayReporter_extractTestKey test = None \<longrightarrow>
        XrayReporterHybrid_onTestBegin E test R w = (Inr R, w)
        \<and> XrayReporterHybrid_onTestEnd E test result R w = (Inr R, w)"
    using Hybrid_onTestBegin_cases[of test E R w] Hybrid_onTestEnd_cases[of test E result R w] by blast
  have p6: "\<forall>key. XrayReporter_extractTestKey test = Some key \<longrightarrow>
        (\<exists>x y L. testKey_of x = key \<and> testKey_of y = key
           \<and> XrayReporterHybrid_onTestBegin E test R w =
                (Inr (R\<lparr>testResults := Map_set (test_id test) x (testResults R)\<rparr>), w)
           \<and> XrayReporterHybrid_onTestEnd E test result R w =
                (Inr (R\<lparr>testResults := Map_set (test_id test) y (testResults R)\<rparr>),
                 w\<lparr>logs := logs w @ L\<rparr>))"
  proof (intro allI impI)
    fix key
    assume k: "XrayReporter_extractTestKey test = Some key"
    have b: "XrayReporterHybrid_onTestBegin E test R w =
          (Inr (R\<lparr>testResults := Map_set (test_id test) (executing_result key test) (testResults R)\<rparr>), w)"
      using Hybrid_onTestBegin_cases[of test E R w] k by blast
    have bk: "testKey_of (executing_result key test) = key" by (simp add: executing_result_def)
    obtain y L where "testKey_of y = key" "XrayReporterHybrid_onTestEnd E test result R w =
          (Inr (R\<lparr>testResults := Map_set (test_id test) y (testResults R)\<rparr>), w\<lparr>logs := logs w @ L\<rparr>)"
      using Hybrid_onTestEnd_cases[of test E result R w] k by blast
    then show "\<exists>x y L. testKey_of x = key \<and> testKey_of y = key
           \<and> XrayReporterHybrid_onTestBegin E test R w =
                (Inr (R\<lparr>testResults := Map_set (test_id test) x (testResults R)\<rparr>), w)
           \<and> XrayReporterHybrid_onTestEnd E test result R w =
                (Inr (R\<lparr>testResults := Map_set (test_id test) y (testResults R)\<rparr>),
                 w\<lparr>logs := logs w @ L\<rparr>)"
      using b bk by blast
  qed
  have p7: "all_keyed R \<longrightarrow>
        (\<forall>R' w'. XrayReporterHybrid_onTestBegin E test R w = (Inr R', w')
                  \<or> XrayReporterHybrid_onTestEnd E test result R w = (Inr R', w')
           \<longrightarrow> all_keyed R')"
  proof (intro impI allI)
    fix R' w'
    assume ak: "all_keyed R"
      and run: "XrayReporterHybrid_onTestBegin E test R w = (Inr R', w')
                  \<or> XrayReporterHybrid_onTestEnd E test result R w = (Inr R', w')"
    show "all_keyed R'"
    proof (cases "XrayReporter_extractTestKey test")
      case None
      then have "R' = R" using p5 run by auto
      then show ?thesis using ak by simp
    next
      case (Some key)
      then obtain x y L where xy: "testKey_of x = key" "testKey_of y = key"
        "XrayReporterHybrid_onTestBegin E test R w =
                (Inr (R\<lparr>testResults := Map_set (test_id test) x (testResults R)\<rparr>), w)"
        "XrayReporterHybrid_onTestEnd E test result R w =
                (Inr (R\<lparr>testResults := Map_set (test_id test) y (testResults R)\<rparr>),
                 w\<lparr>logs := logs w @ L\<rparr>)"
        using p6 by blast
      have key: "is_key key" using extractTestKey_is_key[OF Some] .
      from run xy have "R' = R\<lparr>testResults := Map_set (test_id test) x (testResults R)\<rparr>
          \<or> R' = R\<lparr>testResults := Map_set (test_id test) y (testResults R)\<rparr>" by auto
      then show ?thesis using all_keyed_update[OF ak] key xy(1,2) by auto
    qed
  qed
  show ?thesis using p1 p2 p3 p4 p5 p6 p7 by (intro conjI)
qed

lemmas extract_eval_defs = XrayReporter_extractTestKey_def match_group_def key_rx_def basename_def
  is_upper_def is_digit_def

lemma example_keys:
  "XrayReporter_extractTestKey example_test = Some ''PROJ-1''"
  "XrayReporter_extractTestKey file_keyed_test = Some ''XSP-58''"
  "XrayReporter_extractTestKey unkeyed_test = None"
  "match_group key_rx [Lit (CHR '':'')] (title file_keyed_test) = None"
  "match_group key_rx [Lit (CHR '':'')] (title unkeyed_test) = None"
  "match_group key_rx [] (file_name unkeyed_test) = None"
  "file_name file_keyed_test = ''XSP-58-search.spec.ts''"
  by (simp_all add: extract_eval_defs example_test_def file_keyed_test_def unkeyed_test_def
      file_name_def)

theorem extractTestKey_correlates_by_key_witness:
  "(is_key ''PROJ-1'' \<and> title example_test = ''PROJ-1'' @ CHR '':'' # '' user can log in'')
   \<and> XrayReporter_extractTestKey example_test = Some ''PROJ-1''
   \<and> (\<not> title_has_key file_keyed_test \<and> file_has_key file_keyed_test)
   \<and> (\<exists>k' rest'. XrayReporter_extractTestKey file_keyed_test = Some k' \<and> is_key k'
          \<and> file_name file_keyed_test = k' @ rest' \<and> (rest' = [] \<or> \<not> is_digit (hd rest')))
   \<and> (\<not> title_has_key unkeyed_test \<and> \<not> file_has_key unkeyed_test)
   \<and> XrayReporter_extractTestKey unkeyed_test = None
   \<and> XrayReporterHybrid_onTestBegin accepting_env unkeyed_test example_reporter world0
        = (Inr example_reporter, world0)
   \<and> XrayReporterHybrid_onTestEnd accepting_env unkeyed_test example_test_result example_reporter world0
        = (Inr example_reporter, world0)
   \<and> all_keyed example_reporter
   \<and> (\<exists>R' w'. XrayReporterHybrid_onTestBegin accepting_env example_test example_reporter world0
                  = (Inr R', w') \<and> all_keyed R')"
proof -
  have k1: "is_key ''PROJ-1''" by (simp add: is_key_def is_upper_def is_digit_def)
  have t1: "title example_test = ''PROJ-1'' @ CHR '':'' # '' user can log in''"
    by (simp add: example_test_def)
  have k2: "is_key ''XSP-58''" by (simp add: is_key_def is_upper_def is_digit_def)
  have h2: "\<not> title_has_key file_keyed_test \<and> file_has_key file_keyed_test"
  proof
    show "\<not> title_has_key file_keyed_test"
      unfolding title_has_key_def using example_keys(4) title_match_None_iff by blast
    have "file_name file_keyed_test = ''XSP-58'' @ ''-search.spec.ts''"
      using example_keys(7) by simp
    then show "file_has_key file_keyed_test" unfolding file_has_key_def using k2 by blast
  qed
  have h3: "\<not> title_has_key unkeyed_test \<and> \<not> file_has_key unkeyed_test"
    unfolding title_has_key_def file_has_key_def
    using example_keys(5,6) title_match_None_iff file_match_None_iff by blast
  have ak: "all_keyed example_reporter"
    by (simp add: all_keyed_def example_reporter_def example_result_def is_key_def is_upper_def
        is_digit_def)
  note A = extractTestKey_correlates_by_key[of "''PROJ-1''" example_test "'' user can log in''"
      accepting_env example_reporter world0 example_test_result]
  note B = extractTestKey_correlates_by_key[of "''XSP-58''" file_keyed_test "[]"
      accepting_env example_reporter world0 example_test_result]
  note C = extractTestKey_correlates_by_key[of "[]" unkeyed_test "[]"
      accepting_env example_reporter world0 example_test_result]
  have r1: "XrayReporter_extractTestKey example_test = Some ''PROJ-1''"
    by (rule mp[OF A[THEN conjunct1] conjI[OF k1 t1]])
  have r2: "\<exists>k' rest'. XrayReporter_extractTestKey file_keyed_test = Some k' \<and> is_key k'
          \<and> file_name file_keyed_test = k' @ rest' \<and> (rest' = [] \<or> \<not> is_digit (hd rest'))"
    by (rule mp[OF B[THEN conjunct2, THEN conjunct1] h2])
  have r3: "XrayReporter_extractTestKey unkeyed_test = None"
    by (rule mp[OF C[THEN conjunct2, THEN conjunct2, THEN conjunct1] h3])
  have r5: "XrayReporterHybrid_onTestBegin accepting_env unkeyed_test example_reporter world0
        = (Inr example_reporter, world0)
     \<and> XrayReporterHybrid_onTestEnd accepting_env unkeyed_test example_test_result example_reporter world0
        = (Inr example_reporter, world0)"
    by (rule mp[OF C[THEN conjunct2, THEN conjunct2, THEN conjunct2, THEN conjunct2, THEN conjunct1] r3])
  have r7: "\<forall>R' w'. XrayReporterHybrid_onTestBegin accepting_env example_test example_reporter world0 = (Inr R', w')
                  \<or> XrayReporterHybrid_onTestEnd accepting_env example_test example_test_result
                       example_reporter world0 = (Inr R', w')
           \<longrightarrow> all_keyed R'"
    by (rule mp[OF A[THEN conjunct2, THEN conjunct2, THEN conjunct2, THEN conjunct2, THEN conjunct2,
            THEN conjunct2] ak])
  have r6: "\<exists>x y L. testKey_of x = ''PROJ-1'' \<and> testKey_of y = ''PROJ-1''
           \<and> XrayReporterHybrid_onTestBegin accepting_env example_test example_reporter world0 =
                (Inr (example_reporter\<lparr>testResults :=
                   Map_set (test_id example_test) x (testResults example_reporter)\<rparr>), world0)
           \<and> XrayReporterHybrid_onTestEnd accepting_env example_test example_test_result
                example_reporter world0 =
                (Inr (example_reporter\<lparr>testResults :=
                   Map_set (test_id example_test) y (testResults example_reporter)\<rparr>),
                 world0\<lparr>logs := logs world0 @ L\<rparr>)"
    by (rule mp[OF spec[OF A[THEN conjunct2, THEN conjunct2, THEN conjunct2, THEN conjunct2,
            THEN conjunct2, THEN conjunct1]] r1])
  have r8: "\<exists>R' w'. XrayReporterHybrid_onTestBegin accepting_env example_test example_reporter world0
                  = (Inr R', w') \<and> all_keyed R'"
    using r6 r7 by blast
  show ?thesis
    by (intro conjI k1 t1 r1 h2[THEN conjunct1] h2[THEN conjunct2] r2 h3[THEN conjunct1]
        h3[THEN conjunct2] r3 r5[THEN conjunct1] r5[THEN conjunct2] ak r8)
qed

lemma starts_with_prefix: "starts_with s sub \<longleftrightarrow> prefix sub s"
  by (induction s sub rule: starts_with.induct) auto

lemma includes_sublist: "js_includes s sub \<longleftrightarrow> sublist sub s"
  by (induction s) (auto simp: starts_with_prefix sublist_Cons_right)

lemma bind_assoc: "bind (bind m f) g = bind m (\<lambda>v. bind (f v) g)"
  by (rule ext) (simp add: bind_def split: prod.splits sum.splits)

lemma verifyPageLoaded_run:
  assumes "googleLogo_visible page = None" and "searchInput_visible page = None"
    and "page_title page = Inr t"
  shows "GoogleHomePage_verifyPageLoaded page w =
           (if js_includes (toLowerCase t) ''google''
            then (Inr (), w\<lparr>logs := logs w @
                    [(Debug, ''Google logo should be visible''),
                     (Debug, ''Search input should be visible''),
                     (Debug, ''Page title: '' @ t),
                     (Info, ''Google home page verified successfully'')]\<rparr>)
            else (Inl (title_error t), w\<lparr>logs := logs w @
                    [(Debug, ''Google logo should be visible''),
                     (Debug, ''Search input should be visible''),
                     (Debug, ''Page title: '' @ t)]\<rparr>))"
  using assms
  by (simp add: GoogleHomePage_verifyPageLoaded_def BasePage_assertElementVisible_def
      BasePage_getTitle_def or_str_def bind_assoc bind_logger bind_lift_Inr bind_ret throw_apply
      logger_apply)

text \<open>
  Claim C8. Given that the two visibility assertions pass and the driver returns the title
  \<open>t\<close>, \<^verbatim>\<open>GoogleHomePage.verifyPageLoaded\<close> throws exactly when \<open>t\<close>, lowercased, does not
  contain 'google', and then it throws the error naming the title; it returns normally
  for every title of which some substring is 'google' written in any letter case.
\<close>

theorem verifyPageLoaded_throws_iff_title_mismatch:
  assumes "googleLogo_visible page = None" and "searchInput_visible page = None"
    and "page_title page = Inr t"
  shows "(isl (fst (GoogleHomePage_verifyPageLoaded page w)) \<longleftrightarrow> \<not> sublist ''google'' (toLowerCase t))
     \<and> (\<not> sublist ''google'' (toLowerCase t) \<longrightarrow>
           fst (GoogleHomePage_verifyPageLoaded page w) = Inl (title_error t))
     \<and> (\<forall>u. sublist u t \<and> toLowerCase u = ''google'' \<longrightarrow>
           fst (GoogleHomePage_verifyPageLoaded page w) = Inr ())"
proof -
  have any_case: "sublist ''google'' (toLowerCase t)" if "sublist u t" "toLowerCase u = ''google''" for u
  proof -
    from that(1) obtain ps ss where "t = ps @ u @ ss" unfolding sublist_def by blast
    then have "toLowerCase t = toLowerCase ps @ ''google'' @ toLowerCase ss"
      using that(2) by (simp add: toLowerCase_def)
    then show ?thesis unfolding sublist_def by blast
  qed
  show ?thesis
    unfolding verifyPageLoaded_run[OF assms] includes_sublist
    using any_case by auto
qed

theorem verifyPageLoaded_throws_iff_title_mismatch_witness:
  "fst (GoogleHomePage_verifyPageLoaded (google_page ''GOOGLE Search'') world0) = Inr ()
   \<and> sublist ''GOOGLE'' ''GOOGLE Search'' \<and> toLowerCase ''GOOGLE'' = ''google''
   \<and> \<not> sublist ''google'' (toLowerCase ''Example Domain'')
   \<and> fst (GoogleHomePage_verifyPageLoaded (google_page ''Example Domain'') world0)
        = Inl (title_error ''Example Domain'')"
proof -
  have p: "googleLogo_visible (google_page t) = None" "searchInput_visible (google_page t) = None"
    "page_title (google_page t) = Inr t" for t
    by (simp_all add: google_page_def)
  have a: "sublist ''GOOGLE'' ''GOOGLE Search''"
    unfolding sublist_def by (rule exI[of _ "[]"], rule exI[of _ "'' Search''"]) simp
  have b: "toLowerCase ''GOOGLE'' = ''google''"
    by (simp add: toLowerCase_def toLowerCase_char_def)
  have c: "\<not> sublist ''google'' (toLowerCase ''Example Domain'')"
    unfolding includes_sublist[symmetric]
    by (simp add: toLowerCase_def toLowerCase_char_def)
  note A = verifyPageLoaded_throws_iff_title_mismatch[OF p(1) p(2) p(3), of "''GOOGLE Search''" world0]
  note B = verifyPageLoaded_throws_iff_title_mismatch[OF p(1) p(2) p(3), of "''Example Domain''" world0]
  have r1: "fst (GoogleHomePage_verifyPageLoaded (google_page ''GOOGLE Search'') world0) = Inr ()"
    by (rule mp[OF spec[OF A[THEN conjunct2, THEN conjunct2]] conjI[OF a b]])
  have r2: "fst (GoogleHomePage_verifyPageLoaded (google_page ''Example Domain'') world0)
        = Inl (title_error ''Example Domain'')"
    by (rule mp[OF B[THEN conjunct2, THEN conjunct1] c])
  show ?thesis by (intro conjI r1 a b c r2)
qed

lemmas error_logging_handler_defs =
  XrayReporterCloud_onEnd_catch_def XrayReporterCloud_reportToXrayCloud_catch_def
  XrayClientXrayApi_findTestCase_catch_def XrayClientXrayApi_updateTestCaseStatus_catch_def
  XrayClientXrayApi_createTestExecution_catch_def XrayClientFull_createTestCase_catch_def
  XrayClientFull_updateTestCaseStatus_catch_def XrayClientFull_createTestExecution_catch_def
  XrayClientFull_addTestExecutionComment_catch_def XrayClientReadOnly_findTestCase_catch_def
  XrayClientReadOnly_createTestExecution_catch_def
  XrayClientSimple_createTestExecution_catch_def
  XrayClientSimple_addTestsToExecution_catch_def
  XrayClientSimple_updateTestExecutionStatus_catch_def
  XrayClient_createTestExecution_catch_def XrayClient_addTestsToExecution_catch_def
  XrayClient_updateTestExecutionStatus_catch_def XrayClientOld_createTestExecution_catch_def
  XrayClientOld_addTestsToExecution_catch_def
  XrayClientOld_updateTestExecutionStatus_catch_def XrayClientOld_getTestExecution_catch_def
  XrayClientOld_searchTestCases_catch_def XrayClientOld_getTestCase_catch_def
  XrayCloudClient_importTestCase_catch_def XrayCloudClient_updateTestCaseStatus_catch_def
  XrayCloudClient_createTestExecution_catch_def
  XrayCloudClient_addTestExecutionComment_catch_def
  XrayServerClient_findTestCaseByDescription_catch_def
  XrayServerClient_updateTestCaseSummary_catch_def XrayServerClient_createTestCase_catch_def
  XrayServerClient_updateTestCaseStatus_catch_def
  XrayServerClient_ensureTestExecutionExists_catch_def
  XrayServerClient_addTestCaseToExecution_catch_def
  XrayServerClient_createTestExecution_catch_def XrayReporterServerEnhanced_onEnd_catch_def
  XrayReporterServerEnhanced_reportToXrayServer_catch_def
  XrayCloudClientAuth_authenticate_catch_def XrayCloudClientAuth_importTestCase_catch_def
  XrayCloudClientAuth_updateTestCaseStatus_catch_def
  XrayCloudClientAuth_createTestExecution_catch_def
  XrayCloudClientAuth_addTestExecutionComment_catch_def XrayReporterTs_onEnd_catch_def
  XrayReporterTs_reportToXray_catch_def XrayServerClientComments_createTestCase_catch_def
  XrayServerClientComments_updateTestCaseStatus_catch_def
  XrayServerClientComments_addTestExecutionComment_catch_def
  XrayServerClientComments_createTestExecution_catch_def
  XrayClientJira_findTestCase_catch_def XrayClientJira_createTestCase_catch_def
  XrayClientJira_updateTestCaseStatus_catch_def XrayClientJira_createTestExecution_catch_def
  XrayClientHybrid_updateTestCaseStatus_catch_def
  XrayClientHybrid_addTestExecutionComment_catch_def
  XrayClientHybrid_createTestExecution_catch_def XrayReporterFull_onEnd_catch_def
  XrayReporterFull_reportToXray_catch_def XrayReporterHybrid_onEnd_catch_def
  XrayReporterHybrid_reportToXray_catch_def XrayReporterServer_onEnd_catch_def
  XrayReporterServer_reportToXrayServer_catch_def XrayReporterSimple_onEnd_catch_def
  XrayReporterSimple_reportToXray_catch_def XrayReporter_onEnd_catch_def
  XrayReporter_reportToXray_catch_def

lemmas not_found_handler_defs =
  XrayClientFull_findTestCase_catch_def XrayCloudClient_findTestCase_catch_def
  XrayServerClient_findTestCase_catch_def XrayCloudClientAuth_findTestCase_catch_def
  XrayServerClientComments_findTestCase_catch_def XrayClientHybrid_findTestCase_catch_def

lemma list_all_unfold:
  "list_all P [] \<longleftrightarrow> True"
  "list_all P (x # xs) \<longleftrightarrow> P x \<and> list_all P xs"
  by simp_all

lemma logs_error_first:
  "suffix (error_toString error) msg \<Longrightarrow> logs_error ((l, msg) # L) error"
  unfolding logs_error_def by (intro exI[of _ l] exI[of _ msg]) simp

lemma log_and_continue_1:
  assumes "v = JNull \<or> v = JBool False \<or> v = JUndefined"
    and "\<And>error. suffix (error_toString error) (m error)"
  shows "log_and_continue (\<lambda>error. bind (logger l (m error)) (\<lambda>_. ret v))"
  unfolding log_and_continue_def
proof (intro allI)
  fix error and w :: "'a world"
  show "\<exists>L v'. logs_error L error
                \<and> bind (logger l (m error)) (\<lambda>_. ret v) w = (Inr v', w\<lparr>logs := logs w @ L\<rparr>)
                \<and> (v' = JNull \<or> v' = JBool False \<or> v' = JUndefined)"
    using assms(1) logs_error_first[where l=l and L="[]", OF assms(2)]
    by (intro exI[of _ "[(l, m error)]"] exI[of _ v]) (simp add: bind_def logger_def ret_def)
qed

lemma log_and_continue_2:
  assumes "v = JNull \<or> v = JBool False \<or> v = JUndefined"
    and "\<And>error. suffix (error_toString error) (m error)"
  shows "log_and_continue (\<lambda>error. bind (logger l (m error)) (\<lambda>_. bind (logger l' (m' error)) (\<lambda>_. ret v)))"
  unfolding log_and_continue_def
proof (intro allI)
  fix error and w :: "'a world"
  show "\<exists>L v'. logs_error L error
                \<and> bind (logger l (m error)) (\<lambda>_. bind (logger l' (m' error)) (\<lambda>_. ret v)) w
                    = (Inr v', w\<lparr>logs := logs w @ L\<rparr>)
                \<and> (v' = JNull \<or> v' = JBool False \<or> v' = JUndefined)"
    using assms(1) logs_error_first[where l=l and L="[(l', m' error)]", OF assms(2)]
    by (intro exI[of _ "[(l, m error), (l', m' error)]"] exI[of _ v])
       (simp add: bind_def logger_def ret_def)
qed

lemma log_and_throw_1:
  assumes "\<And>error. suffix (error_toString error) (m error)"
  shows "log_and_throw (\<lambda>error. bind (logger l (m error)) (\<lambda>_. throw error))"
  unfolding log_and_throw_def
proof (intro allI)
  fix error and w :: "'a world"
  show "\<exists>L. logs_error L error \<and> bind (logger l (m error)) (\<lambda>_. throw error) w
                    = (Inl error, w\<lparr>logs := logs w @ L\<rparr>)"
    using logs_error_first[where l=l and L="[]", OF assms]
    by (intro exI[of _ "[(l, m error)]"]) (simp add: bind_def logger_def throw_def)
qed

lemma continue_1:
  assumes "v = JNull \<or> v = JBool False \<or> v = JUndefined"
    and "\<And>error. suffix (error_toString error) (m error)"
  shows "log_and_continue_or_throw (\<lambda>error. bind (logger l (m error)) (\<lambda>_. ret v))"
  unfolding log_and_continue_or_throw_def using log_and_continue_1[OF assms] by blast

lemma continue_2:
  assumes "v = JNull \<or> v = JBool False \<or> v = JUndefined"
    and "\<And>error. suffix (error_toString error) (m error)"
  shows "log_and_continue_or_throw
           (\<lambda>error. bind (logger l (m error)) (\<lambda>_. bind (logger l' (m' error)) (\<lambda>_. ret v)))"
  unfolding log_and_continue_or_throw_def using log_and_continue_2[OF assms] by blast

lemma throw_1:
  assumes "\<And>error. suffix (error_toString error) (m error)"
  shows "log_and_continue_or_throw (\<lambda>error. bind (logger l (m error)) (\<lambda>_. throw error))"
  unfolding log_and_continue_or_throw_def using log_and_throw_1[OF assms] by blast

lemma not_found_1:
  "log_not_found_and_continue (\<lambda>error. bind (logger l msg) (\<lambda>_. ret JNull))"
  unfolding log_not_found_and_continue_def
  by (intro exI[of _ "[(l, msg)]"]) (simp add: bind_def logger_def ret_def)

lemma interceptor_onRejected_log_message_and_reject:
  "log_message_and_reject (interceptor_onRejected api detailed E req r)"
  unfolding log_message_and_reject_def
proof (intro allI)
  fix error and w :: "'a world"
  let ?first = "(Err, api @ '' call failed: '' @ req_method req @ '' '' @ req_url req
                       @ '' - '' @ err_message error)"
  have "suffix (err_message error) (snd ?first)"
    unfolding snd_conv by (intro suffix_appendI suffix_order.refl)
  then have first: "logs_message (?first # L) error" for L
    unfolding logs_message_def by (intro exI[of _ Err] exI[of _ "snd ?first"]) simp
  show "\<exists>L. logs_message L error \<and> interceptor_onRejected api detailed E req r error w
                    = (Inl error, w\<lparr>logs := logs w @ L\<rparr>)"
  proof (cases r)
    case None
    then show ?thesis using first[of "[]"]
      by (intro exI[of _ "[?first]"])
         (simp add: interceptor_onRejected_def bind_def logger_def throw_def ret_def)
  next
    case (Some sd)
    obtain st d where sd: "sd = (st, d)" by (cases sd)
    show ?thesis
    proof (cases detailed)
      case True
      then show ?thesis unfolding Some sd
        using first[of "[(Err, ''Response status: '' @ show_int st),
                         (Err, ''Response data: '' @ JSON_stringify E d)]"]
        by (intro exI[of _ "[?first, (Err, ''Response status: '' @ show_int st),
                             (Err, ''Response data: '' @ JSON_stringify E d)]"])
           (simp add: interceptor_onRejected_def bind_def logger_def throw_def ret_def)
    next
      case False
      then show ?thesis unfolding Some sd using first[of "[]"]
        by (intro exI[of _ "[?first]"])
           (simp add: interceptor_onRejected_def bind_def logger_def throw_def ret_def)
    qed
  qed
qed

lemma error_logging_handlers_log_and_continue_or_throw:
  "list_all log_and_continue_or_throw (error_logging_handlers testKey testExecutionKey)"
  unfolding error_logging_handlers_def list_all_unfold error_logging_handler_defs[abs_def]
  apply (intro conjI TrueI)
  apply ((rule throw_1, intro suffix_appendI suffix_order.refl)
       | (rule continue_1 continue_2, simp, intro suffix_appendI suffix_order.refl))+
  done

lemma not_found_handlers_log_not_found:
  "list_all log_not_found_and_continue (not_found_handlers testKey)"
  unfolding not_found_handlers_def list_all_unfold not_found_handler_defs[abs_def]
  by (intro conjI TrueI not_found_1)

lemma interceptor_handlers_log_message_and_reject:
  "list_all log_message_and_reject (interceptor_handlers E req r)"
  unfolding interceptor_handlers_def list_all_unfold
  by (intro conjI TrueI interceptor_onRejected_log_message_and_reject)

lemma tryCreateTestCase_catch_run:
  "XrayClientHybrid_tryCreateTestCase_catch testKey error w =
     (Inr JNull,
      w\<lparr>logs := logs w @ [(Warn, ''Failed to create test case '' @ testKey @ '': '' @ error_toString error),
                           (Info, ''Disabling test case creation for future attempts'')],
        canCreateIssues := False\<rparr>)"
  by (simp add: XrayClientHybrid_tryCreateTestCase_catch_def bind_def logger_def ret_def
      set_canCreateIssues_def)

lemma log_and_continue_or_throw_run:
  assumes "log_and_continue_or_throw h"
  shows "\<exists>L r. logs_error L error \<and> h error w = (r, w\<lparr>logs := logs w @ L\<rparr>)"
  using assms unfolding log_and_continue_or_throw_def log_and_continue_def log_and_throw_def
  by blast

lemma tryCreateTestCase_catch_not_log_only:
  "\<not> log_and_continue_or_throw
       (XrayClientHybrid_tryCreateTestCase_catch testKey :: js_error \<Rightarrow> (json, unit) prog)"
proof
  let ?h = "XrayClientHybrid_tryCreateTestCase_catch testKey :: js_error \<Rightarrow> (json, unit) prog"
  let ?e = "JsError ''Error'' ''boom''"
  assume "log_and_continue_or_throw ?h"
  from log_and_continue_or_throw_run[OF this, of ?e world0]
  obtain L r where run: "?h ?e world0 = (r, world0\<lparr>logs := logs world0 @ L\<rparr>)" by blast
  have "canCreateIssues (snd (?h ?e world0))"
    unfolding run by (simp add: world0_def)
  moreover have "\<not> canCreateIssues (snd (?h ?e world0))"
    unfolding tryCreateTestCase_catch_run by simp
  ultimately show False by contradiction
qed

lemma Full_findTestCase_catch_not_logging_error:
  "\<not> log_and_continue_or_throw
       (XrayClientFull_findTestCase_catch ''PROJ-1'' :: js_error \<Rightarrow> (json, unit) prog)"
proof
  let ?h = "XrayClientFull_findTestCase_catch ''PROJ-1'' :: js_error \<Rightarrow> (json, unit) prog"
  let ?e = "JsError ''Error'' ''boom''"
  let ?line = "(Info, ''Test case PROJ-1 not found - will create it'')"
  assume "log_and_continue_or_throw ?h"
  from log_and_continue_or_throw_run[OF this, of ?e world0]
  obtain L r where L: "logs_error L ?e"
    and run: "?h ?e world0 = (r, world0\<lparr>logs := logs world0 @ L\<rparr>)" by blast
  have "?h ?e world0 = (Inr JNull, world0\<lparr>logs := logs world0 @ [?line]\<rparr>)"
    by (simp add: XrayClientFull_findTestCase_catch_def bind_def logger_def ret_def)
  then have "logs (world0\<lparr>logs := logs world0 @ L\<rparr>) = logs (world0\<lparr>logs := logs world0 @ [?line]\<rparr>)"
    unfolding run by simp
  then have "L = [?line]" by simp
  then have "suffix (error_toString ?e) ''Test case PROJ-1 not found - will create it''"
    using L unfolding logs_error_def by simp
  then show False
    by (simp add: error_toString_def suffix_to_prefix)
qed

text \<open>
  Claim C3, as amended. Every \<^verbatim>\<open>catch\<close> block of the reporters and the Xray clients logs and
  then either returns \<open>null\<close>, \<open>false\<close> or \<open>undefined\<close>, or throws the error it caught; it sends no
  request and changes nothing but the log, so none retries or undoes anything. There are two
  exceptions. First, what is logged is the caught error in 64 of the 71 blocks and in the block
  of \<^verbatim>\<open>tryCreateTestCase\<close>, but the six \<^verbatim>\<open>catch\<close> blocks of \<^verbatim>\<open>findTestCase\<close> in XrayClientFull,
  XrayClientHybrid, XrayCloudClient (both copies) and XrayServerClient (both copies) log
  only that the test case was not found, whatever the error, and return \<open>null\<close>. Second, the
  block of \<^verbatim>\<open>XrayClientHybrid.tryCreateTestCase\<close> logs the error and a second line, returns
  \<open>null\<close> and also sets \<open>canCreateIssues\<close> to \<open>false\<close>, which makes every later call skip the
  creation request. The rejection handler of every response interceptor logs the message of
  the error and rejects with the same error.
\<close>

theorem failure_handlers_log_and_continue_or_throw:
  "list_all log_and_continue_or_throw (error_logging_handlers testKey testExecutionKey)
   \<and> list_all log_not_found_and_continue (not_found_handlers testKey)
   \<and> list_all log_message_and_reject (interceptor_handlers E req r)
   \<and> XrayClientHybrid_tryCreateTestCase_catch testKey error w
       = (Inr JNull,
          w\<lparr>logs := logs w @ [(Warn, ''Failed to create test case '' @ testKey @ '': ''
                                      @ error_toString error),
                               (Info, ''Disabling test case creation for future attempts'')],
            canCreateIssues := False\<rparr>)"
proof (intro conjI)
  show "list_all log_and_continue_or_throw (error_logging_handlers testKey testExecutionKey)"
    by (rule error_logging_handlers_log_and_continue_or_throw)
  show "list_all log_not_found_and_continue (not_found_handlers testKey)"
    by (rule not_found_handlers_log_not_found)
  show "list_all log_message_and_reject (interceptor_handlers E req r)"
    by (rule interceptor_handlers_log_message_and_reject)
  show "XrayClientHybrid_tryCreateTestCase_catch testKey error w
       = (Inr JNull,
          w\<lparr>logs := logs w @ [(Warn, ''Failed to create test case '' @ testKey @ '': ''
                                      @ error_toString error),
                               (Info, ''Disabling test case creation for future attempts'')],
            canCreateIssues := False\<rparr>)"
    by (rule tryCreateTestCase_catch_run)
qed

theorem failure_handlers_log_and_continue_or_throw_witness:
  "list_all log_and_continue_or_throw
     (error_logging_handlers ''PROJ-1'' ''EXEC-1'' :: (js_error \<Rightarrow> (json, unit) prog) list)
   \<and> list_all log_not_found_and_continue
       (not_found_handlers ''PROJ-1'' :: (js_error \<Rightarrow> (json, unit) prog) list)
   \<and> list_all log_message_and_reject
       (interceptor_handlers rejecting_env (GET_issue ''PROJ-1'') (Some (404, JObj [])))
   \<and> XrayClientHybrid_tryCreateTestCase_catch ''PROJ-1''
        (JsError ''AxiosError'' ''Request failed with status code 403'') world0
      = (Inr JNull,
         world0\<lparr>logs := logs world0 @ [(Warn, ''Failed to create test case '' @ ''PROJ-1'' @ '': ''
                  @ error_toString (JsError ''AxiosError'' ''Request failed with status code 403'')),
                 (Info, ''Disabling test case creation for future attempts'')],
           canCreateIssues := False\<rparr>)
   \<and> XrayClientFull_createTestCase_catch ''PROJ-1''
        (JsError ''AxiosError'' ''Request failed with status code 403'') world0
      = (Inl (JsError ''AxiosError'' ''Request failed with status code 403''),
         world0\<lparr>logs := [(Err, ''Failed to create test case PROJ-1: AxiosError: Request failed with status code 403'')]\<rparr>)"
proof -
  have run: "XrayClientFull_createTestCase_catch ''PROJ-1''
        (JsError ''AxiosError'' ''Request failed with status code 403'') world0
      = (Inl (JsError ''AxiosError'' ''Request failed with status code 403''),
         world0\<lparr>logs := [(Err, ''Failed to create test case PROJ-1: AxiosError: Request failed with status code 403'')]\<rparr>)"
    by (simp add: XrayClientFull_createTestCase_catch_def bind_def logger_def throw_def
        error_toString_def world0_def)
  note T = failure_handlers_log_and_continue_or_throw[of "''PROJ-1''" "''EXEC-1''" rejecting_env
      "GET_issue ''PROJ-1''" "Some (404, JObj [])"
      "JsError ''AxiosError'' ''Request failed with status code 403''" world0]
  show ?thesis
    by (intro conjI T[THEN conjunct1] T[THEN conjunct2, THEN conjunct1]
        T[THEN conjunct2, THEN conjunct2, THEN conjunct1]
        T[THEN conjunct2, THEN conjunct2, THEN conjunct2] run)
qed

text \<open>
  The claim as the specification states it (every handler logs the error it caught and then
  only returns a fallback or rethrows) fails twice. The handler of
  \<^verbatim>\<open>XrayClientFull.findTestCase\<close> does not log the error: when the server answers a lookup
  with an issue that has no \<^verbatim>\<open>fields\<close>, the TypeError raised inside the method appears in no
  log line. The handler of \<^verbatim>\<open>XrayClientHybrid.tryCreateTestCase\<close> does more than log: when the
  server rejects the creation request, the call leaves \<open>canCreateIssues\<close> false where it was
  true before.
\<close>

theorem catch_handlers_counterexample:
  "\<not> list_all log_and_continue_or_throw
       (all_catch_handlers ''PROJ-1'' ''EXEC-1'' :: (js_error \<Rightarrow> (json, unit) prog) list)
   \<and> \<not> log_and_continue_or_throw
       (XrayClientFull_findTestCase_catch ''PROJ-1'' :: js_error \<Rightarrow> (json, unit) prog)
   \<and> fst (XrayClientFull_findTestCase fieldless_env ''PROJ-1'' world0) = Inr JNull
   \<and> logs (snd (XrayClientFull_findTestCase fieldless_env ''PROJ-1'' world0))
       = [(Info, ''Searching for test case: PROJ-1''),
          (Info, ''Xray API call successful: GET /issue/PROJ-1''),
          (Info, ''Test case PROJ-1 not found - will create it'')]
   \<and> \<not> log_and_continue_or_throw
       (XrayClientHybrid_tryCreateTestCase_catch ''PROJ-1'' :: js_error \<Rightarrow> (json, unit) prog)
   \<and> canCreateIssues world0
   \<and> \<not> canCreateIssues
         (snd (XrayClientHybrid_tryCreateTestCase rejecting_env ''PROJ-1'' ''Login'' None world0))"
proof (intro conjI)
  show "\<not> list_all log_and_continue_or_throw
       (all_catch_handlers ''PROJ-1'' ''EXEC-1'' :: (js_error \<Rightarrow> (json, unit) prog) list)"
    unfolding all_catch_handlers_def list_all_unfold
    using tryCreateTestCase_catch_not_log_only[of "''PROJ-1''"] by blast
  show "\<not> log_and_continue_or_throw
       (XrayClientFull_findTestCase_catch ''PROJ-1'' :: js_error \<Rightarrow> (json, unit) prog)"
    by (rule Full_findTestCase_catch_not_logging_error)
  show "fst (XrayClientFull_findTestCase fieldless_env ''PROJ-1'' world0) = Inr JNull"
    by (simp add: XrayClientFull_findTestCase_def XrayClientFull_findTestCase_catch_def prog_defs
        fieldless_env_def fieldless_srv_def world0_def issuetype_name_def req_method_def
        req_url_def)
  show "logs (snd (XrayClientFull_findTestCase fieldless_env ''PROJ-1'' world0))
       = [(Info, ''Searching for test case: PROJ-1''),
          (Info, ''Xray API call successful: GET /issue/PROJ-1''),
          (Info, ''Test case PROJ-1 not found - will create it'')]"
    by (simp add: XrayClientFull_findTestCase_def XrayClientFull_findTestCase_catch_def prog_defs
        fieldless_env_def fieldless_srv_def world0_def issuetype_name_def req_method_def
        req_url_def)
  show "\<not> log_and_continue_or_throw
       (XrayClientHybrid_tryCreateTestCase_catch ''PROJ-1'' :: js_error \<Rightarrow> (json, unit) prog)"
    by (rule tryCreateTestCase_catch_not_log_only)
  show c: "canCreateIssues world0" by (simp add: world0_def)
  have "creation_request_fails rejecting_env (server world0) ''PROJ-1'' ''Login'' None"
    by (simp add: world0_def creation_request_fails_def rejecting_env_def rejecting_srv_def)
  from tryCreate_failure_latches[OF c this]
  show "\<not> canCreateIssues
         (snd (XrayClientHybrid_tryCreateTestCase rejecting_env ''PROJ-1'' ''Login'' None world0))"
    by blast
qed


end
